theory Spec2Isabelle
  imports Complex_Main "HOL-Library.Char_ord" "HOL-Library.List_Lexorder"
begin

section \<open>Cells of a numeric column\<close>

text \<open>
  A cell of a pandas float64 column. \<open>NaN\<close> is the missing value (\<open>isna\<close> is true of it
  and of nothing else), \<open>NInf\<close> and \<open>PInf\<close> are the two infinities, \<open>Fin x\<close> is a finite
  value. Finite values are real numbers: rounding, overflow and the sign of zero are not
  part of the model. The comparison \<open>== 0\<close> of the source is \<open>v = Fin 0\<close>.
\<close>

datatype fval = NaN | NInf | Fin real | PInf

fun fneg :: "fval \<Rightarrow> fval" where
  "fneg NaN = NaN"
| "fneg NInf = PInf"
| "fneg (Fin x) = Fin (- x)"
| "fneg PInf = NInf"

fun fadd :: "fval \<Rightarrow> fval \<Rightarrow> fval" where
  "fadd (Fin x) (Fin y) = Fin (x + y)"
| "fadd NaN b = NaN"
| "fadd a NaN = NaN"
| "fadd PInf NInf = NaN"
| "fadd NInf PInf = NaN"
| "fadd PInf b = PInf"
| "fadd NInf b = NInf"
| "fadd (Fin x) b = b"

definition fsub :: "fval \<Rightarrow> fval \<Rightarrow> fval" where
  "fsub a b = fadd a (fneg b)"

fun fdiv :: "fval \<Rightarrow> fval \<Rightarrow> fval" where
  "fdiv (Fin x) (Fin y) =
     (if y \<noteq> 0 then Fin (x / y)
      else if 0 < x then PInf else if x < 0 then NInf else NaN)"
| "fdiv NaN b = NaN"
| "fdiv a NaN = NaN"
| "fdiv (Fin x) b = Fin 0"
| "fdiv PInf (Fin y) = (if 0 \<le> y then PInf else NInf)"
| "fdiv NInf (Fin y) = (if 0 \<le> y then NInf else PInf)"
| "fdiv a b = NaN"

fun flog :: "fval \<Rightarrow> fval" where
  "flog NaN = NaN"
| "flog NInf = NaN"
| "flog (Fin x) = (if 0 < x then Fin (ln x) else if x = 0 then NInf else NaN)"
| "flog PInf = PInf"

datatype error = KeyError | IndexError | ValueError | LibraryError

section \<open>Return transform\<close>

text \<open>
  The closing-price frame as \<open>calculate_log_returns\<close> reads it: column 0 holds the dates,
  the columns after it hold one price series per instrument.
\<close>

record 'd price_frame =
  dates :: "'d list"
  prices :: "(string \<times> fval list) list"

text \<open>\<open>shift(1)\<close>: every row takes the value of the row before it, the first row has none.\<close>

definition shift1 :: "fval list \<Rightarrow> fval list" where
  "shift1 xs = (if xs = [] then [] else NaN # butlast xs)"

text \<open>\<open>np.log(col.shift(1) / col)\<close> on one column.\<close>

definition log_returns_column :: "fval list \<Rightarrow> fval list" where
  "log_returns_column ps = map (\<lambda>(prev, cur). flog (fdiv prev cur)) (zip (shift1 ps) ps)"

text \<open>
  \<open>calculate_log_returns\<close>. \<open>insert(0, 'Date', date_column)\<close> raises ValueError when a price
  column is already called \<open>Date\<close>.
\<close>

definition calculate_log_returns :: "'d price_frame \<Rightarrow> error + 'd price_frame" where
  "calculate_log_returns df =
     (let date_column = dates df;
          log_returns = map (\<lambda>(name, ps). (name, log_returns_column ps)) (prices df)
      in if ''Date'' \<in> set (map fst log_returns) then Inl ValueError
         else Inr \<lparr>dates = date_column, prices = log_returns\<rparr>)"

text \<open>The caller's next step, \<open>df1 = df1[1:]\<close>, on one column.\<close>

definition remove_first_line :: "'a list \<Rightarrow> 'a list" where
  "remove_first_line col = drop 1 col"

text \<open>
  A series is a list of rows, each an index label and a value. The labels are compared
  with \<open>\<le>\<close>, as \<open>series.index >= first_valid_index\<close> does.
\<close>

definition is_valid :: "fval \<Rightarrow> bool" where
  "is_valid v \<longleftrightarrow> v \<noteq> Fin 0 \<and> v \<noteq> NaN"

definition valid_values :: "('l \<times> fval) list \<Rightarrow> ('l \<times> fval) list" where
  "valid_values series = filter (\<lambda>(i, v). is_valid v) series"

definition fsum :: "fval list \<Rightarrow> fval" where
  "fsum vs = foldl fadd (Fin 0) vs"

text \<open>\<open>Series.mean\<close>; on an empty series it is NaN.\<close>

definition mean :: "fval list \<Rightarrow> fval" where
  "mean vs = fdiv (fsum vs) (Fin (real (length vs)))"

definition replace_nans_and_zeros_with_mean ::
  "('l::linorder \<times> fval) list \<Rightarrow> ('l \<times> fval) list" where
  "replace_nans_and_zeros_with_mean series =
     (let overall_mean = mean (map snd (valid_values series))
      in if valid_values series = [] then series
         else
           let valid_indices = map fst (valid_values series);
               first_valid_index = Min (set valid_indices);
               last_valid_index = Max (set valid_indices);
               mask = map (\<lambda>(i, v). (v = Fin 0 \<or> v = NaN) \<and>
                                     first_valid_index \<le> i \<and> i \<le> last_valid_index) series
           in map (\<lambda>((i, v), m). if m then (i, overall_mean) else (i, v)) (zip series mask))"

section \<open>Excess returns\<close>

text \<open>
  A frame after \<open>set_index\<close>: the index labels and the columns, each column as long as
  the index (\<open>wf_frame\<close>). Every column is a float64 column, so \<open>select_dtypes\<close> with
  float64 and int64 keeps them all.
\<close>

record 'l frame =
  index :: "'l list"
  columns :: "(string \<times> fval list) list"

definition wf_frame :: "'l frame \<Rightarrow> bool" where
  "wf_frame df = list_all (\<lambda>(name, col). length col = length (index df)) (columns df)"

text \<open>
  \<open>reindex\<close> of a series onto a target index: a label of the target that the series does
  not have becomes NaN. pandas returns the series as it is when its index equals the
  target, and refuses (ValueError) an index with duplicate labels otherwise.
\<close>

definition label_value :: "('l \<times> fval) list \<Rightarrow> 'l \<Rightarrow> fval" where
  "label_value series t = (case map_of series t of None \<Rightarrow> NaN | Some v \<Rightarrow> v)"

definition reindex :: "('l \<times> fval) list \<Rightarrow> 'l list \<Rightarrow> error + fval list" where
  "reindex series target =
     (if map fst series = target then Inr (map snd series)
      else if distinct (map fst series) then Inr (map (label_value series) target)
      else Inl ValueError)"

text \<open>\<open>df.where(df == 0, df.subtract(riskfree, axis=0))\<close> on one column.\<close>

definition subtract_where :: "fval list \<Rightarrow> fval list \<Rightarrow> fval list" where
  "subtract_where col riskfree =
     map (\<lambda>(v, r). if v = Fin 0 then v else fsub v r) (zip col riskfree)"

text \<open>
  Line 627: the excess returns of the first table, from the risk-free series aligned to
  the index of that table (line 624).
\<close>

definition df_log_excess_return :: "'l frame \<Rightarrow> ('l \<times> fval) list \<Rightarrow> error + 'l frame" where
  "df_log_excess_return df1 df_riskfree =
     (case reindex df_riskfree (index df1) of
        Inl e \<Rightarrow> Inl e
      | Inr df_riskfree_aligned \<Rightarrow>
          Inr (df1\<lparr>columns :=
                 map (\<lambda>(name, col). (name, subtract_where col df_riskfree_aligned))
                   (columns df1)\<rparr>))"

text \<open>
  Line 631: the excess returns of the second table. The series subtracted is
  \<open>df_riskfree_aligned\<close>, which carries the index of the first table; \<open>subtract\<close> and
  \<open>where\<close> put it on the index of the second table, so a timestamp of the second table
  that the first does not have meets NaN.
\<close>

definition df_log_excess_return_mutual ::
  "'l frame \<Rightarrow> 'l frame \<Rightarrow> ('l \<times> fval) list \<Rightarrow> error + 'l frame" where
  "df_log_excess_return_mutual df1 df2 df_riskfree =
     (case reindex df_riskfree (index df1) of
        Inl e \<Rightarrow> Inl e
      | Inr df_riskfree_aligned \<Rightarrow>
          (case reindex (zip (index df1) df_riskfree_aligned) (index df2) of
             Inl e \<Rightarrow> Inl e
           | Inr on_df2 \<Rightarrow>
               Inr (df2\<lparr>columns :=
                      map (\<lambda>(name, col). (name, subtract_where col on_df2)) (columns df2)\<rparr>)))"

text \<open>\<open>replace(0.00, np.nan)\<close>.\<close>

definition replace_zero :: "fval \<Rightarrow> fval" where
  "replace_zero v = (if v = Fin 0 then NaN else v)"

definition replace_zeros :: "'l frame \<Rightarrow> 'l frame" where
  "replace_zeros df = df\<lparr>columns := map (\<lambda>(name, col). (name, map replace_zero col)) (columns df)\<rparr>"

text \<open>
  The alignment stage, lines 624 to 635, for the two return tables: the excess returns of
  both are computed, then zero is replaced by NaN in the two tables and in their excess
  returns. The result is (raw returns of the first table, its excess returns, raw returns
  of the second table, its excess returns).
\<close>

definition excess_return_stage ::
  "'l frame \<Rightarrow> 'l frame \<Rightarrow> ('l \<times> fval) list \<Rightarrow>
   error + ('l frame \<times> 'l frame \<times> 'l frame \<times> 'l frame)" where
  "excess_return_stage df1 df2 df_riskfree =
     (case df_log_excess_return df1 df_riskfree of
        Inl e \<Rightarrow> Inl e
      | Inr df_log_excess_return_etf \<Rightarrow>
          (case df_log_excess_return_mutual df1 df2 df_riskfree of
             Inl e \<Rightarrow> Inl e
           | Inr df_log_excess_return_mutual' \<Rightarrow>
               Inr (replace_zeros df1, replace_zeros df_log_excess_return_etf,
                    replace_zeros df2, replace_zeros df_log_excess_return_mutual')))"

section \<open>Frames: rows, missing values, labels\<close>

text \<open>Running a step on every element of a list; the first exception ends the run.\<close>

fun collect :: "('a \<Rightarrow> error + 'b) \<Rightarrow> 'a list \<Rightarrow> error + 'b list" where
  "collect f [] = Inr []"
| "collect f (x # xs) =
     (case f x of
        Inl e \<Rightarrow> Inl e
      | Inr y \<Rightarrow> (case collect f xs of Inl e \<Rightarrow> Inl e | Inr ys \<Rightarrow> Inr (y # ys)))"

text \<open>Positional access, \<open>xs[i]\<close> and \<open>.iloc[i]\<close>.\<close>

definition at_position :: "'a list \<Rightarrow> nat \<Rightarrow> error + 'a" where
  "at_position xs i = (if i < length xs then Inr (xs ! i) else Inl IndexError)"

text \<open>\<open>df[column]\<close> as a frame of one column.\<close>

definition column_frame :: "'l list \<Rightarrow> string \<times> fval list \<Rightarrow> 'l frame" where
  "column_frame labels c = \<lparr>index = labels, columns = [c]\<rparr>"

text \<open>The rows of a frame at the given positions, in that order.\<close>

definition take_rows :: "nat list \<Rightarrow> 'l frame \<Rightarrow> 'l frame" where
  "take_rows ps df =
     \<lparr>index = map (\<lambda>i. index df ! i) ps,
      columns = map (\<lambda>(name, col). (name, map (\<lambda>i. col ! i) ps)) (columns df)\<rparr>"

definition row_has_nan :: "'l frame \<Rightarrow> nat \<Rightarrow> bool" where
  "row_has_nan df i = list_ex (\<lambda>(name, col). col ! i = NaN) (columns df)"

text \<open>\<open>dropna()\<close>: the rows in which no column is NaN.\<close>

definition dropna :: "'l frame \<Rightarrow> 'l frame" where
  "dropna df = take_rows (filter (\<lambda>i. \<not> row_has_nan df i) [0..<length (index df)]) df"

text \<open>\<open>sort_index()\<close>: the rows in ascending order of their labels.\<close>

definition sort_index :: "('l::linorder) frame \<Rightarrow> 'l frame" where
  "sort_index df = take_rows (sort_key (\<lambda>i. index df ! i) [0..<length (index df)]) df"

text \<open>
  \<open>.loc[labels]\<close>: for each label in turn the rows that carry it; KeyError when a label
  is not in the index.
\<close>

definition loc :: "'l frame \<Rightarrow> 'l list \<Rightarrow> error + 'l frame" where
  "loc df labels =
     (if list_ex (\<lambda>t. t \<notin> set (index df)) labels then Inl KeyError
      else Inr (take_rows
                  (concat (map (\<lambda>t. filter (\<lambda>i. index df ! i = t) [0..<length (index df)]) labels))
                  df))"

text \<open>A frame with a unique index, moved onto the labels of \<open>target\<close>.\<close>

definition reindex_frame :: "'l frame \<Rightarrow> 'l list \<Rightarrow> 'l frame" where
  "reindex_frame df target =
     \<lparr>index = target,
      columns = map (\<lambda>(name, col). (name, map (label_value (zip (index df) col)) target))
                  (columns df)\<rparr>"

text \<open>
  \<open>pd.concat([a, b], axis=1)\<close>: the columns of both frames side by side on the union of
  the two indexes. Equal indexes are used as they are. Two different indexes must each be
  free of duplicates (ValueError otherwise), and their union is sorted.
\<close>

definition concat_axis1 :: "('l::linorder) frame \<Rightarrow> 'l frame \<Rightarrow> error + 'l frame" where
  "concat_axis1 a b =
     (if index a = index b then Inr \<lparr>index = index a, columns = columns a @ columns b\<rparr>
      else if distinct (index a) \<and> distinct (index b) then
        (let u = sort (index a @ filter (\<lambda>t. t \<notin> set (index a)) (index b))
         in Inr \<lparr>index = u, columns = columns (reindex_frame a u) @ columns (reindex_frame b u)\<rparr>)
      else Inl ValueError)"

section \<open>The statistics library\<close>

text \<open>
  What \<open>sm.OLS(y, X).fit()\<close> returns, as far as the program reads it. \<open>conf_int\<close> holds
  one (lower, upper) pair per coefficient.
\<close>

record fit =
  params :: "fval list"
  pvalues :: "fval list"
  rsquared :: fval
  f_pvalue :: fval
  conf_int :: "(fval \<times> fval) list"
  resid :: "fval list"
  fittedvalues :: "fval list"

text \<open>
  The functions of statsmodels, scipy and pandas that the program calls and whose code is
  not part of it. They are parameters of the model. A function that can raise returns an
  option, \<open>None\<close> for the exception. \<open>OLS_fit y X\<close> is \<open>sm.OLS(y, X).fit()\<close> on the
  response \<open>y\<close> and the design columns \<open>X\<close>; \<open>het_breuschpagan\<close> and \<open>het_white\<close> take
  the residuals and the design columns and return (LM statistic, its p-value, F statistic,
  its p-value); \<open>shapiro\<close> and \<open>jarque_bera\<close> return (statistic, p-value);
  \<open>kurtosis xs fisher\<close> is \<open>stats.kurtosis(xs, fisher=fisher)\<close>;
  \<open>variance_inflation_factor exog i\<close> takes the design columns and the position of one
  of them; \<open>is_datetime64_any_dtype\<close> is the dtype test on an index and \<open>to_datetime\<close>
  tells whether \<open>pd.to_datetime\<close> converts the index (\<open>False\<close>: it raises).
\<close>

record 'l library =
  OLS_fit :: "fval list \<Rightarrow> fval list list \<Rightarrow> fit option"
  het_breuschpagan :: "fval list \<Rightarrow> fval list list \<Rightarrow> (fval \<times> fval \<times> fval \<times> fval) option"
  het_white :: "fval list \<Rightarrow> fval list list \<Rightarrow> (fval \<times> fval \<times> fval \<times> fval) option"
  shapiro :: "fval list \<Rightarrow> (fval \<times> fval) option"
  jarque_bera :: "fval list \<Rightarrow> (fval \<times> fval) option"
  skew :: "fval list \<Rightarrow> fval"
  kurtosis :: "fval list \<Rightarrow> bool \<Rightarrow> fval"
  variance_inflation_factor :: "fval list list \<Rightarrow> nat \<Rightarrow> fval option"
  is_datetime64_any_dtype :: "'l list \<Rightarrow> bool"
  to_datetime :: "'l list \<Rightarrow> bool"

definition library_call :: "'a option \<Rightarrow> error + 'a" where
  "library_call r = (case r of None \<Rightarrow> Inl LibraryError | Some v \<Rightarrow> Inr v)"

text \<open>
  \<open>sm.add_constant\<close> with its default \<open>has_constant='skip'\<close>: a column of ones called
  \<open>const\<close> is put in front, unless the data already has a column that is constant and not
  zero (\<open>np.ptp(s) == 0\<close> and some value \<open>!= 0\<close>; a column for which the test raises, as the
  empty one does, does not count).
\<close>

definition is_const_column :: "fval list \<Rightarrow> bool" where
  "is_const_column col =
     (case col of
        [] \<Rightarrow> False
      | v # vs \<Rightarrow> (case v of Fin x \<Rightarrow> x \<noteq> 0 \<and> list_all (\<lambda>w. w = v) vs | _ \<Rightarrow> False))"

definition add_constant :: "nat \<Rightarrow> (string \<times> fval list) list \<Rightarrow> (string \<times> fval list) list" where
  "add_constant nobs cols =
     (if list_ex (\<lambda>(name, col). is_const_column col) cols then cols
      else (''const'', replicate nobs (Fin 1)) # cols)"

section \<open>Regression engine\<close>

text \<open>\<open>pd.concat([y, X], axis=1).dropna()\<close>.\<close>

definition regression_data :: "('l::linorder) frame \<Rightarrow> 'l frame \<Rightarrow> error + 'l frame" where
  "regression_data y X =
     (case concat_axis1 y X of Inl e \<Rightarrow> Inl e | Inr both \<Rightarrow> Inr (dropna both))"

definition y_clean :: "'l frame \<Rightarrow> fval list" where
  "y_clean data = snd (hd (columns data))"

definition X_clean :: "'l frame \<Rightarrow> (string \<times> fval list) list" where
  "X_clean data = add_constant (length (index data)) (tl (columns data))"

text \<open>
  The part of the loop body that \<open>regression_capm\<close> and \<open>regression_fama\<close> have in
  common: the rows without NaN, the fit, and the residuals and fitted values put back on
  the index of \<open>log_excess_return\<close>. The result is the fit, the residual column and the
  fitted-value column.
\<close>

definition fit_column ::
  "('l::linorder) library \<Rightarrow> 'l list \<Rightarrow> 'l frame \<Rightarrow> string \<times> fval list \<Rightarrow>
   error + (fit \<times> fval list \<times> fval list)" where
  "fit_column lib labels X column =
     (case regression_data (column_frame labels column) X of
        Inl e \<Rightarrow> Inl e
      | Inr data \<Rightarrow>
          (case library_call (OLS_fit lib (y_clean data) (map snd (X_clean data))) of
             Inl e \<Rightarrow> Inl e
           | Inr results \<Rightarrow>
               (case reindex (zip (index data) (resid results)) labels of
                  Inl e \<Rightarrow> Inl e
                | Inr residuals \<Rightarrow>
                    (case reindex (zip (index data) (fittedvalues results)) labels of
                       Inl e \<Rightarrow> Inl e
                     | Inr fitted \<Rightarrow> Inr (results, residuals, fitted)))))"

record capm_result =
  capm_Fund :: string
  capm_Alpha :: fval
  capm_Beta :: fval
  capm_P_Values_Alpha :: fval
  capm_P_Values_Beta :: fval
  capm_R_Squared :: fval
  capm_Confidence_Interval_Alpha :: "fval \<times> fval"
  capm_Confidence_Interval_Beta :: "fval \<times> fval"

text \<open>
  \<open>result_dict\<close> of \<open>regression_capm\<close>. The entries are read in an order in which the
  first read past the end of \<open>params\<close>, \<open>pvalues\<close> or \<open>conf_int\<close> raises.
\<close>

definition capm_result_dict :: "string \<Rightarrow> fit \<Rightarrow> error + capm_result" where
  "capm_result_dict column results =
     (case at_position (params results) 0 of Inl e \<Rightarrow> Inl e | Inr alpha \<Rightarrow>
      case at_position (params results) 1 of Inl e \<Rightarrow> Inl e | Inr beta \<Rightarrow>
      case at_position (pvalues results) 0 of Inl e \<Rightarrow> Inl e | Inr p_alpha \<Rightarrow>
      case at_position (pvalues results) 1 of Inl e \<Rightarrow> Inl e | Inr p_beta \<Rightarrow>
      case at_position (conf_int results) 0 of Inl e \<Rightarrow> Inl e | Inr ci_alpha \<Rightarrow>
      case at_position (conf_int results) 1 of Inl e \<Rightarrow> Inl e | Inr ci_beta \<Rightarrow>
        Inr \<lparr>capm_Fund = column, capm_Alpha = alpha, capm_Beta = beta,
             capm_P_Values_Alpha = p_alpha, capm_P_Values_Beta = p_beta,
             capm_R_Squared = rsquared results,
             capm_Confidence_Interval_Alpha = ci_alpha,
             capm_Confidence_Interval_Beta = ci_beta\<rparr>)"

definition capm_column ::
  "('l::linorder) library \<Rightarrow> 'l list \<Rightarrow> 'l frame \<Rightarrow> string \<times> fval list \<Rightarrow>
   error + (capm_result \<times> fval list \<times> fval list)" where
  "capm_column lib labels X column =
     (case fit_column lib labels X column of
        Inl e \<Rightarrow> Inl e
      | Inr (results, residuals, fitted) \<Rightarrow>
          (case capm_result_dict (fst column) results of
             Inl e \<Rightarrow> Inl e
           | Inr result_dict \<Rightarrow> Inr (result_dict, residuals, fitted)))"

text \<open>
  \<open>regression_capm\<close>: the results table, the residuals frame and the fitted-values frame.
  The regressor is the column \<open>ln excess\<close> (KeyError without it). Writing the sheets is not
  modelled.
\<close>

definition regression_capm ::
  "('l::linorder) library \<Rightarrow> 'l frame \<Rightarrow> 'l frame \<Rightarrow> error + (capm_result list \<times> 'l frame \<times> 'l frame)" where
  "regression_capm lib log_excess_return df_regressor_capm =
     (case map_of (columns df_regressor_capm) ''ln excess'' of
        None \<Rightarrow> Inl KeyError
      | Some x \<Rightarrow>
          (case collect (capm_column lib (index log_excess_return)
                           \<lparr>index = index df_regressor_capm, columns = [(''ln excess'', x)]\<rparr>)
                  (columns log_excess_return) of
             Inl e \<Rightarrow> Inl e
           | Inr rows \<Rightarrow>
               Inr (map fst rows,
                    \<lparr>index = index log_excess_return,
                     columns = zip (map fst (columns log_excess_return)) (map (fst \<circ> snd) rows)\<rparr>,
                    \<lparr>index = index log_excess_return,
                     columns = zip (map fst (columns log_excess_return)) (map (snd \<circ> snd) rows)\<rparr>)))"

record fama_beta =
  fama_regressor :: string
  fama_Beta :: fval
  fama_P_Value_Beta :: fval
  fama_Confidence_Interval_Beta :: "fval \<times> fval"

record fama_result =
  fama_Fund :: string
  fama_Alpha :: fval
  fama_P_Values_Alpha :: fval
  fama_R_Squared :: fval
  fama_Model_P_Value :: fval
  fama_Confidence_Interval_Alpha :: "fval \<times> fval"
  fama_Betas :: "fama_beta list"

definition fama_beta_entry :: "fit \<Rightarrow> nat \<times> string \<Rightarrow> error + fama_beta" where
  "fama_beta_entry results ir =
     (case at_position (params results) (fst ir + 1) of Inl e \<Rightarrow> Inl e | Inr b \<Rightarrow>
      case at_position (pvalues results) (fst ir + 1) of Inl e \<Rightarrow> Inl e | Inr p \<Rightarrow>
      case at_position (conf_int results) (fst ir + 1) of Inl e \<Rightarrow> Inl e | Inr ci \<Rightarrow>
        Inr \<lparr>fama_regressor = snd ir, fama_Beta = b, fama_P_Value_Beta = p,
             fama_Confidence_Interval_Beta = ci\<rparr>)"

definition fama_result_dict :: "string \<Rightarrow> string list \<Rightarrow> fit \<Rightarrow> error + fama_result" where
  "fama_result_dict column regressors results =
     (case at_position (params results) 0 of Inl e \<Rightarrow> Inl e | Inr alpha \<Rightarrow>
      case at_position (pvalues results) 0 of Inl e \<Rightarrow> Inl e | Inr p_alpha \<Rightarrow>
      case at_position (conf_int results) 0 of Inl e \<Rightarrow> Inl e | Inr ci_alpha \<Rightarrow>
      case collect (fama_beta_entry results) (enumerate 0 regressors) of
        Inl e \<Rightarrow> Inl e
      | Inr betas \<Rightarrow>
          Inr \<lparr>fama_Fund = column, fama_Alpha = alpha, fama_P_Values_Alpha = p_alpha,
               fama_R_Squared = rsquared results, fama_Model_P_Value = f_pvalue results,
               fama_Confidence_Interval_Alpha = ci_alpha, fama_Betas = betas\<rparr>)"

definition fama_column ::
  "('l::linorder) library \<Rightarrow> 'l list \<Rightarrow> 'l frame \<Rightarrow> string \<times> fval list \<Rightarrow>
   error + (fama_result \<times> fval list \<times> fval list)" where
  "fama_column lib labels X column =
     (case fit_column lib labels X column of
        Inl e \<Rightarrow> Inl e
      | Inr (results, residuals, fitted) \<Rightarrow>
          (case fama_result_dict (fst column) (map fst (columns X)) results of
             Inl e \<Rightarrow> Inl e
           | Inr result_dict \<Rightarrow> Inr (result_dict, residuals, fitted)))"

text \<open>\<open>regression_fama\<close>: the regressors are all the columns of \<open>df_regressor_fama\<close>.\<close>

definition regression_fama ::
  "('l::linorder) library \<Rightarrow> 'l frame \<Rightarrow> 'l frame \<Rightarrow> error + (fama_result list \<times> 'l frame \<times> 'l frame)" where
  "regression_fama lib log_excess_return df_regressor_fama =
     (case collect (fama_column lib (index log_excess_return) df_regressor_fama)
             (columns log_excess_return) of
        Inl e \<Rightarrow> Inl e
      | Inr rows \<Rightarrow>
          Inr (map fst rows,
               \<lparr>index = index log_excess_return,
                columns = zip (map fst (columns log_excess_return)) (map (fst \<circ> snd) rows)\<rparr>,
               \<lparr>index = index log_excess_return,
                columns = zip (map fst (columns log_excess_return)) (map (snd \<circ> snd) rows)\<rparr>))"

text \<open>\<open>Series.dropna()\<close> on a column of a frame: the rows (label, value) that are not NaN.\<close>

definition non_missing_rows :: "'l list \<Rightarrow> fval list \<Rightarrow> ('l \<times> fval) list" where
  "non_missing_rows labels col = filter (\<lambda>(t, v). v \<noteq> NaN) (zip labels col)"

section \<open>Diagnostic test suite\<close>

record bp_row =
  bp_Fund :: string
  bp_LM_stat :: fval
  bp_p_value :: fval
  bp_f_value :: fval
  bp_f_p_value :: fval

record white_row =
  white_Fund :: string
  white_LM_stat :: fval
  white_p_value :: fval
  white_f_stat :: fval
  white_f_p_value :: fval

record shapiro_row =
  shapiro_Fund :: string
  shapiro_Statistic :: fval
  shapiro_p_value :: fval

record jb_row =
  jb_Fund :: string
  jb_Statistic :: fval
  jb_p_value :: fval
  jb_Skewness :: fval
  jb_Kurtosis :: fval

text \<open>\<open>df[column]\<close>, KeyError when the frame has no such column.\<close>

definition column_named :: "'l frame \<Rightarrow> string \<Rightarrow> error + 'l frame" where
  "column_named df column =
     (case map_of (columns df) column of
        None \<Rightarrow> Inl KeyError
      | Some col \<Rightarrow> Inr (column_frame (index df) (column, col)))"

text \<open>The values of a series, a frame of one column.\<close>

definition series_values :: "'l frame \<Rightarrow> fval list" where
  "series_values s = snd (hd (columns s))"

text \<open>The Jarque-Bera entry of one series (the block that fills \<open>jarque_bera_results\<close>).\<close>

definition jarque_bera_entry :: "'l library \<Rightarrow> string \<Rightarrow> fval list \<Rightarrow> error + jb_row" where
  "jarque_bera_entry lib column residuals =
     (case library_call (jarque_bera lib residuals) of
        Inl e \<Rightarrow> Inl e
      | Inr jb_test \<Rightarrow>
          (let skewness = skew lib residuals;
               kurt = kurtosis lib residuals False
           in Inr \<lparr>jb_Fund = column, jb_Statistic = fst jb_test, jb_p_value = snd jb_test,
                   jb_Skewness = skewness, jb_Kurtosis = kurt\<rparr>))"

text \<open>
  The body of the loop of \<open>combined_tests\<close> for one column of \<open>residuals_df\<close>, in two
  parts. \<open>diagnose\<close> is the part after the datetime test, on the sorted residuals:
  the fitted values, excess returns and regressor rows at the labels of the residuals,
  then the four tests. \<open>Inr (Some rows)\<close> carries the rows that the series adds to the
  four tables. The standardised values and the plots that follow in the source produce no
  table and are not modelled.
\<close>

definition diagnose ::
  "('l::linorder) library \<Rightarrow> 'l frame \<Rightarrow> 'l frame \<Rightarrow> 'l frame \<Rightarrow> string \<Rightarrow> 'l frame \<Rightarrow>
   error + (bp_row \<times> white_row \<times> shapiro_row \<times> jb_row) option" where
  "diagnose lib fitted_values_df regressor excess_returns_df column residuals =
     (let matching_indices = index residuals
      in case column_named fitted_values_df column of Inl e \<Rightarrow> Inl e | Inr fv \<Rightarrow>
         case loc fv matching_indices of Inl e \<Rightarrow> Inl e | Inr fitted_values \<Rightarrow>
         case column_named excess_returns_df column of Inl e \<Rightarrow> Inl e | Inr er \<Rightarrow>
         case loc er matching_indices of Inl e \<Rightarrow> Inl e | Inr excess_returns \<Rightarrow>
         case loc regressor matching_indices of Inl e \<Rightarrow> Inl e | Inr rf \<Rightarrow>
           let regressor_filtered = sort_index rf;
               exog_with_const = add_constant (length (index regressor_filtered))
                                   (columns regressor_filtered)
           in case library_call (het_breuschpagan lib (series_values residuals)
                                   (map snd exog_with_const)) of Inl e \<Rightarrow> Inl e | Inr bp \<Rightarrow>
              case library_call (het_white lib (series_values residuals)
                                   (map snd exog_with_const)) of Inl e \<Rightarrow> Inl e | Inr wh \<Rightarrow>
              case library_call (shapiro lib (series_values residuals)) of
                Inl e \<Rightarrow> Inl e | Inr sw \<Rightarrow>
              case jarque_bera_entry lib column (series_values residuals) of
                Inl e \<Rightarrow> Inl e | Inr jb \<Rightarrow>
                Inr (Some
                  (\<lparr>bp_Fund = column, bp_LM_stat = fst bp, bp_p_value = fst (snd bp),
                    bp_f_value = fst (snd (snd bp)), bp_f_p_value = snd (snd (snd bp))\<rparr>,
                   \<lparr>white_Fund = column, white_LM_stat = fst wh,
                    white_p_value = fst (snd wh), white_f_stat = fst (snd (snd wh)),
                    white_f_p_value = snd (snd (snd wh))\<rparr>,
                   \<lparr>shapiro_Fund = column, shapiro_Statistic = fst sw,
                    shapiro_p_value = snd sw\<rparr>,
                   jb)))"

text \<open>
  The first part: the residuals without NaN and the datetime test of their index.
  \<open>Inr None\<close> is the \<open>continue\<close> after the printed message.
\<close>

definition tests_for_column ::
  "('l::linorder) library \<Rightarrow> 'l list \<Rightarrow> 'l frame \<Rightarrow> 'l frame \<Rightarrow> 'l frame \<Rightarrow> string \<times> fval list \<Rightarrow>
   error + (bp_row \<times> white_row \<times> shapiro_row \<times> jb_row) option" where
  "tests_for_column lib labels fitted_values_df regressor excess_returns_df column =
     (let residuals = dropna (column_frame labels column);
          matching_indices = index residuals
      in if \<not> is_datetime64_any_dtype lib matching_indices \<and> \<not> to_datetime lib matching_indices
         then Inr None
         else diagnose lib fitted_values_df regressor excess_returns_df (fst column)
                (sort_index residuals))"

definition series_rows :: "'a option \<Rightarrow> 'a list" where
  "series_rows outcome = (case outcome of None \<Rightarrow> [] | Some r \<Rightarrow> [r])"

text \<open>
  \<open>combined_tests\<close>: the Breusch-Pagan, White, Shapiro-Wilk and Jarque-Bera tables, in the
  order of the \<open>return\<close>. An exception in one column ends the function. Writing the
  sheets is not modelled.
\<close>

definition combined_tests ::
  "('l::linorder) library \<Rightarrow> 'l frame \<Rightarrow> 'l frame \<Rightarrow> 'l frame \<Rightarrow> 'l frame \<Rightarrow>
   error + (bp_row list \<times> white_row list \<times> shapiro_row list \<times> jb_row list)" where
  "combined_tests lib residuals_df fitted_values_df regressor excess_returns_df =
     (case collect (tests_for_column lib (index residuals_df) fitted_values_df regressor
                      excess_returns_df) (columns residuals_df) of
        Inl e \<Rightarrow> Inl e
      | Inr outcomes \<Rightarrow>
          (let rows = concat (map series_rows outcomes)
           in Inr (map fst rows, map (fst \<circ> snd) rows, map (fst \<circ> snd \<circ> snd) rows,
                   map (snd \<circ> snd \<circ> snd) rows)))"

section \<open>Variance inflation factors\<close>

text \<open>
  \<open>vif_fama\<close>: the rows (Variable, VIF) of \<open>vif_data\<close>, one call of the library's
  \<open>variance_inflation_factor\<close> for each column of the panel with the constant added.
\<close>

definition vif_fama :: "'l library \<Rightarrow> 'l frame \<Rightarrow> error + (string \<times> fval) list" where
  "vif_fama lib df_regressor_fama =
     (let df_with_constant = add_constant (length (index df_regressor_fama))
                               (columns df_regressor_fama)
      in case collect (\<lambda>i. library_call
                              (variance_inflation_factor lib (map snd df_with_constant) i))
                [0..<length df_with_constant] of
           Inl e \<Rightarrow> Inl e
         | Inr vifs \<Rightarrow> Inr (zip (map fst df_with_constant) vifs))"

section \<open>Rows used in estimation\<close>

text \<open>
  The rows that the fit of a column is estimated on, \<open>regression_data\<close> of the loop, and
  their labels.
\<close>

definition estimation_data :: "('l::linorder) list \<Rightarrow> 'l frame \<Rightarrow> string \<times> fval list \<Rightarrow> 'l frame" where
  "estimation_data labels X column =
     (case regression_data (column_frame labels column) X of
        Inl e \<Rightarrow> \<lparr>index = [], columns = []\<rparr>
      | Inr data \<Rightarrow> data)"


text \<open>The regressor frame of \<open>regression_capm\<close>: the column \<open>ln excess\<close> alone.\<close>

definition capm_regressor :: "'l frame \<Rightarrow> 'l frame" where
  "capm_regressor df_regressor_capm =
     \<lparr>index = index df_regressor_capm,
      columns = (case map_of (columns df_regressor_capm) ''ln excess'' of
                   None \<Rightarrow> [] | Some x \<Rightarrow> [(''ln excess'', x)])\<rparr>"

text \<open>
  A column is the re-expansion of the rows \<open>rows\<close> (timestamp, value) onto the index
  \<open>labels\<close> when it is as long as the index, holds at the position of a timestamp of
  \<open>rows\<close> the value of that row, and is NaN at every other position.
\<close>

definition re_expanded :: "'l list \<Rightarrow> ('l \<times> fval) list \<Rightarrow> fval list \<Rightarrow> bool" where
  "re_expanded labels rows col \<longleftrightarrow>
     length col = length labels \<and>
     (\<forall>i<length labels. \<forall>k<length rows.
        labels ! i = fst (rows ! k) \<longrightarrow> col ! i = snd (rows ! k)) \<and>
     (\<forall>i<length labels. labels ! i \<notin> fst ` set rows \<longrightarrow> col ! i = NaN)"

text \<open>
  Dropping the missing rows of a column on the index \<open>labels\<close> reproduces the rows
  \<open>rows\<close>: the same rows (timestamp, value), and as many.
\<close>

definition reproduces_rows :: "'l list \<Rightarrow> ('l \<times> fval) list \<Rightarrow> fval list \<Rightarrow> bool" where
  "reproduces_rows labels rows col \<longleftrightarrow>
     set (non_missing_rows labels col) = set rows \<and>
     length (non_missing_rows labels col) = length rows"

text \<open>
  The residual sample of a series in \<open>combined_tests\<close> and the test that decides whether
  the series is processed or skipped.
\<close>

definition residual_sample :: "('l::linorder) list \<Rightarrow> string \<times> fval list \<Rightarrow> fval list" where
  "residual_sample labels column =
     series_values (sort_index (dropna (column_frame labels column)))"

definition is_processed :: "'l library \<Rightarrow> 'l list \<Rightarrow> string \<times> fval list \<Rightarrow> bool" where
  "is_processed lib labels column \<longleftrightarrow>
     is_datetime64_any_dtype lib (index (dropna (column_frame labels column))) \<or>
     to_datetime lib (index (dropna (column_frame labels column)))"

text \<open>
  The residual column and the fitted-value column of a series are the re-expansions of
  the residuals and fitted values of its fit, and dropping their missing rows reproduces
  the rows of the fit when the fit has one value, not NaN, for each of its rows.
\<close>

definition series_re_expanded ::
  "('l::linorder) library \<Rightarrow> 'l list \<Rightarrow> 'l frame \<Rightarrow> string \<times> fval list \<Rightarrow>
   fval list \<Rightarrow> fval list \<Rightarrow> bool" where
  "series_re_expanded lib labels X column residuals fitted =
     (let data = estimation_data labels X column
      in case OLS_fit lib (y_clean data) (map snd (X_clean data)) of
           None \<Rightarrow> False
         | Some results \<Rightarrow>
             re_expanded labels (zip (index data) (resid results)) residuals \<and>
             re_expanded labels (zip (index data) (fittedvalues results)) fitted \<and>
             (length (resid results) = length (index data) \<and> NaN \<notin> set (resid results) \<longrightarrow>
                reproduces_rows labels (zip (index data) (resid results)) residuals) \<and>
             (length (fittedvalues results) = length (index data) \<and>
              NaN \<notin> set (fittedvalues results) \<longrightarrow>
                reproduces_rows labels (zip (index data) (fittedvalues results)) fitted))"

section \<open>Example inputs\<close>

definition closing_example :: "int price_frame" where
  "closing_example =
     \<lparr>dates = [1, 2, 3, 4], prices = [(''Fund'', [Fin 100, Fin 105, Fin 103, Fin 108])]\<rparr>"

definition series6 :: "(int \<times> fval) list" where
  "series6 = [(1, NaN), (2, Fin 4), (3, Fin 0), (4, NaN), (5, Fin 8), (6, Fin 0)]"

definition returns_example :: "int frame" where
  "returns_example = \<lparr>index = [1, 2, 3, 4], columns = [(''Fund'', [Fin 0, Fin 5, Fin 2, Fin 7])]\<rparr>"

definition riskfree_example :: "(int \<times> fval) list" where
  "riskfree_example = [(1, Fin 1), (2, Fin 3), (3, Fin 2)]"

definition raw_example :: "int frame" where
  "raw_example = \<lparr>index = [1, 2, 3, 4], columns = [(''Fund'', [NaN, Fin 5, Fin 2, Fin 7])]\<rparr>"

definition excess_example :: "int frame" where
  "excess_example = \<lparr>index = [1, 2, 3, 4], columns = [(''Fund'', [NaN, Fin 2, NaN, NaN])]\<rparr>"

text \<open>
  An instance of the library for the examples, over the reals. Its OLS fit answers on
  three kinds of input and has no answer elsewhere.

  A single finite observation with finite design entries: the pseudo-inverse gives the
  coefficients of least norm. With a design entry that is not zero the residual is zero,
  and with no residual degree of freedom left R squared, the p-values and the confidence
  bounds are NaN. With a design of zeros the coefficients are zero and the residual is the
  observation, whose uncentred R squared is zero.

  A single infinite observation: the coefficient of a design entry is the infinity times
  that entry (NaN for a zero entry), the fitted value is NaN when some design entry is
  zero and the observation otherwise, and the residual, the observation minus the fitted
  value, is NaN.

  At least three finite observations that lie exactly on a line, with the constant and
  one regressor: the coefficients are the intercept and the slope of the line, the
  residuals are zero, the standard errors are zero, so that the p-value of a coefficient
  other than zero is zero and each confidence interval is the coefficient itself, and R
  squared is one when the slope is not zero.
\<close>

definition single_entry :: "fval list \<Rightarrow> bool" where
  "single_entry c = (case c of [Fin d] \<Rightarrow> True | _ \<Rightarrow> False)"

definition entry :: "fval list \<Rightarrow> real" where
  "entry c = (case c of [Fin d] \<Rightarrow> d | _ \<Rightarrow> 0)"

definition ols_single_observation :: "fval list \<Rightarrow> fval list list \<Rightarrow> fit option" where
  "ols_single_observation y X =
     (case y of
        [Fin y0] \<Rightarrow>
          (if X = [] \<or> \<not> list_all single_entry X then None
           else if list_ex (\<lambda>c. entry c \<noteq> 0) X
           then Some \<lparr>params = map (\<lambda>c. Fin (y0 * entry c / sum_list (map (\<lambda>c. entry c * entry c) X))) X,
                      pvalues = map (\<lambda>c. NaN) X,
                      rsquared = NaN,
                      f_pvalue = NaN,
                      conf_int = map (\<lambda>c. (NaN, NaN)) X,
                      resid = [Fin 0],
                      fittedvalues = [Fin y0]\<rparr>
           else Some \<lparr>params = map (\<lambda>c. Fin 0) X,
                      pvalues = map (\<lambda>c. NaN) X,
                      rsquared = (if y0 = 0 then NaN else Fin 0),
                      f_pvalue = NaN,
                      conf_int = map (\<lambda>c. (Fin 0, Fin 0)) X,
                      resid = [Fin y0],
                      fittedvalues = [Fin 0]\<rparr>)
      | _ \<Rightarrow> None)"

definition ols_infinite_observation :: "fval list \<Rightarrow> fval list list \<Rightarrow> fit option" where
  "ols_infinite_observation y X =
     (if (y = [PInf] \<or> y = [NInf]) \<and> X \<noteq> [] \<and> list_all single_entry X \<and>
         list_ex (\<lambda>c. entry c \<noteq> 0) X
      then Some \<lparr>params = map (\<lambda>c. if entry c = 0 then NaN
                                    else if (0 < entry c) = (y = [PInf]) then PInf else NInf) X,
                 pvalues = map (\<lambda>c. NaN) X,
                 rsquared = NaN,
                 f_pvalue = NaN,
                 conf_int = map (\<lambda>c. (NaN, NaN)) X,
                 resid = [NaN],
                 fittedvalues = [if list_ex (\<lambda>c. entry c = 0) X then NaN else hd y]\<rparr>
      else None)"

definition all_finite :: "fval list \<Rightarrow> bool" where
  "all_finite xs = list_all (\<lambda>v. case v of Fin x \<Rightarrow> True | _ \<Rightarrow> False) xs"

definition reals_of :: "fval list \<Rightarrow> real list" where
  "reals_of xs = map (\<lambda>v. case v of Fin x \<Rightarrow> x | _ \<Rightarrow> 0) xs"

definition zero_p_value :: "real \<Rightarrow> fval" where
  "zero_p_value coefficient = (if coefficient = 0 then NaN else Fin 0)"

definition ols_exact_line :: "fval list \<Rightarrow> fval list list \<Rightarrow> fit option" where
  "ols_exact_line y X =
     (case X of
        [const, x] \<Rightarrow>
          (let n = real (length y);
               ys = reals_of y;
               xs = reals_of x;
               sxx = n * sum_list (map (\<lambda>v. v * v) xs) - sum_list xs * sum_list xs;
               b = (n * sum_list (map (\<lambda>(u, v). u * v) (zip xs ys)) - sum_list xs * sum_list ys) / sxx;
               a = (sum_list ys - b * sum_list xs) / n
           in if 3 \<le> length y \<and> length x = length y \<and> const = replicate (length y) (Fin 1) \<and>
                 all_finite y \<and> all_finite x \<and> sxx \<noteq> 0 \<and>
                 list_all (\<lambda>(u, v). v = a + b * u) (zip xs ys)
              then Some \<lparr>params = [Fin a, Fin b],
                         pvalues = [zero_p_value a, zero_p_value b],
                         rsquared = (if b = 0 then NaN else Fin 1),
                         f_pvalue = (if b = 0 then NaN else Fin 0),
                         conf_int = [(Fin a, Fin a), (Fin b, Fin b)],
                         resid = replicate (length y) (Fin 0),
                         fittedvalues = y\<rparr>
              else None)
      | _ \<Rightarrow> None)"

definition example_ols :: "fval list \<Rightarrow> fval list list \<Rightarrow> fit option" where
  "example_ols y X =
     (case ols_single_observation y X of
        Some f \<Rightarrow> Some f
      | None \<Rightarrow> (case ols_infinite_observation y X of
                   Some f \<Rightarrow> Some f
                 | None \<Rightarrow> ols_exact_line y X))"

text \<open>
  The variance inflation factor of statsmodels on a design of two finite columns:
  \<open>1 / (1 - R\<^sup>2)\<close> of the fit of one column on the other, where R squared is centred
  when the other column is a constant that is not zero and uncentred otherwise.
\<close>

definition vif_two_columns :: "fval list list \<Rightarrow> nat \<Rightarrow> fval option" where
  "vif_two_columns exog i =
     (case exog of
        [c0, c1] \<Rightarrow>
          (if i < 2 \<and> c0 \<noteq> [] \<and> length c0 = length c1 \<and> all_finite c0 \<and> all_finite c1
           then (let y = reals_of (exog ! i);
                     c = reals_of (exog ! (1 - i));
                     syc = sum_list (map (\<lambda>(u, v). u * v) (zip y c));
                     scc = sum_list (map (\<lambda>v. v * v) c);
                     syy = sum_list (map (\<lambda>v. v * v) y);
                     ssr = syy - (if scc = 0 then 0 else syc * syc / scc);
                     m = sum_list y / real (length y);
                     tss = (if is_const_column (exog ! (1 - i))
                            then sum_list (map (\<lambda>v. (v - m) * (v - m)) y) else syy);
                     r_squared = fsub (Fin 1) (fdiv (Fin ssr) (Fin tss))
                 in Some (fdiv (Fin 1) (fsub (Fin 1) r_squared)))
           else None)
      | _ \<Rightarrow> None)"

text \<open>
  The moment statistics of scipy over the reals: the biased central moments \<open>m\<^sub>k\<close>, the
  skewness \<open>m\<^sub>3 / m\<^sub>2\<^sup>3\<^sup>/\<^sup>2\<close>, the kurtosis \<open>m\<^sub>4 / m\<^sub>2\<^sup>2\<close> (less 3 with \<open>fisher=True\<close>), the
  Jarque-Bera statistic \<open>n / 6 * (S\<^sup>2 + (K - 3)\<^sup>2 / 4)\<close> and its p-value, the upper tail
  \<open>exp (- x / 2)\<close> of the chi-squared distribution with two degrees of freedom.
\<close>

definition central_moment :: "nat \<Rightarrow> real list \<Rightarrow> real" where
  "central_moment k xs =
     sum_list (map (\<lambda>x. (x - sum_list xs / real (length xs)) ^ k) xs) / real (length xs)"

definition moment_skew :: "fval list \<Rightarrow> fval" where
  "moment_skew xs =
     (if xs \<noteq> [] \<and> all_finite xs \<and> central_moment 2 (reals_of xs) \<noteq> 0
      then Fin (central_moment 3 (reals_of xs) /
                (central_moment 2 (reals_of xs) * sqrt (central_moment 2 (reals_of xs))))
      else NaN)"

definition moment_kurtosis :: "fval list \<Rightarrow> bool \<Rightarrow> fval" where
  "moment_kurtosis xs fisher =
     (if xs \<noteq> [] \<and> all_finite xs \<and> central_moment 2 (reals_of xs) \<noteq> 0
      then Fin (central_moment 4 (reals_of xs) /
                (central_moment 2 (reals_of xs) * central_moment 2 (reals_of xs))
                - (if fisher then 3 else 0))
      else NaN)"

definition moment_jarque_bera :: "fval list \<Rightarrow> (fval \<times> fval) option" where
  "moment_jarque_bera xs =
     (if xs = [] then None
      else (case (moment_skew xs, moment_kurtosis xs False) of
              (Fin s, Fin k) \<Rightarrow>
                (let jb = real (length xs) / 6 * (s * s + (k - 3) * (k - 3) / 4)
                 in Some (Fin jb, Fin (exp (- jb / 2))))
            | _ \<Rightarrow> Some (NaN, NaN)))"

text \<open>
  The labels of the examples are strings. An index of strings is not of a datetime dtype;
  the conversion of this instance takes the labels written \<open>dddd-dd-dd\<close> and refuses every
  other label. The heteroskedasticity tests and the Shapiro-Wilk test, whose values no
  property below depends on, answer with fixed numbers where the library answers at all
  (Shapiro-Wilk needs three values).
\<close>

definition iso_date :: "string \<Rightarrow> bool" where
  "iso_date s =
     (length s = 10 \<and> s ! 4 = CHR ''-'' \<and> s ! 7 = CHR ''-'' \<and>
      list_all (\<lambda>c. c \<in> set ''0123456789'') (take 4 s @ take 2 (drop 5 s) @ drop 8 s))"

definition example_library :: "string library" where
  "example_library =
     \<lparr>OLS_fit = example_ols,
      het_breuschpagan = (\<lambda>r X. if r = [] then None else Some (Fin 0, Fin 1, Fin 0, Fin 1)),
      het_white = (\<lambda>r X. if r = [] then None else Some (Fin 0, Fin 1, Fin 0, Fin 1)),
      shapiro = (\<lambda>r. if length r < 3 then None else Some (Fin 1, Fin 1)),
      jarque_bera = moment_jarque_bera,
      skew = moment_skew,
      kurtosis = moment_kurtosis,
      variance_inflation_factor = vif_two_columns,
      is_datetime64_any_dtype = (\<lambda>labels. False),
      to_datetime = list_all iso_date\<rparr>"

definition short_returns :: "string frame" where
  "short_returns =
     \<lparr>index = [''2024-01-31'', ''2024-02-29'', ''2024-03-31''],
      columns = [(''Fund'', [NaN, Fin (1 / 50), Fin (1 / 100)])]\<rparr>"

definition short_regressor :: "string frame" where
  "short_regressor =
     \<lparr>index = [''2024-01-31'', ''2024-02-29'', ''2024-03-31''],
      columns = [(''ln excess'', [Fin (1 / 2), Fin 0, NaN]),
                 (''SMB'', [Fin (1 / 10), Fin 0, Fin (1 / 5)]),
                 (''HML'', [Fin (3 / 10), Fin 0, Fin (1 / 10)])]\<rparr>"


definition short_fama_result :: "fama_result list \<times> string frame \<times> string frame" where
  "short_fama_result =
     ([\<lparr>fama_Fund = ''Fund'', fama_Alpha = Fin (1 / 50), fama_P_Values_Alpha = NaN,
        fama_R_Squared = NaN, fama_Model_P_Value = NaN,
        fama_Confidence_Interval_Alpha = (NaN, NaN),
        fama_Betas =
          [\<lparr>fama_regressor = ''ln excess'', fama_Beta = Fin 0, fama_P_Value_Beta = NaN,
            fama_Confidence_Interval_Beta = (NaN, NaN)\<rparr>,
           \<lparr>fama_regressor = ''SMB'', fama_Beta = Fin 0, fama_P_Value_Beta = NaN,
            fama_Confidence_Interval_Beta = (NaN, NaN)\<rparr>,
           \<lparr>fama_regressor = ''HML'', fama_Beta = Fin 0, fama_P_Value_Beta = NaN,
            fama_Confidence_Interval_Beta = (NaN, NaN)\<rparr>]\<rparr>],
      \<lparr>index = [''2024-01-31'', ''2024-02-29'', ''2024-03-31''],
       columns = [(''Fund'', [NaN, Fin 0, NaN])]\<rparr>,
      \<lparr>index = [''2024-01-31'', ''2024-02-29'', ''2024-03-31''],
       columns = [(''Fund'', [NaN, Fin (1 / 50), NaN])]\<rparr>)"



definition diag_residuals :: "string frame" where
  "diag_residuals =
     \<lparr>index = [''2024-02-29'', ''2024-01-31'', ''2024-03-31'', ''2024-04-30'', ''total''],
      columns = [(''Fund A'', [Fin 1, Fin (- 1), Fin (- 1), Fin 1, NaN]),
                 (''Fund B'', [Fin 1, Fin 2, Fin 3, Fin 4, Fin 5])]\<rparr>"

definition diag_fitted :: "string frame" where
  "diag_fitted =
     \<lparr>index = [''2024-02-29'', ''2024-01-31'', ''2024-03-31'', ''2024-04-30'', ''total''],
      columns = [(''Fund A'', [Fin 2, Fin 1, Fin 3, Fin 4, NaN]),
                 (''Fund B'', [Fin 1, Fin 1, Fin 1, Fin 1, Fin 1])]\<rparr>"

definition diag_regressor :: "string frame" where
  "diag_regressor =
     \<lparr>index = [''2024-01-31'', ''2024-02-29'', ''2024-03-31'', ''2024-04-30''],
      columns = [(''ln excess'', [Fin 1, Fin 2, Fin 3, Fin 4])]\<rparr>"

definition fund_a_rows :: "bp_row \<times> white_row \<times> shapiro_row \<times> jb_row" where
  "fund_a_rows =
     (\<lparr>bp_Fund = ''Fund A'', bp_LM_stat = Fin 0, bp_p_value = Fin 1, bp_f_value = Fin 0,
       bp_f_p_value = Fin 1\<rparr>,
      \<lparr>white_Fund = ''Fund A'', white_LM_stat = Fin 0, white_p_value = Fin 1,
       white_f_stat = Fin 0, white_f_p_value = Fin 1\<rparr>,
      \<lparr>shapiro_Fund = ''Fund A'', shapiro_Statistic = Fin 1, shapiro_p_value = Fin 1\<rparr>,
      \<lparr>jb_Fund = ''Fund A'', jb_Statistic = Fin (2 / 3), jb_p_value = Fin (exp (- (1 / 3))),
       jb_Skewness = Fin 0, jb_Kurtosis = Fin 1\<rparr>)"

definition line_returns :: "string frame" where
  "line_returns =
     \<lparr>index = [''2024-01-31'', ''2024-02-29'', ''2024-03-31'', ''2024-04-30'', ''2024-05-31''],
      columns = [(''Fund'', [Fin 5, Fin 8, Fin 1, NaN, Fin 14])]\<rparr>"

definition line_regressor :: "string frame" where
  "line_regressor =
     \<lparr>index = [''2024-01-31'', ''2024-02-29'', ''2024-03-31'', ''2024-04-30'', ''2024-05-31''],
      columns = [(''ln excess'', [Fin 1, Fin 2, NaN, Fin 3, Fin 4])]\<rparr>"

definition line_rows :: "string list" where
  "line_rows = [''2024-01-31'', ''2024-02-29'', ''2024-05-31'']"

definition line_fit :: fit where
  "line_fit = \<lparr>params = [Fin 2, Fin 3], pvalues = [Fin 0, Fin 0], rsquared = Fin 1,
               f_pvalue = Fin 0, conf_int = [(Fin 2, Fin 2), (Fin 3, Fin 3)],
               resid = [Fin 0, Fin 0, Fin 0], fittedvalues = [Fin 5, Fin 8, Fin 14]\<rparr>"

definition infinite_returns :: "string frame" where
  "infinite_returns =
     \<lparr>index = [''2024-01-31'', ''2024-02-29'', ''2024-03-31''],
      columns = [(''Fund'', [NaN, PInf, Fin (1 / 100)])]\<rparr>"

definition duplicate_returns :: "string frame" where
  "duplicate_returns =
     \<lparr>index = [''2024-01-31'', ''2024-01-31''], columns = [(''Fund'', [NaN, Fin (1 / 50)])]\<rparr>"

definition duplicate_regressor :: "string frame" where
  "duplicate_regressor =
     \<lparr>index = [''2024-01-31'', ''2024-01-31''],
      columns = [(''ln excess'', [Fin (1 / 2), Fin 0])]\<rparr>"

definition line_capm_result :: "capm_result list \<times> string frame \<times> string frame" where
  "line_capm_result =
     ([\<lparr>capm_Fund = ''Fund'', capm_Alpha = Fin 2, capm_Beta = Fin 3,
        capm_P_Values_Alpha = Fin 0, capm_P_Values_Beta = Fin 0, capm_R_Squared = Fin 1,
        capm_Confidence_Interval_Alpha = (Fin 2, Fin 2),
        capm_Confidence_Interval_Beta = (Fin 3, Fin 3)\<rparr>],
      \<lparr>index = [''2024-01-31'', ''2024-02-29'', ''2024-03-31'', ''2024-04-30'', ''2024-05-31''],
       columns = [(''Fund'', [Fin 0, Fin 0, NaN, NaN, Fin 0])]\<rparr>,
      \<lparr>index = [''2024-01-31'', ''2024-02-29'', ''2024-03-31'', ''2024-04-30'', ''2024-05-31''],
       columns = [(''Fund'', [Fin 5, Fin 8, NaN, NaN, Fin 14])]\<rparr>)"

definition line_fama_result :: "fama_result list \<times> string frame \<times> string frame" where
  "line_fama_result =
     ([\<lparr>fama_Fund = ''Fund'', fama_Alpha = Fin 2, fama_P_Values_Alpha = Fin 0,
        fama_R_Squared = Fin 1, fama_Model_P_Value = Fin 0,
        fama_Confidence_Interval_Alpha = (Fin 2, Fin 2),
        fama_Betas =
          [\<lparr>fama_regressor = ''ln excess'', fama_Beta = Fin 3, fama_P_Value_Beta = Fin 0,
            fama_Confidence_Interval_Beta = (Fin 3, Fin 3)\<rparr>]\<rparr>],
      \<lparr>index = [''2024-01-31'', ''2024-02-29'', ''2024-03-31'', ''2024-04-30'', ''2024-05-31''],
       columns = [(''Fund'', [Fin 0, Fin 0, NaN, NaN, Fin 0])]\<rparr>,
      \<lparr>index = [''2024-01-31'', ''2024-02-29'', ''2024-03-31'', ''2024-04-30'', ''2024-05-31''],
       columns = [(''Fund'', [Fin 5, Fin 8, NaN, NaN, Fin 14])]\<rparr>)"

definition infinite_capm_result :: "capm_result list \<times> string frame \<times> string frame" where
  "infinite_capm_result =
     ([\<lparr>capm_Fund = ''Fund'', capm_Alpha = PInf, capm_Beta = NaN,
        capm_P_Values_Alpha = NaN, capm_P_Values_Beta = NaN, capm_R_Squared = NaN,
        capm_Confidence_Interval_Alpha = (NaN, NaN),
        capm_Confidence_Interval_Beta = (NaN, NaN)\<rparr>],
      \<lparr>index = [''2024-01-31'', ''2024-02-29'', ''2024-03-31''],
       columns = [(''Fund'', [NaN, NaN, NaN])]\<rparr>,
      \<lparr>index = [''2024-01-31'', ''2024-02-29'', ''2024-03-31''],
       columns = [(''Fund'', [NaN, NaN, NaN])]\<rparr>)"

definition duplicate_capm_result :: "capm_result list \<times> string frame \<times> string frame" where
  "duplicate_capm_result =
     ([\<lparr>capm_Fund = ''Fund'', capm_Alpha = Fin (1 / 50), capm_Beta = Fin 0,
        capm_P_Values_Alpha = NaN, capm_P_Values_Beta = NaN, capm_R_Squared = NaN,
        capm_Confidence_Interval_Alpha = (NaN, NaN),
        capm_Confidence_Interval_Beta = (NaN, NaN)\<rparr>],
      \<lparr>index = [''2024-01-31'', ''2024-01-31''], columns = [(''Fund'', [Fin 0, Fin 0])]\<rparr>,
      \<lparr>index = [''2024-01-31'', ''2024-01-31''],
       columns = [(''Fund'', [Fin (1 / 50), Fin (1 / 50)])]\<rparr>)"

definition constant_panel :: "string frame" where
  "constant_panel =
     \<lparr>index = [''2024-01-31'', ''2024-02-29'', ''2024-03-31'', ''2024-04-30''],
      columns = [(''ln excess'', [Fin 1, Fin 2, Fin 3, Fin 4]),
                 (''SMB'', [Fin 5, Fin 5, Fin 5, Fin 5])]\<rparr>"

definition three_residuals :: "string frame" where
  "three_residuals =
     \<lparr>index = [''2024-02-29'', ''2024-01-31'', ''2024-03-31'', ''2024-04-30'', ''total''],
      columns = [(''Fund A'', [Fin 1, Fin (- 1), Fin (- 1), Fin 1, NaN]),
                 (''Fund B'', [Fin 1, Fin 2, Fin 3, Fin 4, Fin 5]),
                 (''Fund C'', [Fin 2, Fin 0, Fin (- 2), Fin 0, NaN])]\<rparr>"

definition three_fitted :: "string frame" where
  "three_fitted =
     \<lparr>index = [''2024-02-29'', ''2024-01-31'', ''2024-03-31'', ''2024-04-30'', ''total''],
      columns = [(''Fund A'', [Fin 2, Fin 1, Fin 3, Fin 4, NaN]),
                 (''Fund B'', [Fin 1, Fin 1, Fin 1, Fin 1, Fin 1]),
                 (''Fund C'', [Fin 1, Fin 2, Fin 1, Fin 2, NaN])]\<rparr>"

definition fund_c_rows :: "bp_row \<times> white_row \<times> shapiro_row \<times> jb_row" where
  "fund_c_rows =
     (\<lparr>bp_Fund = ''Fund C'', bp_LM_stat = Fin 0, bp_p_value = Fin 1, bp_f_value = Fin 0,
       bp_f_p_value = Fin 1\<rparr>,
      \<lparr>white_Fund = ''Fund C'', white_LM_stat = Fin 0, white_p_value = Fin 1,
       white_f_stat = Fin 0, white_f_p_value = Fin 1\<rparr>,
      \<lparr>shapiro_Fund = ''Fund C'', shapiro_Statistic = Fin 1, shapiro_p_value = Fin 1\<rparr>,
      \<lparr>jb_Fund = ''Fund C'', jb_Statistic = Fin (1 / 6), jb_p_value = Fin (exp (- (1 / 12))),
       jb_Skewness = Fin 0, jb_Kurtosis = Fin 2\<rparr>)"

definition etf_example :: "int frame" where
  "etf_example = \<lparr>index = [1, 2], columns = [(''ETF'', [Fin 5, Fin 7])]\<rparr>"

definition mutual_example :: "int frame" where
  "mutual_example = \<lparr>index = [1, 2, 3], columns = [(''Mutual'', [Fin 5, Fin 7, Fin 9])]\<rparr>"

definition riskfree3 :: "(int \<times> fval) list" where
  "riskfree3 = [(1, Fin 1), (2, Fin 2), (3, Fin 3)]"

definition mutual_returns_example :: "int frame" where
  "mutual_returns_example =
     \<lparr>index = [2, 3, 5], columns = [(''Mutual'', [Fin 3, Fin 0, Fin 4])]\<rparr>"

definition mutual_raw_example :: "int frame" where
  "mutual_raw_example = \<lparr>index = [2, 3, 5], columns = [(''Mutual'', [Fin 3, NaN, Fin 4])]\<rparr>"

definition mutual_excess_example :: "int frame" where
  "mutual_excess_example = \<lparr>index = [2, 3, 5], columns = [(''Mutual'', [NaN, NaN, NaN])]\<rparr>"

definition series_infinite :: "(int \<times> fval) list" where
  "series_infinite = [(1, PInf), (2, NaN), (3, Fin 1)]"

section \<open>Properties of the return transform\<close>

lemma shift1_length: "length (shift1 xs) = length xs"
  by (simp add: shift1_def)

lemma shift1_nth: "0 < i \<Longrightarrow> i < length xs \<Longrightarrow> shift1 xs ! i = xs ! (i - 1)"
  by (cases i) (auto simp: shift1_def nth_butlast)

lemma log_returns_column_length: "length (log_returns_column ps) = length ps"
  by (simp add: log_returns_column_def shift1_length)

lemma log_returns_column_first: "ps \<noteq> [] \<Longrightarrow> log_returns_column ps ! 0 = NaN"
  by (cases ps) (simp_all add: log_returns_column_def shift1_def)

lemma log_returns_column_nth:
  "0 < i \<Longrightarrow> i < length ps \<Longrightarrow> log_returns_column ps ! i = flog (fdiv (ps ! (i - 1)) (ps ! i))"
  by (simp add: log_returns_column_def shift1_length shift1_nth)

lemma remove_first_line_log_returns:
  "remove_first_line (log_returns_column ps) = map (\<lambda>i. flog (fdiv (ps ! (i - 1)) (ps ! i))) [1..<length ps]"
  by (rule nth_equalityI) (simp_all add: remove_first_line_def log_returns_column_length log_returns_column_nth)

text \<open>
  Claim C1, as the code has it. \<open>calculate_log_returns\<close> keeps the dates and the
  column names; every returned column is as long as the price column, its first row is NaN,
  and row \<open>i > 0\<close> is \<open>log(price[i-1] / price[i])\<close>, which is \<open>ln (a / b)\<close> for positive
  finite prices \<open>a\<close> (previous) and \<open>b\<close> (current). The first row is still part of the
  returned column; the caller removes it with \<open>df[1:]\<close>, which leaves the values for rows
  \<open>1, 2, ...\<close>.
\<close>

theorem calculate_log_returns_rows:
  assumes "''Date'' \<notin> fst ` set (prices df)"
  shows "\<exists>out. calculate_log_returns df = Inr out \<and> dates out = dates df \<and>
           map fst (prices out) = map fst (prices df) \<and>
           (\<forall>j<length (prices df).
              let ps = snd (prices df ! j); rs = snd (prices out ! j) in
                length rs = length ps \<and>
                (ps \<noteq> [] \<longrightarrow> rs ! 0 = NaN) \<and>
                (\<forall>i. 0 < i \<and> i < length ps \<longrightarrow>
                   rs ! i = flog (fdiv (ps ! (i - 1)) (ps ! i)) \<and>
                   (\<forall>a b. ps ! (i - 1) = Fin a \<and> ps ! i = Fin b \<and> 0 < a \<and> 0 < b \<longrightarrow>
                      rs ! i = Fin (ln (a / b)))) \<and>
                remove_first_line rs =
                  map (\<lambda>i. flog (fdiv (ps ! (i - 1)) (ps ! i))) [1..<length ps])"
proof -
  let ?out = "\<lparr>dates = dates df, prices = map (\<lambda>(name, ps). (name, log_returns_column ps)) (prices df)\<rparr>"
  have names: "map fst (prices ?out) = map fst (prices df)"
    by (simp add: case_prod_unfold comp_def)
  have r: "calculate_log_returns df = Inr ?out"
    using assms by (simp add: calculate_log_returns_def Let_def case_prod_unfold comp_def image_image)
  have col: "snd (prices ?out ! j) = log_returns_column (snd (prices df ! j))" if "j < length (prices df)" for j
    using that by (simp add: case_prod_unfold)
  show ?thesis
    apply (rule exI [of _ ?out])
    apply (intro conjI r names)
     apply simp
    apply (intro allI impI)
    apply (simp only: col Let_def)
    apply (intro conjI allI impI)
       apply (rule log_returns_column_length)
      apply (erule log_returns_column_first)
      apply (simp add: log_returns_column_nth)
     apply (simp add: log_returns_column_nth)
    apply (rule remove_first_line_log_returns)
    done
qed

text \<open>
  Claim C1 on the price series 100, 105, 103, 108: the returned column has four rows, the
  first of them NaN; after the caller's \<open>df[1:]\<close> the three log returns remain.
\<close>

theorem calculate_log_returns_rows_witness:
  "''Date'' \<notin> fst ` set (prices closing_example) \<and>
   (\<exists>out. calculate_log_returns closing_example = Inr out \<and>
      length (snd (prices out ! 0)) = 4 \<and> snd (prices out ! 0) ! 0 = NaN \<and>
      remove_first_line (snd (prices out ! 0)) =
        [Fin (ln (100 / 105)), Fin (ln (105 / 103)), Fin (ln (103 / 108))])"
proof -
  have h: "''Date'' \<notin> fst ` set (prices closing_example)"
    by (simp add: closing_example_def)
  have up: "[1..<4] = [1, 2, 3]"
    by (simp add: upt_rec)
  from calculate_log_returns_rows [OF h] obtain out where
    r: "calculate_log_returns closing_example = Inr out" and
    c: "\<forall>j<length (prices closing_example).
              let ps = snd (prices closing_example ! j); rs = snd (prices out ! j) in
                length rs = length ps \<and>
                (ps \<noteq> [] \<longrightarrow> rs ! 0 = NaN) \<and>
                (\<forall>i. 0 < i \<and> i < length ps \<longrightarrow>
                   rs ! i = flog (fdiv (ps ! (i - 1)) (ps ! i)) \<and>
                   (\<forall>a b. ps ! (i - 1) = Fin a \<and> ps ! i = Fin b \<and> 0 < a \<and> 0 < b \<longrightarrow>
                      rs ! i = Fin (ln (a / b)))) \<and>
                remove_first_line rs =
                  map (\<lambda>i. flog (fdiv (ps ! (i - 1)) (ps ! i))) [1..<length ps]"
    by blast
  have "0 < length (prices closing_example)" by (simp add: closing_example_def)
  with c have "let ps = snd (prices closing_example ! 0); rs = snd (prices out ! 0) in
                length rs = length ps \<and>
                (ps \<noteq> [] \<longrightarrow> rs ! 0 = NaN) \<and>
                remove_first_line rs =
                  map (\<lambda>i. flog (fdiv (ps ! (i - 1)) (ps ! i))) [1..<length ps]"
    by (auto simp: Let_def)
  then have "length (snd (prices out ! 0)) = 4 \<and> snd (prices out ! 0) ! 0 = NaN \<and>
      remove_first_line (snd (prices out ! 0)) =
        [Fin (ln (100 / 105)), Fin (ln (105 / 103)), Fin (ln (103 / 108))]"
    by (simp add: closing_example_def Let_def up)
  with h r show ?thesis by blast
qed

text \<open>
  Claim C1 as stated fails: the series returned for four prices has four rows, the row of
  the first timestamp included.
\<close>

theorem calculate_log_returns_keeps_first_row:
  "calculate_log_returns \<lparr>dates = [1, 2, 3, 4 :: int], prices = [(''Fund'', [Fin 100, Fin 105, Fin 103, Fin 108])]\<rparr>
     = Inr \<lparr>dates = [1, 2, 3, 4], prices = [(''Fund'', [NaN, Fin (ln (100 / 105)), Fin (ln (105 / 103)), Fin (ln (103 / 108))])]\<rparr>"
  by (simp add: calculate_log_returns_def log_returns_column_def shift1_def)

lemma repair_length: "length (replace_nans_and_zeros_with_mean s) = length s"
  by (simp add: replace_nans_and_zeros_with_mean_def Let_def)

lemma repair_nth:
  assumes "valid_values s \<noteq> []" "k < length s"
  shows "replace_nans_and_zeros_with_mean s ! k =
           (if \<not> is_valid (snd (s ! k)) \<and> Min (fst ` set (valid_values s)) \<le> fst (s ! k) \<and>
               fst (s ! k) \<le> Max (fst ` set (valid_values s))
            then (fst (s ! k), mean (map snd (valid_values s))) else s ! k)"
  using assms
  by (auto simp: replace_nans_and_zeros_with_mean_def Let_def case_prod_unfold is_valid_def)

lemma foldl_fadd_Fin: "foldl fadd (Fin a) (map Fin xs) = Fin (a + sum_list xs)"
  by (induction xs arbitrary: a) (simp_all add: algebra_simps)

lemma foldl_fadd_NaN: "foldl fadd NaN vs = NaN"
  by (induction vs) simp_all

lemma foldl_fadd_PInf:
  "NaN \<notin> set vs \<Longrightarrow> foldl fadd PInf vs = (if NInf \<in> set vs then NaN else PInf)"
proof (induction vs)
  case Nil
  then show ?case by simp
next
  case (Cons v vs)
  then show ?case by (cases v) (auto simp: foldl_fadd_NaN)
qed

lemma foldl_fadd_NInf:
  "NaN \<notin> set vs \<Longrightarrow> foldl fadd NInf vs = (if PInf \<in> set vs then NaN else NInf)"
proof (induction vs)
  case Nil
  then show ?case by simp
next
  case (Cons v vs)
  then show ?case by (cases v) (auto simp: foldl_fadd_NaN)
qed

lemma foldl_fadd_infinite:
  "NaN \<notin> set vs \<Longrightarrow> PInf \<in> set vs \<or> NInf \<in> set vs \<Longrightarrow>
   foldl fadd (Fin a) vs =
     (if PInf \<in> set vs \<and> NInf \<in> set vs then NaN else if PInf \<in> set vs then PInf else NInf)"
proof (induction vs arbitrary: a)
  case Nil
  then show ?case by simp
next
  case (Cons v vs)
  then show ?case
    by (cases v) (auto simp: foldl_fadd_PInf foldl_fadd_NInf)
qed

lemma mean_finite:
  "xs \<noteq> [] \<Longrightarrow> mean (map Fin xs) = Fin (sum_list xs / real (length xs))"
  by (simp add: mean_def fsum_def foldl_fadd_Fin)

lemma mean_infinite:
  assumes "vs \<noteq> []" "NaN \<notin> set vs" "PInf \<in> set vs \<or> NInf \<in> set vs"
  shows "mean vs =
     (if PInf \<in> set vs \<and> NInf \<in> set vs then NaN else if PInf \<in> set vs then PInf else NInf)"
  using assms by (simp add: mean_def fsum_def foldl_fadd_infinite)

lemma valid_values_filter:
  "valid_values s = filter (\<lambda>p. snd p \<noteq> NaN \<and> snd p \<noteq> Fin 0) s"
  by (auto simp: valid_values_def is_valid_def case_prod_unfold intro: filter_cong)

text \<open>
  Claim C3. The valid values of a series are its values that are neither NaN nor zero.
  Without a valid value the series is returned as it is. With one, the labels stay, every
  NaN or zero whose label lies between the smallest and the largest label of a valid value
  becomes the mean of the valid values, every other value stays, and no row with a label
  outside that span is changed. The mean is the sum of the valid values divided by their
  number when they are all finite; with an infinite valid value it is that infinity, or
  NaN when both infinities occur.
\<close>

theorem repair_gaps_interior_only:
  fixes s :: "('l::linorder \<times> fval) list"
  shows "valid_values s = filter (\<lambda>p. snd p \<noteq> NaN \<and> snd p \<noteq> Fin 0) s \<and>
         (valid_values s = [] \<longrightarrow> replace_nans_and_zeros_with_mean s = s) \<and>
         (valid_values s \<noteq> [] \<longrightarrow>
            length (replace_nans_and_zeros_with_mean s) = length s \<and>
            map fst (replace_nans_and_zeros_with_mean s) = map fst s \<and>
            (\<forall>k<length s.
               snd (replace_nans_and_zeros_with_mean s ! k) =
                 (if (snd (s ! k) = NaN \<or> snd (s ! k) = Fin 0) \<and>
                     Min (fst ` set (valid_values s)) \<le> fst (s ! k) \<and>
                     fst (s ! k) \<le> Max (fst ` set (valid_values s))
                  then mean (map snd (valid_values s)) else snd (s ! k))) \<and>
            (\<forall>k<length s.
               fst (s ! k) < Min (fst ` set (valid_values s)) \<or>
               Max (fst ` set (valid_values s)) < fst (s ! k) \<longrightarrow>
               replace_nans_and_zeros_with_mean s ! k = s ! k) \<and>
            (\<forall>xs. map snd (valid_values s) = map Fin xs \<longrightarrow>
               mean (map snd (valid_values s)) = Fin (sum_list xs / real (length xs))) \<and>
            (PInf \<in> snd ` set (valid_values s) \<or> NInf \<in> snd ` set (valid_values s) \<longrightarrow>
               mean (map snd (valid_values s)) =
                 (if PInf \<in> snd ` set (valid_values s) \<and> NInf \<in> snd ` set (valid_values s)
                  then NaN
                  else if PInf \<in> snd ` set (valid_values s) then PInf else NInf)))"
proof (intro conjI impI)
  show "valid_values s = filter (\<lambda>p. snd p \<noteq> NaN \<and> snd p \<noteq> Fin 0) s"
    by (rule valid_values_filter)
next
  assume "valid_values s = []"
  then show "replace_nans_and_zeros_with_mean s = s"
    by (simp add: replace_nans_and_zeros_with_mean_def)
next
  assume v: "valid_values s \<noteq> []"
  show "length (replace_nans_and_zeros_with_mean s) = length s"
    by (rule repair_length)
  show "map fst (replace_nans_and_zeros_with_mean s) = map fst s"
    by (rule nth_equalityI) (simp_all add: repair_length repair_nth [OF v])
  show "\<forall>k<length s.
          snd (replace_nans_and_zeros_with_mean s ! k) =
            (if (snd (s ! k) = NaN \<or> snd (s ! k) = Fin 0) \<and>
                Min (fst ` set (valid_values s)) \<le> fst (s ! k) \<and>
                fst (s ! k) \<le> Max (fst ` set (valid_values s))
             then mean (map snd (valid_values s)) else snd (s ! k))"
    by (auto simp: repair_nth [OF v] is_valid_def)
  show "\<forall>k<length s.
          fst (s ! k) < Min (fst ` set (valid_values s)) \<or>
          Max (fst ` set (valid_values s)) < fst (s ! k) \<longrightarrow>
          replace_nans_and_zeros_with_mean s ! k = s ! k"
    by (auto simp: repair_nth [OF v])
  show "\<forall>xs. map snd (valid_values s) = map Fin xs \<longrightarrow>
               mean (map snd (valid_values s)) = Fin (sum_list xs / real (length xs))"
  proof (intro allI impI)
    fix xs assume e: "map snd (valid_values s) = map Fin xs"
    then have "xs \<noteq> []" using v by auto
    then show "mean (map snd (valid_values s)) = Fin (sum_list xs / real (length xs))"
      unfolding e by (rule mean_finite)
  qed
  have nn: "NaN \<notin> set (map snd (valid_values s))"
    by (auto simp: valid_values_filter)
  have ne: "map snd (valid_values s) \<noteq> []" using v by simp
  show "mean (map snd (valid_values s)) =
                 (if PInf \<in> snd ` set (valid_values s) \<and> NInf \<in> snd ` set (valid_values s)
                  then NaN
                  else if PInf \<in> snd ` set (valid_values s) then PInf else NInf)"
    if "PInf \<in> snd ` set (valid_values s) \<or> NInf \<in> snd ` set (valid_values s)"
    using mean_infinite [OF ne nn] that by simp
qed

text \<open>
  Claim C3 on a series with a leading NaN, two interior gaps and a trailing zero, whose
  valid values 4 and 8 have the mean 6; on a series with an infinite value; and on the
  empty series.
\<close>

theorem repair_gaps_interior_only_witness:
  "valid_values series6 \<noteq> [] \<and>
   map snd (valid_values series6) = map Fin [4, 8] \<and>
   snd (replace_nans_and_zeros_with_mean series6 ! 2) = Fin 6 \<and>
   snd (replace_nans_and_zeros_with_mean series6 ! 3) = Fin 6 \<and>
   snd (replace_nans_and_zeros_with_mean series6 ! 1) = Fin 4 \<and>
   replace_nans_and_zeros_with_mean series6 ! 0 = (1, NaN) \<and>
   replace_nans_and_zeros_with_mean series6 ! 5 = (6, Fin 0) \<and>
   valid_values series_infinite \<noteq> [] \<and>
   PInf \<in> snd ` set (valid_values series_infinite) \<and>
   snd (replace_nans_and_zeros_with_mean series_infinite ! 1) = PInf \<and>
   valid_values ([] :: (int \<times> fval) list) = [] \<and>
   replace_nans_and_zeros_with_mean ([] :: (int \<times> fval) list) = []"
proof -
  have v: "valid_values series6 = [(2, Fin 4), (5, Fin 8)]"
    by (simp add: series6_def valid_values_def is_valid_def)
  have ne: "valid_values series6 \<noteq> []" by (simp add: v)
  have f: "map snd (valid_values series6) = map Fin [4, 8]" by (simp add: v)
  have l: "length series6 = 6" by (simp add: series6_def)
  note t = repair_gaps_interior_only [of series6, THEN conjunct2, THEN conjunct2, rule_format, OF ne]
  have mm: "Min (fst ` set (valid_values series6)) = 2" "Max (fst ` set (valid_values series6)) = 5"
    by (simp_all add: v)
  from t have q: "\<forall>xs. map snd (valid_values series6) = map Fin xs \<longrightarrow>
               mean (map snd (valid_values series6)) = Fin (sum_list xs / real (length xs))"
    by blast
  have m: "mean (map snd (valid_values series6)) = Fin 6"
    using q [rule_format, OF f] by simp
  have a: "\<forall>k<6. snd (replace_nans_and_zeros_with_mean series6 ! k) =
                 (if (snd (series6 ! k) = NaN \<or> snd (series6 ! k) = Fin 0) \<and>
                     2 \<le> fst (series6 ! k) \<and> fst (series6 ! k) \<le> 5
                  then Fin 6 else snd (series6 ! k))"
    using t unfolding mm m l by blast
  have b: "\<forall>k<6. fst (series6 ! k) < 2 \<or> 5 < fst (series6 ! k) \<longrightarrow>
               replace_nans_and_zeros_with_mean series6 ! k = series6 ! k"
    using t unfolding mm m l by blast
  have "snd (replace_nans_and_zeros_with_mean series6 ! 2) = Fin 6"
    using a [rule_format, of 2] by (simp add: series6_def)
  moreover have "snd (replace_nans_and_zeros_with_mean series6 ! 3) = Fin 6"
    using a [rule_format, of 3] by (simp add: series6_def)
  moreover have "snd (replace_nans_and_zeros_with_mean series6 ! 1) = Fin 4"
    using a [rule_format, of 1] by (simp add: series6_def)
  moreover have "replace_nans_and_zeros_with_mean series6 ! 0 = (1, NaN)"
    using b [rule_format, of 0] by (simp add: series6_def)
  moreover have "replace_nans_and_zeros_with_mean series6 ! 5 = (6, Fin 0)"
    using b [rule_format, of 5] by (simp add: series6_def)
  moreover have i: "valid_values series_infinite \<noteq> [] \<and>
      PInf \<in> snd ` set (valid_values series_infinite) \<and>
      snd (replace_nans_and_zeros_with_mean series_infinite ! 1) = PInf"
  proof -
    have vi: "valid_values series_infinite = [(1, PInf), (3, Fin 1)]"
      by (simp add: series_infinite_def valid_values_def is_valid_def)
    have nei: "valid_values series_infinite \<noteq> []" by (simp add: vi)
    have p: "PInf \<in> snd ` set (valid_values series_infinite)" by (simp add: vi)
    note u = repair_gaps_interior_only [of series_infinite, THEN conjunct2, THEN conjunct2,
        rule_format, OF nei]
    from u have qi: "PInf \<in> snd ` set (valid_values series_infinite) \<or>
                     NInf \<in> snd ` set (valid_values series_infinite) \<longrightarrow>
               mean (map snd (valid_values series_infinite)) =
                 (if PInf \<in> snd ` set (valid_values series_infinite) \<and>
                     NInf \<in> snd ` set (valid_values series_infinite)
                  then NaN
                  else if PInf \<in> snd ` set (valid_values series_infinite) then PInf else NInf)"
      by blast
    have "NInf \<notin> snd ` set (valid_values series_infinite)" by (simp add: vi)
    then have mi: "mean (map snd (valid_values series_infinite)) = PInf"
      using qi p by simp
    have mn: "Min (fst ` set (valid_values series_infinite)) = 1"
      "Max (fst ` set (valid_values series_infinite)) = 3"
      by (simp_all add: vi)
    have "\<forall>k<length series_infinite.
            snd (replace_nans_and_zeros_with_mean series_infinite ! k) =
                 (if (snd (series_infinite ! k) = NaN \<or> snd (series_infinite ! k) = Fin 0) \<and>
                     1 \<le> fst (series_infinite ! k) \<and> fst (series_infinite ! k) \<le> 3
                  then PInf else snd (series_infinite ! k))"
      using u unfolding mn mi by blast
    from this [rule_format, of 1]
    have "snd (replace_nans_and_zeros_with_mean series_infinite ! 1) = PInf"
      by (simp add: series_infinite_def)
    then show ?thesis using nei p by blast
  qed
  moreover have e: "valid_values ([] :: (int \<times> fval) list) = []"
    by (simp add: valid_values_def)
  moreover have "replace_nans_and_zeros_with_mean ([] :: (int \<times> fval) list) = []"
    using repair_gaps_interior_only [of "[] :: (int \<times> fval) list", THEN conjunct2, THEN conjunct1] e
    by blast
  ultimately show ?thesis using ne f by blast
qed

lemma reindex_distinct:
  "distinct (map fst rf) \<Longrightarrow> reindex rf target = Inr (map (label_value rf) target)"
proof -
  have "map snd rf = map (label_value rf) (map fst rf)" if "distinct (map fst rf)"
  proof (rule nth_equalityI)
    show "length (map snd rf) = length (map (label_value rf) (map fst rf))" by simp
    fix i assume "i < length (map snd rf)"
    then have i: "i < length rf" by simp
    then have "rf ! i \<in> set rf" by simp
    then have "map_of rf (fst (rf ! i)) = Some (snd (rf ! i))"
      using that by (simp add: map_of_eq_Some_iff)
    then show "map snd rf ! i = map (label_value rf) (map fst rf) ! i"
      using i by (simp add: label_value_def)
  qed
  then show "distinct (map fst rf) \<Longrightarrow> reindex rf target = Inr (map (label_value rf) target)"
    by (auto simp: reindex_def)
qed

lemma subtract_where_length: "length (subtract_where col rf) = min (length col) (length rf)"
  by (simp add: subtract_where_def)

lemma subtract_where_nth:
  "i < length col \<Longrightarrow> i < length rf \<Longrightarrow>
   subtract_where col rf ! i = (if col ! i = Fin 0 then Fin 0 else fsub (col ! i) (rf ! i))"
  by (simp add: subtract_where_def)

lemma wf_frame_col:
  "wf_frame df \<Longrightarrow> j < length (columns df) \<Longrightarrow> length (snd (columns df ! j)) = length (index df)"
  by (auto simp: wf_frame_def list_all_length case_prod_unfold)

lemma replace_zeros_no_zero: "(name, col) \<in> set (columns (replace_zeros df)) \<Longrightarrow> Fin 0 \<notin> set col"
  by (auto simp: replace_zeros_def replace_zero_def)

lemma fsub_self: "fsub (Fin x) (Fin x) = Fin 0"
  by (simp add: fsub_def)

lemma label_value_zip_map:
  "label_value (zip xs (map f xs)) t = (if t \<in> set xs then f t else NaN)"
  by (simp add: label_value_def map_of_zip_map)

lemma label_value_zip_map_fun:
  "label_value (zip xs (map f xs)) = (\<lambda>t. if t \<in> set xs then f t else NaN)"
  by (rule ext) (simp add: label_value_zip_map)

text \<open>
  The risk-free value that a row of the second table meets: the value of its timestamp
  when the first table has that timestamp too, NaN otherwise.
\<close>

lemma aligned_on_second_table:
  assumes "distinct (map fst rf)" "distinct idx1"
  shows "reindex (zip idx1 (map (label_value rf) idx1)) idx2 =
           Inr (map (\<lambda>t. if t \<in> set idx1 then label_value rf t else NaN) idx2)"
proof -
  have "distinct (map fst (zip idx1 (map (label_value rf) idx1)))"
    using assms(2) by simp
  from reindex_distinct [OF this, of idx2] show ?thesis
    by (simp add: label_value_zip_map)
qed

lemma etf_excess:
  "distinct (map fst rf) \<Longrightarrow>
   df_log_excess_return df1 rf =
     Inr (df1\<lparr>columns := map (\<lambda>(name, col).
            (name, subtract_where col (map (label_value rf) (index df1)))) (columns df1)\<rparr>)"
  by (simp add: df_log_excess_return_def reindex_distinct)

lemma mutual_excess:
  "distinct (map fst rf) \<Longrightarrow> distinct (index df1) \<Longrightarrow>
   df_log_excess_return_mutual df1 df2 rf =
     Inr (df2\<lparr>columns := map (\<lambda>(name, col).
            (name, subtract_where col
               (map (\<lambda>t. if t \<in> set (index df1) then label_value rf t else NaN) (index df2))))
            (columns df2)\<rparr>)"
  by (simp add: df_log_excess_return_mutual_def reindex_distinct label_value_zip_map_fun)

text \<open>
  The cells of the excess returns before the replacement pass, for timestamps without
  duplicates: a zero return stays zero; a return of the first table has the risk-free
  value of its timestamp subtracted; a return of the second table has that value
  subtracted when the first table has the timestamp, and NaN otherwise.
\<close>

lemma excess_return_cells:
  assumes d: "distinct (map fst rf)" and d1: "distinct (index df1)"
    and wf1: "wf_frame df1" and wf2: "wf_frame df2"
  shows "\<exists>etf mutual.
           df_log_excess_return df1 rf = Inr etf \<and>
           df_log_excess_return_mutual df1 df2 rf = Inr mutual \<and>
           excess_return_stage df1 df2 rf =
             Inr (replace_zeros df1, replace_zeros etf, replace_zeros df2, replace_zeros mutual) \<and>
           (\<forall>j<length (columns df1). \<forall>i<length (index df1).
              snd (columns etf ! j) ! i =
                (if snd (columns df1 ! j) ! i = Fin 0 then Fin 0
                 else fsub (snd (columns df1 ! j) ! i) (label_value rf (index df1 ! i)))) \<and>
           (\<forall>j<length (columns df2). \<forall>i<length (index df2).
              snd (columns mutual ! j) ! i =
                (if snd (columns df2 ! j) ! i = Fin 0 then Fin 0
                 else fsub (snd (columns df2 ! j) ! i)
                        (if index df2 ! i \<in> set (index df1)
                         then label_value rf (index df2 ! i) else NaN)))"
proof -
  let ?etf = "df1\<lparr>columns := map (\<lambda>(name, col).
            (name, subtract_where col (map (label_value rf) (index df1)))) (columns df1)\<rparr>"
  let ?mut = "df2\<lparr>columns := map (\<lambda>(name, col).
            (name, subtract_where col
               (map (\<lambda>t. if t \<in> set (index df1) then label_value rf t else NaN) (index df2))))
            (columns df2)\<rparr>"
  have e: "df_log_excess_return df1 rf = Inr ?etf" by (rule etf_excess [OF d])
  have m: "df_log_excess_return_mutual df1 df2 rf = Inr ?mut" by (rule mutual_excess [OF d d1])
  have s: "excess_return_stage df1 df2 rf =
             Inr (replace_zeros df1, replace_zeros ?etf, replace_zeros df2, replace_zeros ?mut)"
    by (simp add: excess_return_stage_def e m)
  have c1: "snd (columns ?etf ! j) ! i =
                (if snd (columns df1 ! j) ! i = Fin 0 then Fin 0
                 else fsub (snd (columns df1 ! j) ! i) (label_value rf (index df1 ! i)))"
    if "j < length (columns df1)" "i < length (index df1)" for i j
    using that wf_frame_col [OF wf1 that(1)]
    by (simp add: case_prod_unfold subtract_where_nth)
  have c2: "snd (columns ?mut ! j) ! i =
                (if snd (columns df2 ! j) ! i = Fin 0 then Fin 0
                 else fsub (snd (columns df2 ! j) ! i)
                        (if index df2 ! i \<in> set (index df1)
                         then label_value rf (index df2 ! i) else NaN))"
    if "j < length (columns df2)" "i < length (index df2)" for i j
    using that wf_frame_col [OF wf2 that(1)]
    by (simp add: case_prod_unfold subtract_where_nth)
  show ?thesis
    apply (rule exI [of _ ?etf])
    apply (rule exI [of _ ?mut])
    using e m s c1 c2 apply blast
    done
qed

text \<open>
  Claim C4 on two tables with different dates. The risk-free series is put on the index
  of the first table only, and the second table is subtracted from that aligned series:
  its row at the date 3, which the first table lacks, has the return 9 and the risk-free
  value 3, and its excess return is NaN, not 6.
\<close>

theorem second_table_on_first_tables_index:
  "excess_return_stage etf_example mutual_example riskfree3 =
     Inr (\<lparr>index = [1, 2], columns = [(''ETF'', [Fin 5, Fin 7])]\<rparr>,
          \<lparr>index = [1, 2], columns = [(''ETF'', [Fin 4, Fin 5])]\<rparr>,
          \<lparr>index = [1, 2, 3], columns = [(''Mutual'', [Fin 5, Fin 7, Fin 9])]\<rparr>,
          \<lparr>index = [1, 2, 3], columns = [(''Mutual'', [Fin 4, Fin 5, NaN])]\<rparr>) \<and>
   index mutual_example ! 2 = 3 \<and>
   snd (columns mutual_example ! 0) ! 2 = Fin 9 \<and>
   label_value riskfree3 3 = Fin 3 \<and>
   fsub (Fin 9) (label_value riskfree3 3) = Fin 6"
  by (simp add: excess_return_stage_def df_log_excess_return_def df_log_excess_return_mutual_def
      reindex_def etf_example_def mutual_example_def riskfree3_def replace_zeros_def
      replace_zero_def subtract_where_def label_value_def fsub_def)

text \<open>
  Claim C9. After the stage no table, raw or excess, of either input has a cell equal
  to zero; a non-zero return equal to the risk-free value of its row has excess return NaN
  (in the second table, for a row whose timestamp the first table has).
\<close>

theorem no_exact_zero_after_alignment:
  assumes "excess_return_stage df1 df2 df_riskfree = Inr (raw, excess, raw2, excess2)"
  shows "(\<forall>(name, col) \<in> set (columns raw). Fin 0 \<notin> set col) \<and>
         (\<forall>(name, col) \<in> set (columns excess). Fin 0 \<notin> set col) \<and>
         (\<forall>j<length (columns df1). \<forall>i<length (index df1). \<forall>x.
            length (snd (columns df1 ! j)) = length (index df1) \<and> distinct (map fst df_riskfree) \<and>
            snd (columns df1 ! j) ! i = Fin x \<and> x \<noteq> 0 \<and>
            label_value df_riskfree (index df1 ! i) = Fin x \<longrightarrow>
            snd (columns excess ! j) ! i = NaN) \<and>
         (\<forall>(name, col) \<in> set (columns raw2). Fin 0 \<notin> set col) \<and>
         (\<forall>(name, col) \<in> set (columns excess2). Fin 0 \<notin> set col) \<and>
         (\<forall>j<length (columns df2). \<forall>i<length (index df2). \<forall>x.
            length (snd (columns df2 ! j)) = length (index df2) \<and> distinct (map fst df_riskfree) \<and>
            distinct (index df1) \<and> index df2 ! i \<in> set (index df1) \<and>
            snd (columns df2 ! j) ! i = Fin x \<and> x \<noteq> 0 \<and>
            label_value df_riskfree (index df2 ! i) = Fin x \<longrightarrow>
            snd (columns excess2 ! j) ! i = NaN)"
proof -
  from assms obtain mid mid2 where mid: "df_log_excess_return df1 df_riskfree = Inr mid"
    and mid2: "df_log_excess_return_mutual df1 df2 df_riskfree = Inr mid2"
    and raw: "raw = replace_zeros df1" and ex: "excess = replace_zeros mid"
    and raw2: "raw2 = replace_zeros df2" and ex2: "excess2 = replace_zeros mid2"
    by (auto simp: excess_return_stage_def split: sum.splits)
  have a: "\<forall>(name, col) \<in> set (columns raw). Fin 0 \<notin> set col"
    using replace_zeros_no_zero unfolding raw by fast
  have b: "\<forall>(name, col) \<in> set (columns excess). Fin 0 \<notin> set col"
    using replace_zeros_no_zero unfolding ex by fast
  have a2: "\<forall>(name, col) \<in> set (columns raw2). Fin 0 \<notin> set col"
    using replace_zeros_no_zero unfolding raw2 by fast
  have b2: "\<forall>(name, col) \<in> set (columns excess2). Fin 0 \<notin> set col"
    using replace_zeros_no_zero unfolding ex2 by fast
  have c: "snd (columns excess ! j) ! i = NaN"
    if "j < length (columns df1)" "i < length (index df1)"
      "length (snd (columns df1 ! j)) = length (index df1)" "distinct (map fst df_riskfree)"
      "snd (columns df1 ! j) ! i = Fin x" "x \<noteq> 0"
      "label_value df_riskfree (index df1 ! i) = Fin x" for i j x
  proof -
    have "mid = df1\<lparr>columns := map (\<lambda>(name, col). (name, subtract_where col (map (label_value df_riskfree) (index df1)))) (columns df1)\<rparr>"
      using mid by (simp add: etf_excess [OF that(4)])
    then show ?thesis using that
      by (simp add: ex replace_zeros_def case_prod_unfold subtract_where_nth subtract_where_length
          replace_zero_def fsub_self)
  qed
  have c2: "snd (columns excess2 ! j) ! i = NaN"
    if "j < length (columns df2)" "i < length (index df2)"
      "length (snd (columns df2 ! j)) = length (index df2)" "distinct (map fst df_riskfree)"
      "distinct (index df1)" "index df2 ! i \<in> set (index df1)"
      "snd (columns df2 ! j) ! i = Fin x" "x \<noteq> 0"
      "label_value df_riskfree (index df2 ! i) = Fin x" for i j x
  proof -
    have "mid2 = df2\<lparr>columns := map (\<lambda>(name, col).
            (name, subtract_where col
               (map (\<lambda>t. if t \<in> set (index df1) then label_value df_riskfree t else NaN) (index df2))))
            (columns df2)\<rparr>"
      using mid2 by (simp add: mutual_excess [OF that(4) that(5)])
    then show ?thesis using that
      by (simp add: ex2 replace_zeros_def case_prod_unfold subtract_where_nth subtract_where_length
          replace_zero_def fsub_self)
  qed
  show ?thesis using a b c a2 b2 c2 by blast
qed

text \<open>
  Claim C9 on the example tables: the third return of the first table and the first
  return of the second equal the risk-free value of their rows.
\<close>

theorem no_exact_zero_after_alignment_witness:
  "excess_return_stage returns_example mutual_returns_example riskfree_example
     = Inr (raw_example, excess_example, mutual_raw_example, mutual_excess_example) \<and>
   Fin 0 \<notin> set (snd (columns raw_example ! 0)) \<and>
   Fin 0 \<notin> set (snd (columns excess_example ! 0)) \<and>
   Fin 0 \<notin> set (snd (columns mutual_raw_example ! 0)) \<and>
   Fin 0 \<notin> set (snd (columns mutual_excess_example ! 0)) \<and>
   snd (columns returns_example ! 0) ! 2 = Fin 2 \<and>
   label_value riskfree_example (index returns_example ! 2) = Fin 2 \<and>
   snd (columns excess_example ! 0) ! 2 = NaN \<and>
   snd (columns mutual_returns_example ! 0) ! 0 = Fin 3 \<and>
   label_value riskfree_example (index mutual_returns_example ! 0) = Fin 3 \<and>
   snd (columns mutual_excess_example ! 0) ! 0 = NaN"
proof -
  have h: "excess_return_stage returns_example mutual_returns_example riskfree_example
             = Inr (raw_example, excess_example, mutual_raw_example, mutual_excess_example)"
    by (simp add: excess_return_stage_def df_log_excess_return_def df_log_excess_return_mutual_def
        reindex_def returns_example_def mutual_returns_example_def
        riskfree_example_def raw_example_def excess_example_def mutual_raw_example_def
        mutual_excess_example_def replace_zeros_def replace_zero_def
        subtract_where_def label_value_def fsub_def)
  note t = no_exact_zero_after_alignment [OF h]
  have a: "Fin 0 \<notin> set (snd (columns raw_example ! 0))"
    using t [THEN conjunct1] by (simp add: raw_example_def)
  have b: "Fin 0 \<notin> set (snd (columns excess_example ! 0))"
    using t [THEN conjunct2, THEN conjunct1] by (simp add: excess_example_def)
  have a2: "Fin 0 \<notin> set (snd (columns mutual_raw_example ! 0))"
    using t [THEN conjunct2, THEN conjunct2, THEN conjunct2, THEN conjunct1]
    by (simp add: mutual_raw_example_def)
  have b2: "Fin 0 \<notin> set (snd (columns mutual_excess_example ! 0))"
    using t [THEN conjunct2, THEN conjunct2, THEN conjunct2, THEN conjunct2, THEN conjunct1]
    by (simp add: mutual_excess_example_def)
  have p: "snd (columns returns_example ! 0) ! 2 = Fin 2"
    "label_value riskfree_example (index returns_example ! 2) = Fin 2"
    "length (snd (columns returns_example ! 0)) = length (index returns_example)"
    "distinct (map fst riskfree_example)" "0 < length (columns returns_example)"
    "2 < length (index returns_example)"
    by (simp_all add: returns_example_def riskfree_example_def label_value_def)
  have c: "snd (columns excess_example ! 0) ! 2 = NaN"
    using t [THEN conjunct2, THEN conjunct2, THEN conjunct1, rule_format, of 0 2 2] p by simp
  have p2: "snd (columns mutual_returns_example ! 0) ! 0 = Fin 3"
    "label_value riskfree_example (index mutual_returns_example ! 0) = Fin 3"
    "length (snd (columns mutual_returns_example ! 0)) = length (index mutual_returns_example)"
    "distinct (index returns_example)"
    "index mutual_returns_example ! 0 \<in> set (index returns_example)"
    "0 < length (columns mutual_returns_example)"
    "0 < length (index mutual_returns_example)"
    by (simp_all add: returns_example_def mutual_returns_example_def riskfree_example_def
        label_value_def)
  have c2: "snd (columns mutual_excess_example ! 0) ! 0 = NaN"
    using t [THEN conjunct2, THEN conjunct2, THEN conjunct2, THEN conjunct2, THEN conjunct2,
        rule_format, of 0 0 3] p(4) p2 by simp
  show ?thesis using h a b a2 b2 p c p2 c2 by blast
qed

section \<open>Properties of the regressions\<close>

lemma collect_Inr:
  "collect f xs = Inr ys \<Longrightarrow> length ys = length xs \<and> (\<forall>j<length xs. f (xs ! j) = Inr (ys ! j))"
proof (induction xs arbitrary: ys)
  case Nil
  then show ?case by simp
next
  case (Cons x xs)
  from Cons.prems obtain y ys' where y: "f x = Inr y" and r: "collect f xs = Inr ys'"
    and e: "ys = y # ys'"
    by (auto split: sum.splits)
  from Cons.IH [OF r] have l: "length ys' = length xs"
    and n: "\<forall>j<length xs. f (xs ! j) = Inr (ys' ! j)" by simp_all
  show ?case
  proof (intro conjI allI impI)
    show "length ys = length (x # xs)" using l e by simp
    fix j assume "j < length (x # xs)"
    then show "f ((x # xs) ! j) = Inr (ys ! j)"
      using y n e by (cases j) simp_all
  qed
qed

lemma index_take_rows: "index (take_rows ps df) = map (\<lambda>i. index df ! i) ps"
  by (simp add: take_rows_def)

lemma columns_take_rows:
  "columns (take_rows ps df) = map (\<lambda>(name, col). (name, map (\<lambda>i. col ! i) ps)) (columns df)"
  by (simp add: take_rows_def)

lemma index_dropna_subset: "set (index (dropna df)) \<subseteq> set (index df)"
  by (auto simp: dropna_def index_take_rows)

lemma distinct_index_dropna:
  assumes "distinct (index df)"
  shows "distinct (index (dropna df))"
proof -
  let ?ps = "filter (\<lambda>i. \<not> row_has_nan df i) [0..<length (index df)]"
  have "inj_on (\<lambda>i. index df ! i) (set ?ps)"
    using assms by (auto simp: inj_on_def nth_eq_iff_index_eq)
  then show ?thesis
    by (simp add: dropna_def index_take_rows distinct_map)
qed

lemma label_value_absent:
  "length col = length labels \<Longrightarrow> t \<notin> set labels \<Longrightarrow> label_value (zip labels col) t = NaN"
proof -
  assume l: "length col = length labels" and t: "t \<notin> set labels"
  have "t \<notin> fst ` set (zip labels col)"
    using t by (auto dest: set_zip_leftD)
  then have "map_of (zip labels col) t = None"
    by (simp add: map_of_eq_None_iff)
  then show ?thesis by (simp add: label_value_def)
qed

text \<open>The frame that \<open>concat\<close> builds on the sorted union of two different indexes.\<close>

lemma regression_data_cases:
  assumes r: "regression_data (column_frame labels (name, col)) X = Inr data"
  obtains (same) "labels = index X"
      "data = dropna \<lparr>index = labels, columns = (name, col) # columns X\<rparr>"
    | (union) u where "labels \<noteq> index X" "distinct labels" "distinct (index X)"
      "u = sort (labels @ filter (\<lambda>t. t \<notin> set labels) (index X))"
      "data = dropna \<lparr>index = u,
          columns = columns (reindex_frame (column_frame labels (name, col)) u)
                    @ columns (reindex_frame X u)\<rparr>"
  using r
  by (auto simp: regression_data_def concat_axis1_def column_frame_def Let_def split: if_splits)

lemma regression_data_index:
  assumes r: "regression_data (column_frame labels (name, col)) X = Inr data"
    and l: "length col = length labels"
  shows "set (index data) \<subseteq> set labels"
  using r
proof (cases rule: regression_data_cases)
  case same
  then show ?thesis
    using index_dropna_subset [of "\<lparr>index = labels, columns = (name, col) # columns X\<rparr>"]
    by simp
next
  case (union u)
  define both where "both = \<lparr>index = u,
      columns = columns (reindex_frame (column_frame labels (name, col)) u) @ columns (reindex_frame X u)\<rparr>"
  have d: "data = dropna both" using union by (simp add: both_def)
  show ?thesis
  proof
    fix t assume "t \<in> set (index data)"
    then obtain i where i: "i < length u" and ok: "\<not> row_has_nan both i" and t: "t = u ! i"
      by (auto simp: d dropna_def index_take_rows both_def)
    have "t \<in> set labels"
    proof (rule ccontr)
      assume n: "t \<notin> set labels"
      have "label_value (zip labels col) (u ! i) = NaN"
        using label_value_absent [OF l n] t by simp
      then have "row_has_nan both i"
        using i by (simp add: row_has_nan_def both_def reindex_frame_def column_frame_def)
      with ok show False by simp
    qed
    then show "t \<in> set labels" .
  qed
qed

lemma regression_data_distinct:
  assumes r: "regression_data (column_frame labels (name, col)) X = Inr data"
    and d: "distinct labels"
  shows "distinct (index data)"
  using r
proof (cases rule: regression_data_cases)
  case same
  then show ?thesis
    using distinct_index_dropna [of "\<lparr>index = labels, columns = (name, col) # columns X\<rparr>"] d
    by simp
next
  case (union u)
  have "distinct u" using union by auto
  then show ?thesis
    using distinct_index_dropna [of "\<lparr>index = u,
          columns = columns (reindex_frame (column_frame labels (name, col)) u)
                    @ columns (reindex_frame X u)\<rparr>"] union
    by simp
qed

lemma length_y_clean:
  assumes "regression_data (column_frame labels (name, col)) X = Inr data"
  shows "length (y_clean data) = length (index data)"
proof -
  from assms obtain both where b: "concat_axis1 (column_frame labels (name, col)) X = Inr both"
    and d: "data = dropna both"
    by (auto simp: regression_data_def split: sum.splits)
  from b obtain c cs where "columns both = c # cs"
    by (auto simp: concat_axis1_def column_frame_def reindex_frame_def Let_def split: if_splits)
  then show ?thesis
    by (simp add: d y_clean_def dropna_def take_rows_def case_prod_unfold)
qed

lemma zip_map_self: "zip xs (map f xs) = map (\<lambda>x. (x, f x)) xs"
  by (induction xs) simp_all

lemma reindex_re_expanded:
  assumes r: "reindex s labels = Inr out" and d: "distinct labels"
  shows "re_expanded labels s out"
proof (cases "map fst s = labels")
  case True
  then have o: "out = map snd s" using r by (simp add: reindex_def)
  have l: "length s = length labels" using True by (metis length_map)
  have a: "out ! i = snd (s ! k)" if "i < length labels" "k < length s" "labels ! i = fst (s ! k)" for i k
  proof -
    have "labels ! k = fst (s ! k)" using True that(2) by (metis nth_map)
    then have "labels ! i = labels ! k" using that(3) by simp
    then have "i = k" using d that l by (simp add: nth_eq_iff_index_eq)
    then show ?thesis using that o by simp
  qed
  have b: "labels ! i \<in> fst ` set s" if "i < length labels" for i
    using True that by (metis list.set_map nth_mem)
  show ?thesis
    unfolding re_expanded_def using a b o l by auto
next
  case False
  then have ds: "distinct (map fst s)" and o: "out = map (label_value s) labels"
    using r by (auto simp: reindex_def split: if_splits)
  have a: "out ! i = snd (s ! k)" if "i < length labels" "k < length s" "labels ! i = fst (s ! k)" for i k
  proof -
    have "s ! k \<in> set s" using that(2) by simp
    then have "map_of s (fst (s ! k)) = Some (snd (s ! k))"
      using ds by (simp add: map_of_eq_Some_iff)
    then show ?thesis using that by (simp add: o label_value_def)
  qed
  have b: "out ! i = NaN" if "i < length labels" "labels ! i \<notin> fst ` set s" for i
  proof -
    have "map_of s (labels ! i) = None" using that(2) by (simp add: map_of_eq_None_iff)
    then show ?thesis using that(1) by (simp add: o label_value_def)
  qed
  show ?thesis
    unfolding re_expanded_def using a b o by auto
qed

lemma re_expanded_reproduces:
  assumes e: "re_expanded labels s out"
    and d: "distinct labels" and ds: "distinct (map fst s)"
    and nn: "NaN \<notin> snd ` set s" and sub: "fst ` set s \<subseteq> set labels"
  shows "reproduces_rows labels s out"
proof -
  from e have l: "length out = length labels"
    and a: "\<And>i k. i < length labels \<Longrightarrow> k < length s \<Longrightarrow> labels ! i = fst (s ! k)
              \<Longrightarrow> out ! i = snd (s ! k)"
    and b: "\<And>i. i < length labels \<Longrightarrow> labels ! i \<notin> fst ` set s \<Longrightarrow> out ! i = NaN"
    unfolding re_expanded_def by auto
  have eq: "set (non_missing_rows labels out) = set s"
  proof (intro equalityI subsetI)
    fix p assume "p \<in> set (non_missing_rows labels out)"
    then obtain i where i: "i < length labels" and p: "p = (labels ! i, out ! i)"
      and v: "out ! i \<noteq> NaN"
      using l by (auto simp: non_missing_rows_def set_zip)
    from b [OF i] v have "labels ! i \<in> fst ` set s" by blast
    then obtain k where k: "k < length s" and f: "labels ! i = fst (s ! k)"
      by (auto simp: in_set_conv_nth)
    from a [OF i k f] have "p = s ! k" using p f by (simp add: prod_eq_iff)
    then show "p \<in> set s" using k by simp
  next
    fix p assume ps: "p \<in> set s"
    then obtain k where k: "k < length s" and pk: "p = s ! k" by (auto simp: in_set_conv_nth)
    have "fst p \<in> set labels" using sub ps by blast
    then obtain i where i: "i < length labels" and f: "labels ! i = fst (s ! k)"
      using pk by (auto simp: in_set_conv_nth)
    have o: "out ! i = snd (s ! k)" by (rule a [OF i k f])
    have "snd p \<noteq> NaN" using nn ps by (metis imageI)
    then have "out ! i \<noteq> NaN" using o pk by simp
    moreover have "(labels ! i, out ! i) \<in> set (zip labels out)"
      using i l by (auto simp: set_zip)
    ultimately have "(labels ! i, out ! i) \<in> set (non_missing_rows labels out)"
      by (simp add: non_missing_rows_def)
    moreover have "p = (labels ! i, out ! i)"
      using o f pk by (simp add: prod_eq_iff)
    ultimately show "p \<in> set (non_missing_rows labels out)" by simp
  qed
  have "distinct (zip labels out)" using d by (simp add: distinct_zipI1)
  then have dn: "distinct (non_missing_rows labels out)"
    by (simp add: non_missing_rows_def)
  have dss: "distinct s" using ds by (rule distinct_map [THEN iffD1, THEN conjunct1])
  have "length (non_missing_rows labels out) = length s"
    using eq dn dss by (metis distinct_card)
  then show ?thesis unfolding reproduces_rows_def using eq by simp
qed

lemma fit_column_re_expanded:
  assumes f: "fit_column lib labels X (name, col) = Inr (results, residuals, fitted)"
    and l: "length col = length labels" and d: "distinct labels"
  shows "series_re_expanded lib labels X (name, col) residuals fitted"
proof -
  from f obtain data where
    data: "regression_data (column_frame labels (name, col)) X = Inr data"
    and fit: "OLS_fit lib (y_clean data) (map snd (X_clean data)) = Some results"
    and res: "reindex (zip (index data) (resid results)) labels = Inr residuals"
    and fv: "reindex (zip (index data) (fittedvalues results)) labels = Inr fitted"
    by (auto simp: fit_column_def library_call_def split: sum.splits option.splits)
  have e: "estimation_data labels X (name, col) = data"
    by (simp add: estimation_data_def data)
  have sub: "set (index data) \<subseteq> set labels" by (rule regression_data_index [OF data l])
  have dd: "distinct (index data)" by (rule regression_data_distinct [OF data d])
  have r1: "re_expanded labels (zip (index data) (resid results)) residuals"
    by (rule reindex_re_expanded [OF res d])
  have r2: "re_expanded labels (zip (index data) (fittedvalues results)) fitted"
    by (rule reindex_re_expanded [OF fv d])
  have rep: "reproduces_rows labels (zip (index data) vs) out"
    if x: "re_expanded labels (zip (index data) vs) out"
      and n: "length vs = length (index data)" and nn: "NaN \<notin> set vs" for vs out
  proof (rule re_expanded_reproduces [OF x d])
    show "distinct (map fst (zip (index data) vs))" using dd n by simp
    show "NaN \<notin> snd ` set (zip (index data) vs)" using nn by (auto dest: set_zip_rightD)
    show "fst ` set (zip (index data) vs) \<subseteq> set labels" using sub by (auto dest: set_zip_leftD)
  qed
  show ?thesis
    unfolding series_re_expanded_def Let_def e fit
    using r1 r2 rep by simp
qed

lemma capm_column_fit:
  "capm_column lib labels X c = Inr r \<Longrightarrow>
   \<exists>results. fit_column lib labels X c = Inr (results, fst (snd r), snd (snd r))"
  by (auto simp: capm_column_def split: sum.splits prod.splits)

lemma fama_column_fit:
  "fama_column lib labels X c = Inr r \<Longrightarrow>
   \<exists>results. fit_column lib labels X c = Inr (results, fst (snd r), snd (snd r))"
  by (auto simp: fama_column_def split: sum.splits prod.splits)

lemma rows_re_expanded:
  assumes c: "collect f cols = Inr rows"
    and each: "\<And>c r. f c = Inr r \<Longrightarrow>
                 \<exists>results. fit_column lib labels X c = Inr (results, fst (snd r), snd (snd r))"
    and wf: "wf_frame \<lparr>index = labels, columns = cols\<rparr>"
    and d: "distinct labels"
    and j: "j < length cols"
  shows "series_re_expanded lib labels X (cols ! j)
           (snd (zip (map fst cols) (map (fst \<circ> snd) rows) ! j))
           (snd (zip (map fst cols) (map (snd \<circ> snd) rows) ! j))"
proof -
  from collect_Inr [OF c] have l: "length rows = length cols"
    and n: "f (cols ! j) = Inr (rows ! j)" using j by simp_all
  obtain name col where nc: "cols ! j = (name, col)" by (cases "cols ! j")
  have len: "length col = length labels"
    using wf j nc by (auto simp: wf_frame_def list_all_length)
  from each [OF n] obtain results where
    f: "fit_column lib labels X (name, col) = Inr (results, fst (snd (rows ! j)), snd (snd (rows ! j)))"
    unfolding nc by blast
  from fit_column_re_expanded [OF f len d] show ?thesis
    using j l by (simp add: nc)
qed

text \<open>
  Claim C2, as the code has it. For a table with columns as long as its index and
  timestamps free of duplicates, the residual and fitted-value frames of \<open>regression_capm\<close>
  and \<open>regression_fama\<close> have the index and the column names of \<open>log_excess_return\<close>. Each
  column is as long as that index, holds at every timestamp of the rows the series was
  estimated on the residual (fitted value) that the fit gives for that row, and is NaN at
  every other timestamp. When the fit gives one value, not NaN, for each of its rows,
  dropping the missing rows of the column leaves exactly the rows of the estimation.
\<close>

theorem residuals_re_expanded:
  assumes wf: "wf_frame log_excess_return" and d: "distinct (index log_excess_return)"
  shows "(regression_capm lib log_excess_return df_regressor_capm
            = Inr (capm_results, capm_residuals, capm_fitted) \<longrightarrow>
          index capm_residuals = index log_excess_return \<and>
          index capm_fitted = index log_excess_return \<and>
          map fst (columns capm_residuals) = map fst (columns log_excess_return) \<and>
          map fst (columns capm_fitted) = map fst (columns log_excess_return) \<and>
          (\<forall>j<length (columns log_excess_return).
             series_re_expanded lib (index log_excess_return) (capm_regressor df_regressor_capm)
               (columns log_excess_return ! j)
               (snd (columns capm_residuals ! j)) (snd (columns capm_fitted ! j)))) \<and>
         (regression_fama lib log_excess_return df_regressor_fama
            = Inr (fama_results, fama_residuals, fama_fitted) \<longrightarrow>
          index fama_residuals = index log_excess_return \<and>
          index fama_fitted = index log_excess_return \<and>
          map fst (columns fama_residuals) = map fst (columns log_excess_return) \<and>
          map fst (columns fama_fitted) = map fst (columns log_excess_return) \<and>
          (\<forall>j<length (columns log_excess_return).
             series_re_expanded lib (index log_excess_return) df_regressor_fama
               (columns log_excess_return ! j)
               (snd (columns fama_residuals ! j)) (snd (columns fama_fitted ! j))))"
proof (intro conjI impI)
  let ?L = "index log_excess_return" and ?C = "columns log_excess_return"
  have wf': "wf_frame \<lparr>index = ?L, columns = ?C\<rparr>"
    using wf by (simp add: wf_frame_def)
  {
    assume run: "regression_capm lib log_excess_return df_regressor_capm
                   = Inr (capm_results, capm_residuals, capm_fitted)"
    then obtain x rows where x: "map_of (columns df_regressor_capm) ''ln excess'' = Some x"
      and c: "collect (capm_column lib ?L \<lparr>index = index df_regressor_capm,
                          columns = [(''ln excess'', x)]\<rparr>) ?C = Inr rows"
      and r: "capm_residuals = \<lparr>index = ?L, columns = zip (map fst ?C) (map (fst \<circ> snd) rows)\<rparr>"
      and f: "capm_fitted = \<lparr>index = ?L, columns = zip (map fst ?C) (map (snd \<circ> snd) rows)\<rparr>"
      by (auto simp: regression_capm_def split: option.splits sum.splits)
    have X: "\<lparr>index = index df_regressor_capm, columns = [(''ln excess'', x)]\<rparr>
               = capm_regressor df_regressor_capm"
      by (simp add: capm_regressor_def x)
    have l: "length rows = length ?C" using collect_Inr [OF c] by simp
    show "index capm_residuals = ?L" by (simp add: r)
    show "index capm_fitted = ?L" by (simp add: f)
    show "map fst (columns capm_residuals) = map fst ?C" by (simp add: r l)
    show "map fst (columns capm_fitted) = map fst ?C" by (simp add: f l)
    show "\<forall>j<length ?C.
             series_re_expanded lib ?L (capm_regressor df_regressor_capm) (?C ! j)
               (snd (columns capm_residuals ! j)) (snd (columns capm_fitted ! j))"
      using rows_re_expanded [OF c [unfolded X] capm_column_fit wf' d]
      by (simp add: r f)
  }
  {
    assume run: "regression_fama lib log_excess_return df_regressor_fama
                   = Inr (fama_results, fama_residuals, fama_fitted)"
    then obtain rows where
      c: "collect (fama_column lib ?L df_regressor_fama) ?C = Inr rows"
      and r: "fama_residuals = \<lparr>index = ?L, columns = zip (map fst ?C) (map (fst \<circ> snd) rows)\<rparr>"
      and f: "fama_fitted = \<lparr>index = ?L, columns = zip (map fst ?C) (map (snd \<circ> snd) rows)\<rparr>"
      by (auto simp: regression_fama_def split: sum.splits)
    have l: "length rows = length ?C" using collect_Inr [OF c] by simp
    show "index fama_residuals = ?L" by (simp add: r)
    show "index fama_fitted = ?L" by (simp add: f)
    show "map fst (columns fama_residuals) = map fst ?C" by (simp add: r l)
    show "map fst (columns fama_fitted) = map fst ?C" by (simp add: f l)
    show "\<forall>j<length ?C.
             series_re_expanded lib ?L df_regressor_fama (?C ! j)
               (snd (columns fama_residuals ! j)) (snd (columns fama_fitted ! j))"
      using rows_re_expanded [OF c fama_column_fit wf' d]
      by (simp add: r f)
  }
qed

lemma upt3: "[0..<3] = [0, 1, 2]"
  by (simp add: upt_rec)

lemma upt5: "[0..<5] = [0, 1, 2, 3, 4]"
  by (simp add: upt_rec)

lemma short_idx: "index short_returns = [''2024-01-31'', ''2024-02-29'', ''2024-03-31'']"
  by (simp add: short_returns_def)

lemma short_reg_names: "map fst (columns short_regressor) = [''ln excess'', ''SMB'', ''HML'']"
  by (simp add: short_regressor_def)


lemma short_data_fama:
  "regression_data (column_frame (index short_returns) (''Fund'', [NaN, Fin (1 / 50), Fin (1 / 100)]))
     short_regressor
   = Inr \<lparr>index = [''2024-02-29''], columns = [(''Fund'', [Fin (1 / 50)]), (''ln excess'', [Fin 0]),
        (''SMB'', [Fin 0]), (''HML'', [Fin 0])]\<rparr>"
  by (simp add: regression_data_def concat_axis1_def column_frame_def
      short_returns_def short_regressor_def dropna_def take_rows_def row_has_nan_def upt3)



lemma short_fama_column:
  "fama_column example_library (index short_returns) short_regressor
     (''Fund'', [NaN, Fin (1 / 50), Fin (1 / 100)])
   = Inr (hd (fst short_fama_result), [NaN, Fin 0, NaN], [NaN, Fin (1 / 50), NaN])"
  by (simp add: fama_column_def fit_column_def short_data_fama [simplified short_idx] y_clean_def X_clean_def
      add_constant_def is_const_column_def example_library_def example_ols_def ols_single_observation_def
      single_entry_def entry_def library_call_def reindex_def label_value_def
      fama_result_dict_def fama_beta_entry_def at_position_def short_fama_result_def short_idx
      short_reg_names)

lemma short_fama_run:
  "regression_fama example_library short_returns short_regressor = Inr short_fama_result"
proof -
  have c: "columns short_returns = [(''Fund'', [NaN, Fin (1 / 50), Fin (1 / 100)])]"
    by (simp add: short_returns_def)
  show ?thesis
    by (simp add: regression_fama_def c short_fama_column)
      (simp add: short_fama_result_def short_returns_def)
qed

text \<open>The table of five timestamps whose three complete rows lie on the line 2 + 3 x.\<close>

lemma line_idx:
  "index line_returns =
     [''2024-01-31'', ''2024-02-29'', ''2024-03-31'', ''2024-04-30'', ''2024-05-31'']"
  by (simp add: line_returns_def)

lemma line_capm_regressor: "capm_regressor line_regressor = line_regressor"
  by (simp add: capm_regressor_def line_regressor_def)

lemma line_data:
  "regression_data (column_frame (index line_returns) (''Fund'', [Fin 5, Fin 8, Fin 1, NaN, Fin 14]))
     line_regressor
   = Inr \<lparr>index = line_rows,
          columns = [(''Fund'', [Fin 5, Fin 8, Fin 14]), (''ln excess'', [Fin 1, Fin 2, Fin 4])]\<rparr>"
  by (simp add: regression_data_def concat_axis1_def column_frame_def line_rows_def
      line_returns_def line_regressor_def dropna_def take_rows_def row_has_nan_def upt5)

lemma line_ols:
  "example_ols [Fin 5, Fin 8, Fin 14] [[Fin 1, Fin 1, Fin 1], [Fin 1, Fin 2, Fin 4]] = Some line_fit"
  by (simp add: example_ols_def ols_single_observation_def ols_infinite_observation_def
      ols_exact_line_def all_finite_def reals_of_def zero_p_value_def line_fit_def Let_def
      numeral_3_eq_3)

lemma line_design:
  "map snd (X_clean \<lparr>index = line_rows,
      columns = [(''Fund'', [Fin 5, Fin 8, Fin 14]), (''ln excess'', [Fin 1, Fin 2, Fin 4])]\<rparr>)
   = [[Fin 1, Fin 1, Fin 1], [Fin 1, Fin 2, Fin 4]]"
  by (simp add: X_clean_def add_constant_def is_const_column_def line_rows_def numeral_3_eq_3)

lemma line_fit_column:
  "fit_column example_library (index line_returns) line_regressor
     (''Fund'', [Fin 5, Fin 8, Fin 1, NaN, Fin 14])
   = Inr (line_fit, [Fin 0, Fin 0, NaN, NaN, Fin 0], [Fin 5, Fin 8, NaN, NaN, Fin 14])"
proof -
  have o: "OLS_fit example_library = example_ols" by (simp add: example_library_def)
  show ?thesis
    unfolding fit_column_def line_data
    by (simp add: line_design o line_ols y_clean_def library_call_def)
      (simp add: line_fit_def line_rows_def line_idx reindex_def label_value_def)
qed

lemma line_capm_run:
  "regression_capm example_library line_returns line_regressor = Inr line_capm_result"
proof -
  have c: "columns line_returns = [(''Fund'', [Fin 5, Fin 8, Fin 1, NaN, Fin 14])]"
    by (simp add: line_returns_def)
  have x: "map_of (columns line_regressor) ''ln excess'' = Some [Fin 1, Fin 2, NaN, Fin 3, Fin 4]"
    by (simp add: line_regressor_def)
  have r: "\<lparr>index = index line_regressor,
            columns = [(''ln excess'', [Fin 1, Fin 2, NaN, Fin 3, Fin 4])]\<rparr> = line_regressor"
    by (simp add: line_regressor_def)
  have k: "capm_column example_library (index line_returns) line_regressor
             (''Fund'', [Fin 5, Fin 8, Fin 1, NaN, Fin 14])
           = Inr (hd (fst line_capm_result), [Fin 0, Fin 0, NaN, NaN, Fin 0],
                  [Fin 5, Fin 8, NaN, NaN, Fin 14])"
    by (simp add: capm_column_def line_fit_column)
      (simp add: capm_result_dict_def at_position_def line_fit_def line_capm_result_def)
  show ?thesis
    by (simp add: regression_capm_def x r c k)
      (simp add: line_capm_result_def line_returns_def)
qed

lemma line_fama_run:
  "regression_fama example_library line_returns line_regressor = Inr line_fama_result"
proof -
  have c: "columns line_returns = [(''Fund'', [Fin 5, Fin 8, Fin 1, NaN, Fin 14])]"
    by (simp add: line_returns_def)
  have n: "map fst (columns line_regressor) = [''ln excess'']"
    by (simp add: line_regressor_def)
  have k: "fama_column example_library (index line_returns) line_regressor
             (''Fund'', [Fin 5, Fin 8, Fin 1, NaN, Fin 14])
           = Inr (hd (fst line_fama_result), [Fin 0, Fin 0, NaN, NaN, Fin 0],
                  [Fin 5, Fin 8, NaN, NaN, Fin 14])"
    by (simp add: fama_column_def line_fit_column n)
      (simp add: fama_result_dict_def fama_beta_entry_def at_position_def line_fit_def
        line_fama_result_def)
  show ?thesis
    by (simp add: regression_fama_def c k)
      (simp add: line_fama_result_def line_returns_def)
qed

text \<open>The table with an infinite return, and the table with a repeated timestamp.\<close>

lemma infinite_data:
  "regression_data (column_frame (index infinite_returns) (''Fund'', [NaN, PInf, Fin (1 / 100)]))
     (capm_regressor short_regressor)
   = Inr \<lparr>index = [''2024-02-29''], columns = [(''Fund'', [PInf]), (''ln excess'', [Fin 0])]\<rparr>"
  by (simp add: regression_data_def concat_axis1_def column_frame_def capm_regressor_def
      infinite_returns_def short_regressor_def dropna_def take_rows_def row_has_nan_def upt3)

lemma infinite_capm_column:
  "capm_column example_library (index infinite_returns) (capm_regressor short_regressor)
     (''Fund'', [NaN, PInf, Fin (1 / 100)])
   = Inr (hd (fst infinite_capm_result), [NaN, NaN, NaN], [NaN, NaN, NaN])"
proof -
  have i: "index infinite_returns = [''2024-01-31'', ''2024-02-29'', ''2024-03-31'']"
    by (simp add: infinite_returns_def)
  show ?thesis
    unfolding capm_column_def fit_column_def infinite_data
    by (simp add: y_clean_def X_clean_def
      add_constant_def is_const_column_def example_library_def example_ols_def
      ols_single_observation_def ols_infinite_observation_def
      single_entry_def entry_def library_call_def reindex_def label_value_def
      capm_result_dict_def at_position_def infinite_capm_result_def i)
qed

lemma infinite_capm_run:
  "regression_capm example_library infinite_returns short_regressor = Inr infinite_capm_result"
proof -
  have c: "columns infinite_returns = [(''Fund'', [NaN, PInf, Fin (1 / 100)])]"
    by (simp add: infinite_returns_def)
  have x: "map_of (columns short_regressor) ''ln excess'' = Some [Fin (1 / 2), Fin 0, NaN]"
    by (simp add: short_regressor_def)
  have r: "\<lparr>index = index short_regressor, columns = [(''ln excess'', [Fin (1 / 2), Fin 0, NaN])]\<rparr>
           = capm_regressor short_regressor"
    by (simp add: capm_regressor_def x)
  show ?thesis
    by (simp add: regression_capm_def x r c infinite_capm_column)
      (simp add: infinite_capm_result_def infinite_returns_def)
qed

lemma duplicate_data:
  "regression_data (column_frame (index duplicate_returns) (''Fund'', [NaN, Fin (1 / 50)]))
     (capm_regressor duplicate_regressor)
   = Inr \<lparr>index = [''2024-01-31''], columns = [(''Fund'', [Fin (1 / 50)]), (''ln excess'', [Fin 0])]\<rparr>"
  by (simp add: regression_data_def concat_axis1_def column_frame_def capm_regressor_def
      duplicate_returns_def duplicate_regressor_def dropna_def take_rows_def row_has_nan_def
      upt_rec numeral_2_eq_2)

lemma duplicate_capm_column:
  "capm_column example_library (index duplicate_returns) (capm_regressor duplicate_regressor)
     (''Fund'', [NaN, Fin (1 / 50)])
   = Inr (hd (fst duplicate_capm_result), [Fin 0, Fin 0], [Fin (1 / 50), Fin (1 / 50)])"
proof -
  have i: "index duplicate_returns = [''2024-01-31'', ''2024-01-31'']"
    by (simp add: duplicate_returns_def)
  show ?thesis
    unfolding capm_column_def fit_column_def duplicate_data
    by (simp add: y_clean_def X_clean_def
      add_constant_def is_const_column_def example_library_def example_ols_def
      ols_single_observation_def
      single_entry_def entry_def library_call_def reindex_def label_value_def
      capm_result_dict_def at_position_def duplicate_capm_result_def i)
qed

lemma duplicate_capm_run:
  "regression_capm example_library duplicate_returns duplicate_regressor = Inr duplicate_capm_result"
proof -
  have c: "columns duplicate_returns = [(''Fund'', [NaN, Fin (1 / 50)])]"
    by (simp add: duplicate_returns_def)
  have x: "map_of (columns duplicate_regressor) ''ln excess'' = Some [Fin (1 / 2), Fin 0]"
    by (simp add: duplicate_regressor_def)
  have r: "\<lparr>index = index duplicate_regressor, columns = [(''ln excess'', [Fin (1 / 2), Fin 0])]\<rparr>
           = capm_regressor duplicate_regressor"
    by (simp add: capm_regressor_def x)
  show ?thesis
    by (simp add: regression_capm_def x r c duplicate_capm_column)
      (simp add: duplicate_capm_result_def duplicate_returns_def)
qed

lemma line_wf: "wf_frame line_returns"
  by (simp add: wf_frame_def line_returns_def)

lemma line_estimation_data:
  "estimation_data (index line_returns) line_regressor (columns line_returns ! 0)
   = \<lparr>index = line_rows,
      columns = [(''Fund'', [Fin 5, Fin 8, Fin 14]), (''ln excess'', [Fin 1, Fin 2, Fin 4])]\<rparr>"
proof -
  have c: "columns line_returns ! 0 = (''Fund'', [Fin 5, Fin 8, Fin 1, NaN, Fin 14])"
    by (simp add: line_returns_def)
  show ?thesis by (simp add: estimation_data_def c line_data)
qed

lemma line_series:
  assumes "series_re_expanded example_library (index line_returns) line_regressor
             (columns line_returns ! 0) residuals fitted"
  shows "reproduces_rows (index line_returns) (zip line_rows [Fin 0, Fin 0, Fin 0]) residuals \<and>
         reproduces_rows (index line_returns) (zip line_rows [Fin 5, Fin 8, Fin 14]) fitted \<and>
         re_expanded (index line_returns) (zip line_rows [Fin 0, Fin 0, Fin 0]) residuals \<and>
         re_expanded (index line_returns) (zip line_rows [Fin 5, Fin 8, Fin 14]) fitted"
proof -
  have o: "OLS_fit example_library = example_ols" by (simp add: example_library_def)
  have y: "y_clean \<lparr>index = line_rows,
      columns = [(''Fund'', [Fin 5, Fin 8, Fin 14]), (''ln excess'', [Fin 1, Fin 2, Fin 4])]\<rparr>
      = [Fin 5, Fin 8, Fin 14]"
    by (simp add: y_clean_def)
  have r: "resid line_fit = [Fin 0, Fin 0, Fin 0]"
    "fittedvalues line_fit = [Fin 5, Fin 8, Fin 14]" "length line_rows = 3"
    by (simp_all add: line_fit_def line_rows_def)
  from assms show ?thesis
    unfolding series_re_expanded_def Let_def line_estimation_data line_design o y line_ols
    by (simp add: r)
qed

text \<open>
  Claim C2 on a table of five timestamps, three of which have both the return and the
  regressor and lie on the line 2 + 3 x: the residuals 0, 0, 0 and the fitted values 5, 8,
  14 are back at those three timestamps, and dropping the missing rows leaves them.
\<close>

theorem residuals_re_expanded_witness:
  "wf_frame line_returns \<and> distinct (index line_returns) \<and>
   regression_capm example_library line_returns line_regressor = Inr line_capm_result \<and>
   regression_fama example_library line_returns line_regressor = Inr line_fama_result \<and>
   index (estimation_data (index line_returns) (capm_regressor line_regressor)
            (columns line_returns ! 0)) = line_rows \<and>
   reproduces_rows (index line_returns) (zip line_rows [Fin 0, Fin 0, Fin 0])
     (snd (columns (fst (snd line_capm_result)) ! 0)) \<and>
   reproduces_rows (index line_returns) (zip line_rows [Fin 5, Fin 8, Fin 14])
     (snd (columns (snd (snd line_capm_result)) ! 0)) \<and>
   reproduces_rows (index line_returns) (zip line_rows [Fin 0, Fin 0, Fin 0])
     (snd (columns (fst (snd line_fama_result)) ! 0)) \<and>
   reproduces_rows (index line_returns) (zip line_rows [Fin 5, Fin 8, Fin 14])
     (snd (columns (snd (snd line_fama_result)) ! 0)) \<and>
   non_missing_rows (index line_returns) (snd (columns (fst (snd line_capm_result)) ! 0))
     = [(''2024-01-31'', Fin 0), (''2024-02-29'', Fin 0), (''2024-05-31'', Fin 0)] \<and>
   non_missing_rows (index line_returns) (snd (columns (snd (snd line_capm_result)) ! 0))
     = [(''2024-01-31'', Fin 5), (''2024-02-29'', Fin 8), (''2024-05-31'', Fin 14)]"
proof -
  have d: "distinct (index line_returns)" by (simp add: line_returns_def)
  have c: "regression_capm example_library line_returns line_regressor
             = Inr (fst line_capm_result, fst (snd line_capm_result), snd (snd line_capm_result))"
    by (simp add: line_capm_run)
  have f: "regression_fama example_library line_returns line_regressor
             = Inr (fst line_fama_result, fst (snd line_fama_result), snd (snd line_fama_result))"
    by (simp add: line_fama_run)
  have j: "0 < length (columns line_returns)" by (simp add: line_returns_def)
  note t = residuals_re_expanded [OF line_wf d,
      of example_library line_regressor "fst line_capm_result" "fst (snd line_capm_result)"
        "snd (snd line_capm_result)" line_regressor
        "fst line_fama_result" "fst (snd line_fama_result)" "snd (snd line_fama_result)"]
  from t [THEN conjunct1, rule_format, OF c] j
  have "series_re_expanded example_library (index line_returns) line_regressor
          (columns line_returns ! 0) (snd (columns (fst (snd line_capm_result)) ! 0))
          (snd (columns (snd (snd line_capm_result)) ! 0))"
    unfolding line_capm_regressor by blast
  note a = line_series [OF this]
  from t [THEN conjunct2, rule_format, OF f] j
  have "series_re_expanded example_library (index line_returns) line_regressor
          (columns line_returns ! 0) (snd (columns (fst (snd line_fama_result)) ! 0))
          (snd (columns (snd (snd line_fama_result)) ! 0))"
    by blast
  note b = line_series [OF this]
  have e: "index (estimation_data (index line_returns) (capm_regressor line_regressor)
            (columns line_returns ! 0)) = line_rows"
    by (simp add: line_capm_regressor line_estimation_data)
  have n: "non_missing_rows (index line_returns) (snd (columns (fst (snd line_capm_result)) ! 0))
     = [(''2024-01-31'', Fin 0), (''2024-02-29'', Fin 0), (''2024-05-31'', Fin 0)]"
    "non_missing_rows (index line_returns) (snd (columns (snd (snd line_capm_result)) ! 0))
     = [(''2024-01-31'', Fin 5), (''2024-02-29'', Fin 8), (''2024-05-31'', Fin 14)]"
    by (simp_all add: non_missing_rows_def line_capm_result_def line_returns_def)
  show ?thesis
    using line_wf d line_capm_run line_fama_run e a b n by blast
qed

text \<open>
  Claim C2 as stated fails. With an infinite return the series is estimated on one row,
  the residual and the fitted value of the fit are NaN, and dropping the missing rows of
  the re-expanded columns leaves no row. With a timestamp that occurs twice, the row that
  was dropped for its missing return gets the residual and the fitted value of the other
  row with that timestamp: two rows are left where one was used.
\<close>

theorem residuals_not_only_estimation_rows:
  "regression_capm example_library infinite_returns short_regressor = Inr infinite_capm_result \<and>
   index (estimation_data (index infinite_returns) (capm_regressor short_regressor)
            (columns infinite_returns ! 0)) = [''2024-02-29''] \<and>
   non_missing_rows (index infinite_returns) (snd (columns (fst (snd infinite_capm_result)) ! 0)) = [] \<and>
   non_missing_rows (index infinite_returns) (snd (columns (snd (snd infinite_capm_result)) ! 0)) = [] \<and>
   regression_capm example_library duplicate_returns duplicate_regressor
     = Inr duplicate_capm_result \<and>
   index (estimation_data (index duplicate_returns) (capm_regressor duplicate_regressor)
            (columns duplicate_returns ! 0)) = [''2024-01-31''] \<and>
   snd (columns duplicate_returns ! 0) ! 0 = NaN \<and>
   non_missing_rows (index duplicate_returns) (snd (columns (fst (snd duplicate_capm_result)) ! 0))
     = [(''2024-01-31'', Fin 0), (''2024-01-31'', Fin 0)] \<and>
   non_missing_rows (index duplicate_returns) (snd (columns (snd (snd duplicate_capm_result)) ! 0))
     = [(''2024-01-31'', Fin (1 / 50)), (''2024-01-31'', Fin (1 / 50))]"
proof -
  have a: "index (estimation_data (index infinite_returns) (capm_regressor short_regressor)
            (columns infinite_returns ! 0)) = [''2024-02-29'']"
  proof -
    have c: "columns infinite_returns ! 0 = (''Fund'', [NaN, PInf, Fin (1 / 100)])"
      by (simp add: infinite_returns_def)
    show ?thesis by (simp add: estimation_data_def c infinite_data)
  qed
  have b: "index (estimation_data (index duplicate_returns) (capm_regressor duplicate_regressor)
            (columns duplicate_returns ! 0)) = [''2024-01-31'']"
  proof -
    have c: "columns duplicate_returns ! 0 = (''Fund'', [NaN, Fin (1 / 50)])"
      by (simp add: duplicate_returns_def)
    show ?thesis by (simp add: estimation_data_def c duplicate_data)
  qed
  have n: "non_missing_rows (index infinite_returns) (snd (columns (fst (snd infinite_capm_result)) ! 0)) = []"
    "non_missing_rows (index infinite_returns) (snd (columns (snd (snd infinite_capm_result)) ! 0)) = []"
    by (simp_all add: non_missing_rows_def infinite_capm_result_def infinite_returns_def)
  have m: "snd (columns duplicate_returns ! 0) ! 0 = NaN"
    "non_missing_rows (index duplicate_returns) (snd (columns (fst (snd duplicate_capm_result)) ! 0))
     = [(''2024-01-31'', Fin 0), (''2024-01-31'', Fin 0)]"
    "non_missing_rows (index duplicate_returns) (snd (columns (snd (snd duplicate_capm_result)) ! 0))
     = [(''2024-01-31'', Fin (1 / 50)), (''2024-01-31'', Fin (1 / 50))]"
    by (simp_all add: non_missing_rows_def duplicate_capm_result_def duplicate_returns_def)
  show ?thesis
    using infinite_capm_run duplicate_capm_run a b n m by blast
qed










section \<open>Properties of the diagnostic test suite\<close>

lemma collect_append:
  "collect f (xs @ ys) =
     (case collect f xs of
        Inl e \<Rightarrow> Inl e
      | Inr a \<Rightarrow> (case collect f ys of Inl e \<Rightarrow> Inl e | Inr b \<Rightarrow> Inr (a @ b)))"
  by (induction xs) (auto split: sum.splits)

lemma sorted_index_sort_index: "sorted (index (sort_index df))"
proof -
  have "index (sort_index df) =
          map (\<lambda>i. index df ! i) (sort_key (\<lambda>i. index df ! i) [0..<length (index df)])"
    by (simp add: sort_index_def index_take_rows)
  then show ?thesis by (simp only: sorted_sort_key)
qed

lemma loc_Inr_subset: "loc df labels = Inr r \<Longrightarrow> set labels \<subseteq> set (index df)"
  by (auto simp: loc_def list_ex_iff split: if_splits)

lemma loc_error: "loc df labels = Inl e \<Longrightarrow> e = KeyError"
  by (auto simp: loc_def split: if_splits)

lemma column_named_error: "column_named df c = Inl e \<Longrightarrow> e = KeyError"
  by (auto simp: column_named_def split: option.splits)

lemma tests_for_column_skip:
  "\<not> is_datetime64_any_dtype lib (index (dropna (column_frame labels column))) \<Longrightarrow>
   \<not> to_datetime lib (index (dropna (column_frame labels column))) \<Longrightarrow>
   tests_for_column lib labels fitted_values_df regressor excess_returns_df column = Inr None"
  by (simp add: tests_for_column_def Let_def)

lemma tests_for_column_run:
  "is_datetime64_any_dtype lib (index (dropna (column_frame labels column))) \<or>
   to_datetime lib (index (dropna (column_frame labels column))) \<Longrightarrow>
   tests_for_column lib labels fitted_values_df regressor excess_returns_df column =
   diagnose lib fitted_values_df regressor excess_returns_df (fst column)
     (sort_index (dropna (column_frame labels column)))"
  by (auto simp: tests_for_column_def Let_def)

lemma diagnose_not_None:
  "diagnose lib F R E name residuals \<noteq> Inr None"
  by (simp add: diagnose_def Let_def split: sum.splits)

lemma diagnose_Some:
  assumes "diagnose lib F R E name residuals = Inr (Some (bp, wh, sw, jb))"
  shows "\<exists>rf. loc R (index residuals) = Inr rf \<and>
           het_breuschpagan lib (series_values residuals)
             (map snd (add_constant (length (index (sort_index rf))) (columns (sort_index rf))))
             = Some (bp_LM_stat bp, bp_p_value bp, bp_f_value bp, bp_f_p_value bp) \<and>
           het_white lib (series_values residuals)
             (map snd (add_constant (length (index (sort_index rf))) (columns (sort_index rf))))
             = Some (white_LM_stat wh, white_p_value wh, white_f_stat wh, white_f_p_value wh) \<and>
           shapiro lib (series_values residuals) = Some (shapiro_Statistic sw, shapiro_p_value sw) \<and>
           jarque_bera_entry lib name (series_values residuals) = Inr jb \<and>
           bp_Fund bp = name \<and> white_Fund wh = name \<and> shapiro_Fund sw = name"
  using assms
  by (auto simp: diagnose_def Let_def library_call_def split: sum.splits option.splits)

lemma diagnose_error_regressor:
  assumes "\<not> set (index residuals) \<subseteq> set (index R)"
  shows "diagnose lib F R E name residuals = Inl KeyError"
proof -
  have l: "loc R (index residuals) = Inl KeyError"
    using assms by (auto simp: loc_def list_ex_iff)
  show ?thesis
    by (auto simp: diagnose_def Let_def l split: sum.splits dest: column_named_error loc_error)
qed

lemma jarque_bera_entry_Inr:
  "jarque_bera_entry lib name sample = Inr jb \<Longrightarrow>
   jarque_bera lib sample = Some (jb_Statistic jb, jb_p_value jb) \<and>
   jb_Skewness jb = skew lib sample \<and> jb_Kurtosis jb = kurtosis lib sample False \<and>
   jb_Fund jb = name"
  by (auto simp: jarque_bera_entry_def library_call_def Let_def split: option.splits)

lemma upt4: "[0..<4] = [0, 1, 2, 3]" by (simp add: upt_rec)

lemma upt2: "[0..<2] = [0, 1]" by (simp add: upt_rec)

lemma diag_idx: "index diag_residuals = [''2024-02-29'', ''2024-01-31'', ''2024-03-31'', ''2024-04-30'', ''total'']"
  by (simp add: diag_residuals_def)

lemma fund_a_dropna:
  "dropna (column_frame [''2024-02-29'', ''2024-01-31'', ''2024-03-31'', ''2024-04-30'', ''total'']
     (''Fund A'', [Fin 1, Fin (- 1), Fin (- 1), Fin 1, NaN]))
   = \<lparr>index = [''2024-02-29'', ''2024-01-31'', ''2024-03-31'', ''2024-04-30''],
      columns = [(''Fund A'', [Fin 1, Fin (- 1), Fin (- 1), Fin 1])]\<rparr>"
  by (simp add: dropna_def column_frame_def take_rows_def row_has_nan_def upt5)

lemma fund_a_sample:
  "sort_index \<lparr>index = [''2024-02-29'', ''2024-01-31'', ''2024-03-31'', ''2024-04-30''],
      columns = [(''Fund A'', [Fin 1, Fin (- 1), Fin (- 1), Fin 1])]\<rparr>
   = \<lparr>index = [''2024-01-31'', ''2024-02-29'', ''2024-03-31'', ''2024-04-30''],
      columns = [(''Fund A'', [Fin (- 1), Fin 1, Fin (- 1), Fin 1])]\<rparr>"
  by (simp add: sort_index_def take_rows_def upt4)

lemma fund_b_dropna:
  "dropna (column_frame [''2024-02-29'', ''2024-01-31'', ''2024-03-31'', ''2024-04-30'', ''total'']
     (''Fund B'', [Fin 1, Fin 2, Fin 3, Fin 4, Fin 5]))
   = \<lparr>index = [''2024-02-29'', ''2024-01-31'', ''2024-03-31'', ''2024-04-30'', ''total''],
      columns = [(''Fund B'', [Fin 1, Fin 2, Fin 3, Fin 4, Fin 5])]\<rparr>"
  by (simp add: dropna_def column_frame_def take_rows_def row_has_nan_def upt5)

lemma iso_dates:
  "iso_date ''2024-01-31''" "iso_date ''2024-02-29''" "iso_date ''2024-03-31''"
  "iso_date ''2024-04-30''" "\<not> iso_date ''total''"
  by (simp_all add: iso_date_def)

lemma fund_a_moments:
  "moment_skew [Fin (- 1), Fin 1, Fin (- 1), Fin 1] = Fin 0"
  "moment_kurtosis [Fin (- 1), Fin 1, Fin (- 1), Fin 1] False = Fin 1"
  "moment_jarque_bera [Fin (- 1), Fin 1, Fin (- 1), Fin 1] = Some (Fin (2 / 3), Fin (exp (- (1 / 3))))"
  by (simp_all add: moment_jarque_bera_def moment_skew_def moment_kurtosis_def all_finite_def reals_of_def
      central_moment_def)

lemma fund_a_loc_regressor:
  "loc diag_regressor [''2024-01-31'', ''2024-02-29'', ''2024-03-31'', ''2024-04-30''] = Inr diag_regressor"
  by (simp add: loc_def diag_regressor_def take_rows_def upt4)

lemma diag_regressor_sorted: "sort_index diag_regressor = diag_regressor"
  by (simp add: sort_index_def diag_regressor_def take_rows_def upt4)

lemma fund_a_loc_fitted:
  "\<exists>r. loc (column_frame (index diag_fitted) (''Fund A'', [Fin 2, Fin 1, Fin 3, Fin 4, NaN]))
     [''2024-01-31'', ''2024-02-29'', ''2024-03-31'', ''2024-04-30''] = Inr r"
  by (simp add: loc_def diag_fitted_def column_frame_def)

lemma fund_a_diagnose:
  "diagnose example_library diag_fitted diag_regressor diag_fitted ''Fund A''
     \<lparr>index = [''2024-01-31'', ''2024-02-29'', ''2024-03-31'', ''2024-04-30''],
      columns = [(''Fund A'', [Fin (- 1), Fin 1, Fin (- 1), Fin 1])]\<rparr>
   = Inr (Some fund_a_rows)"
proof -
  have c: "column_named diag_fitted ''Fund A''
             = Inr (column_frame (index diag_fitted) (''Fund A'', [Fin 2, Fin 1, Fin 3, Fin 4, NaN]))"
    by (simp add: column_named_def diag_fitted_def)
  obtain r where r: "loc (column_frame (index diag_fitted) (''Fund A'', [Fin 2, Fin 1, Fin 3, Fin 4, NaN]))
     [''2024-01-31'', ''2024-02-29'', ''2024-03-31'', ''2024-04-30''] = Inr r"
    using fund_a_loc_fitted by blast
  have e: "add_constant (length (index diag_regressor)) (columns diag_regressor)
             = [(''const'', [Fin 1, Fin 1, Fin 1, Fin 1]), (''ln excess'', [Fin 1, Fin 2, Fin 3, Fin 4])]"
    by (simp add: add_constant_def diag_regressor_def is_const_column_def eval_nat_numeral)
  show ?thesis
    by (simp add: diagnose_def c r fund_a_loc_regressor diag_regressor_sorted e series_values_def
        example_library_def library_call_def jarque_bera_entry_def fund_a_moments fund_a_rows_def)
qed

lemma fund_a_run:
  "tests_for_column example_library (index diag_residuals) diag_fitted diag_regressor diag_fitted
     (''Fund A'', [Fin 1, Fin (- 1), Fin (- 1), Fin 1, NaN]) = Inr (Some fund_a_rows)"
proof -
  have s: "sort_index (dropna (column_frame (index diag_residuals)
             (''Fund A'', [Fin 1, Fin (- 1), Fin (- 1), Fin 1, NaN])))
           = \<lparr>index = [''2024-01-31'', ''2024-02-29'', ''2024-03-31'', ''2024-04-30''],
              columns = [(''Fund A'', [Fin (- 1), Fin 1, Fin (- 1), Fin 1])]\<rparr>"
    by (simp add: diag_idx fund_a_dropna fund_a_sample)
  have t: "to_datetime example_library (index (dropna (column_frame (index diag_residuals)
             (''Fund A'', [Fin 1, Fin (- 1), Fin (- 1), Fin 1, NaN]))))"
    by (simp add: diag_idx fund_a_dropna example_library_def iso_dates)
  show ?thesis
    by (simp add: tests_for_column_run [OF disjI2 [OF t]] s fund_a_diagnose)
qed

lemma fund_b_skip:
  "\<not> is_datetime64_any_dtype example_library (index (dropna (column_frame (index diag_residuals)
         (''Fund B'', [Fin 1, Fin 2, Fin 3, Fin 4, Fin 5]))))"
  "\<not> to_datetime example_library (index (dropna (column_frame (index diag_residuals)
         (''Fund B'', [Fin 1, Fin 2, Fin 3, Fin 4, Fin 5]))))"
  by (simp_all add: diag_idx fund_b_dropna example_library_def iso_dates)

lemma diag_run:
  "combined_tests example_library diag_residuals diag_fitted diag_regressor diag_fitted
     = Inr ([fst fund_a_rows], [fst (snd fund_a_rows)], [fst (snd (snd fund_a_rows))],
            [snd (snd (snd fund_a_rows))])"
proof -
  have c: "columns diag_residuals = [(''Fund A'', [Fin 1, Fin (- 1), Fin (- 1), Fin 1, NaN]),
                 (''Fund B'', [Fin 1, Fin 2, Fin 3, Fin 4, Fin 5])]"
    by (simp add: diag_residuals_def)
  show ?thesis
    by (simp add: combined_tests_def c fund_a_run tests_for_column_skip [OF fund_b_skip]
        series_rows_def)
qed

lemma tests_for_column_Some:
  assumes "tests_for_column lib labels F R E column = Inr (Some rows)"
  shows "(is_datetime64_any_dtype lib (index (dropna (column_frame labels column))) \<or>
          to_datetime lib (index (dropna (column_frame labels column)))) \<and>
         diagnose lib F R E (fst column) (sort_index (dropna (column_frame labels column)))
           = Inr (Some rows)"
  using assms by (auto simp: tests_for_column_def Let_def split: if_splits)

lemma series_rows_length: "length (concat (map series_rows outs)) \<le> length outs"
  by (induction outs) (auto simp: series_rows_def split: option.splits)

lemma series_rows_member:
  "r \<in> set (concat (map series_rows outs)) \<longleftrightarrow> Some r \<in> set outs"
  by (induction outs) (auto simp: series_rows_def split: option.splits)

lemma collect_member:
  assumes "collect f xs = Inr ys" "y \<in> set ys"
  shows "\<exists>x\<in>set xs. f x = Inr y"
proof -
  from assms(2) obtain j where j: "j < length ys" "ys ! j = y"
    by (auto simp: in_set_conv_nth)
  with collect_Inr [OF assms(1)] have "j < length xs" "f (xs ! j) = Inr y" by auto
  then show ?thesis by (metis nth_mem)
qed

lemma combined_tests_rows:
  assumes "combined_tests lib residuals_df F R E = Inr (bp, wh, sw, jb)"
  shows "\<exists>rows. bp = map fst rows \<and> wh = map (fst \<circ> snd) rows \<and>
           sw = map (fst \<circ> snd \<circ> snd) rows \<and> jb = map (snd \<circ> snd \<circ> snd) rows \<and>
           length rows \<le> length (columns residuals_df) \<and>
           (\<forall>r\<in>set rows. \<exists>c\<in>set (columns residuals_df).
              tests_for_column lib (index residuals_df) F R E c = Inr (Some r))"
proof -
  from assms obtain outs where
    c: "collect (tests_for_column lib (index residuals_df) F R E) (columns residuals_df) = Inr outs"
    and r: "bp = map fst (concat (map series_rows outs))"
      "wh = map (fst \<circ> snd) (concat (map series_rows outs))"
      "sw = map (fst \<circ> snd \<circ> snd) (concat (map series_rows outs))"
      "jb = map (snd \<circ> snd \<circ> snd) (concat (map series_rows outs))"
    by (auto simp: combined_tests_def Let_def split: sum.splits)
  have l: "length (concat (map series_rows outs)) \<le> length (columns residuals_df)"
    using series_rows_length [of outs] collect_Inr [OF c] by simp
  have m: "\<forall>r\<in>set (concat (map series_rows outs)). \<exists>c\<in>set (columns residuals_df).
              tests_for_column lib (index residuals_df) F R E c = Inr (Some r)"
  proof
    fix r assume "r \<in> set (concat (map series_rows outs))"
    then have "Some r \<in> set outs" by (simp only: series_rows_member)
    then show "\<exists>c\<in>set (columns residuals_df).
              tests_for_column lib (index residuals_df) F R E c = Inr (Some r)"
      by (rule collect_member [OF c])
  qed
  show ?thesis using r l m by blast
qed

lemma row_funds:
  assumes "tests_for_column lib labels F R E c = Inr (Some (bp, wh, sw, jb))"
  shows "bp_Fund bp = fst c \<and> white_Fund wh = fst c \<and> shapiro_Fund sw = fst c \<and> jb_Fund jb = fst c"
proof -
  from tests_for_column_Some [OF assms]
  have d: "diagnose lib F R E (fst c) (sort_index (dropna (column_frame labels c)))
             = Inr (Some (bp, wh, sw, jb))" by simp
  from diagnose_Some [OF d] jarque_bera_entry_Inr show ?thesis by blast
qed

text \<open>
  Claim C10. A series whose residual index is not of a datetime dtype and is refused by
  \<open>to_datetime\<close> is skipped: its loop body ends with the \<open>continue\<close>, without an
  exception, and \<open>combined_tests\<close> returns what it returns without that column, so the
  other series are processed as before. Each of the four tables then has fewer rows than
  there are series, and none of them has a row for the skipped series (the name of which
  no other series bears).
\<close>

theorem unconvertible_series_is_skipped:
  assumes nd: "\<not> is_datetime64_any_dtype lib (index (dropna (column_frame labels c)))"
    and nc: "\<not> to_datetime lib (index (dropna (column_frame labels c)))"
  shows "tests_for_column lib labels F R E c = Inr None \<and>
         combined_tests lib \<lparr>index = labels, columns = pre @ c # post\<rparr> F R E
           = combined_tests lib \<lparr>index = labels, columns = pre @ post\<rparr> F R E \<and>
         (\<forall>bp wh sw jb.
            combined_tests lib \<lparr>index = labels, columns = pre @ c # post\<rparr> F R E
              = Inr (bp, wh, sw, jb) \<longrightarrow>
            length bp < length (pre @ c # post) \<and> length wh = length bp \<and>
            length sw = length bp \<and> length jb = length bp \<and>
            (fst c \<notin> fst ` set (pre @ post) \<longrightarrow>
               fst c \<notin> set (map bp_Fund bp) \<and> fst c \<notin> set (map white_Fund wh) \<and>
               fst c \<notin> set (map shapiro_Fund sw) \<and> fst c \<notin> set (map jb_Fund jb)))"
proof (intro conjI allI impI)
  show skip: "tests_for_column lib labels F R E c = Inr None"
    by (rule tests_for_column_skip [OF nd nc])
  let ?f = "tests_for_column lib labels F R E"
  have "collect ?f (pre @ c # post) =
          (case collect ?f pre of Inl e \<Rightarrow> Inl e
           | Inr a \<Rightarrow> (case collect ?f post of Inl e \<Rightarrow> Inl e | Inr b \<Rightarrow> Inr (a @ None # b)))"
    by (simp add: collect_append skip split: sum.splits)
  moreover have "concat (map series_rows (a @ None # b)) = concat (map series_rows (a @ b))" for a b :: "(bp_row \<times> white_row \<times> shapiro_row \<times> jb_row) option list"
    by (simp add: series_rows_def)
  ultimately show eq: "combined_tests lib \<lparr>index = labels, columns = pre @ c # post\<rparr> F R E
           = combined_tests lib \<lparr>index = labels, columns = pre @ post\<rparr> F R E"
    by (simp add: combined_tests_def collect_append Let_def split: sum.splits)
  fix bp wh sw jb
  assume "combined_tests lib \<lparr>index = labels, columns = pre @ c # post\<rparr> F R E = Inr (bp, wh, sw, jb)"
  then have run: "combined_tests lib \<lparr>index = labels, columns = pre @ post\<rparr> F R E = Inr (bp, wh, sw, jb)"
    by (simp add: eq)
  from combined_tests_rows [OF run] obtain rows where
    r: "bp = map fst rows" "wh = map (fst \<circ> snd) rows" "sw = map (fst \<circ> snd \<circ> snd) rows"
      "jb = map (snd \<circ> snd \<circ> snd) rows"
    and l: "length rows \<le> length (pre @ post)"
    and m: "\<forall>r\<in>set rows. \<exists>c\<in>set (pre @ post). ?f c = Inr (Some r)"
    by auto
  show "length bp < length (pre @ c # post)" using r l by simp
  show "length wh = length bp" "length sw = length bp" "length jb = length bp"
    using r by simp_all
  assume fresh: "fst c \<notin> fst ` set (pre @ post)"
  have funds: "bp_Fund (fst x) \<noteq> fst c \<and> white_Fund (fst (snd x)) \<noteq> fst c \<and>
               shapiro_Fund (fst (snd (snd x))) \<noteq> fst c \<and> jb_Fund (snd (snd (snd x))) \<noteq> fst c"
    if x: "x \<in> set rows" for x
  proof -
    from m x obtain c' where c': "c' \<in> set (pre @ post)" and t: "?f c' = Inr (Some x)" by blast
    obtain b w s j where xs: "x = (b, w, s, j)" by (cases x)
    from row_funds [OF t [unfolded xs]] have
      "bp_Fund b = fst c'" "white_Fund w = fst c'" "shapiro_Fund s = fst c'" "jb_Fund j = fst c'"
      by simp_all
    moreover have "fst c' \<noteq> fst c" using fresh c' by (metis imageI)
    ultimately show ?thesis by (simp add: xs)
  qed
  have f1: "\<forall>x\<in>set rows. bp_Fund (fst x) \<noteq> fst c" using funds by blast
  have f2: "\<forall>x\<in>set rows. white_Fund (fst (snd x)) \<noteq> fst c" using funds by blast
  have f3: "\<forall>x\<in>set rows. shapiro_Fund (fst (snd (snd x))) \<noteq> fst c" using funds by blast
  have f4: "\<forall>x\<in>set rows. jb_Fund (snd (snd (snd x))) \<noteq> fst c" using funds by blast
  show "fst c \<notin> set (map bp_Fund bp)" using f1 by (force simp: r)
  show "fst c \<notin> set (map white_Fund wh)" using f2 by (force simp: r)
  show "fst c \<notin> set (map shapiro_Fund sw)" using f3 by (force simp: r)
  show "fst c \<notin> set (map jb_Fund jb)" using f4 by (force simp: r)
qed

text \<open>
  Claim C10 on two series, the second with the label \<open>total\<close> among its residuals: the
  tables hold the row of the first series only.
\<close>

theorem unconvertible_series_is_skipped_witness:
  "\<not> is_datetime64_any_dtype example_library
       (index (dropna (column_frame (index diag_residuals) (columns diag_residuals ! 1)))) \<and>
   \<not> to_datetime example_library
       (index (dropna (column_frame (index diag_residuals) (columns diag_residuals ! 1)))) \<and>
   combined_tests example_library diag_residuals diag_fitted diag_regressor diag_fitted
     = Inr ([fst fund_a_rows], [fst (snd fund_a_rows)], [fst (snd (snd fund_a_rows))],
            [snd (snd (snd fund_a_rows))]) \<and>
   length (columns diag_residuals) = 2 \<and>
   ''Fund B'' \<notin> set (map bp_Fund [fst fund_a_rows]) \<and>
   ''Fund B'' \<notin> set (map jb_Fund [snd (snd (snd fund_a_rows))])"
proof -
  have c: "columns diag_residuals ! 1 = (''Fund B'', [Fin 1, Fin 2, Fin 3, Fin 4, Fin 5])"
    by (simp add: diag_residuals_def)
  have d: "diag_residuals = \<lparr>index = index diag_residuals,
             columns = [(''Fund A'', [Fin 1, Fin (- 1), Fin (- 1), Fin 1, NaN])]
                       @ (''Fund B'', [Fin 1, Fin 2, Fin 3, Fin 4, Fin 5]) # []\<rparr>"
    by (simp add: diag_residuals_def)
  note t = unconvertible_series_is_skipped [OF fund_b_skip,
      of diag_fitted diag_regressor diag_fitted
        "[(''Fund A'', [Fin 1, Fin (- 1), Fin (- 1), Fin 1, NaN])]" "[]"]
  have run: "combined_tests example_library
               \<lparr>index = index diag_residuals,
                  columns = [(''Fund A'', [Fin 1, Fin (- 1), Fin (- 1), Fin 1, NaN])]
                        @ (''Fund B'', [Fin 1, Fin 2, Fin 3, Fin 4, Fin 5]) # []\<rparr>
               diag_fitted diag_regressor diag_fitted
             = Inr ([fst fund_a_rows], [fst (snd fund_a_rows)], [fst (snd (snd fund_a_rows))],
                    [snd (snd (snd fund_a_rows))])"
    using diag_run d by simp
  have fresh: "fst (''Fund B'', [Fin 1, Fin 2, Fin 3, Fin 4, Fin 5]) \<notin>
               fst ` set ([(''Fund A'', [Fin 1, Fin (- 1), Fin (- 1), Fin 1, NaN])] @ [])"
    by simp
  from t [THEN conjunct2, THEN conjunct2, rule_format, OF run] fresh
  have "''Fund B'' \<notin> set (map bp_Fund [fst fund_a_rows]) \<and>
        ''Fund B'' \<notin> set (map jb_Fund [snd (snd (snd fund_a_rows))])"
    by simp
  then show ?thesis
    using fund_b_skip diag_run by (simp add: c) (simp add: diag_residuals_def)
qed

lemma sample_no_nan:
  "NaN \<notin> set (series_values (sort_index (dropna (column_frame labels (name, col)))))"
proof -
  define ps where "ps = filter (\<lambda>i. col ! i \<noteq> NaN) [0..<length labels]"
  have d: "dropna (column_frame labels (name, col))
             = \<lparr>index = map (\<lambda>i. labels ! i) ps, columns = [(name, map (\<lambda>i. col ! i) ps)]\<rparr>"
    by (simp add: dropna_def column_frame_def take_rows_def row_has_nan_def ps_def)
  have v: "series_values (sort_index (dropna (column_frame labels (name, col))))
             = map (\<lambda>i. map (\<lambda>i. col ! i) ps ! i)
                 (sort_key (\<lambda>i. map (\<lambda>i. labels ! i) ps ! i) [0..<length ps])"
    by (simp add: d sort_index_def take_rows_def series_values_def)
  have "col ! (ps ! i) \<noteq> NaN" if "i < length ps" for i
  proof -
    have "ps ! i \<in> set ps" using that by simp
    then show ?thesis by (simp add: ps_def)
  qed
  then show ?thesis
    unfolding v by (auto simp: eq_commute [of NaN])
qed

text \<open>
  Claim C6, as the code has it. A series whose residual index is not of a datetime dtype
  and cannot be converted is skipped. Any other series has its residuals without NaN
  sorted by label before the Breusch-Pagan test; when one of those labels is not in the
  index of the regressor the loop body fails with KeyError; and when the series yields
  its rows, every label of the residuals is in the index of the regressor and the
  Breusch-Pagan row holds the test of the sorted residuals against the sorted regressor
  rows at those labels with the constant added.
\<close>

theorem breusch_pagan_alignment:
  fixes lib :: "('l::linorder) library"
  shows "(\<not> is_datetime64_any_dtype lib (index (dropna (column_frame labels column))) \<and>
          \<not> to_datetime lib (index (dropna (column_frame labels column))) \<longrightarrow>
          tests_for_column lib labels fitted_values_df regressor excess_returns_df column
            = Inr None) \<and>
         (is_datetime64_any_dtype lib (index (dropna (column_frame labels column))) \<or>
          to_datetime lib (index (dropna (column_frame labels column))) \<longrightarrow>
          (let residuals = sort_index (dropna (column_frame labels column))
           in sorted (index residuals) \<and>
              (\<not> set (index residuals) \<subseteq> set (index regressor) \<longrightarrow>
                 tests_for_column lib labels fitted_values_df regressor excess_returns_df column
                   = Inl KeyError) \<and>
              (\<forall>bp wh sw jb.
                 tests_for_column lib labels fitted_values_df regressor excess_returns_df column
                   = Inr (Some (bp, wh, sw, jb)) \<longrightarrow>
                 set (index residuals) \<subseteq> set (index regressor) \<and>
                 (\<exists>rf. loc regressor (index residuals) = Inr rf \<and>
                    het_breuschpagan lib (series_values residuals)
                      (map snd (add_constant (length (index (sort_index rf)))
                                  (columns (sort_index rf))))
                    = Some (bp_LM_stat bp, bp_p_value bp, bp_f_value bp, bp_f_p_value bp)))))"
proof (intro conjI impI)
  assume "\<not> is_datetime64_any_dtype lib (index (dropna (column_frame labels column))) \<and>
          \<not> to_datetime lib (index (dropna (column_frame labels column)))"
  then show "tests_for_column lib labels fitted_values_df regressor excess_returns_df column
               = Inr None"
    by (simp add: tests_for_column_skip)
next
  let ?res = "sort_index (dropna (column_frame labels column))"
  assume ok: "is_datetime64_any_dtype lib (index (dropna (column_frame labels column))) \<or>
          to_datetime lib (index (dropna (column_frame labels column)))"
  note run = tests_for_column_run [OF ok, of fitted_values_df regressor excess_returns_df]
  have a: "sorted (index ?res)" by (rule sorted_index_sort_index)
  have b: "tests_for_column lib labels fitted_values_df regressor excess_returns_df column
             = Inl KeyError" if "\<not> set (index ?res) \<subseteq> set (index regressor)"
    unfolding run by (rule diagnose_error_regressor [OF that])
  have c: "set (index ?res) \<subseteq> set (index regressor) \<and>
           (\<exists>rf. loc regressor (index ?res) = Inr rf \<and>
              het_breuschpagan lib (series_values ?res)
                (map snd (add_constant (length (index (sort_index rf))) (columns (sort_index rf))))
              = Some (bp_LM_stat bp, bp_p_value bp, bp_f_value bp, bp_f_p_value bp))"
    if "tests_for_column lib labels fitted_values_df regressor excess_returns_df column
          = Inr (Some (bp, wh, sw, jb))" for bp wh sw jb
  proof -
    from that have "diagnose lib fitted_values_df regressor excess_returns_df (fst column) ?res
                     = Inr (Some (bp, wh, sw, jb))"
      by (simp add: run)
    from diagnose_Some [OF this] obtain rf where
      l: "loc regressor (index ?res) = Inr rf" and
      h: "het_breuschpagan lib (series_values ?res)
            (map snd (add_constant (length (index (sort_index rf))) (columns (sort_index rf))))
          = Some (bp_LM_stat bp, bp_p_value bp, bp_f_value bp, bp_f_p_value bp)"
      by blast
    from loc_Inr_subset [OF l] l h show ?thesis by blast
  qed
  show "let residuals = ?res
        in sorted (index residuals) \<and>
              (\<not> set (index residuals) \<subseteq> set (index regressor) \<longrightarrow>
                 tests_for_column lib labels fitted_values_df regressor excess_returns_df column
                   = Inl KeyError) \<and>
              (\<forall>bp wh sw jb.
                 tests_for_column lib labels fitted_values_df regressor excess_returns_df column
                   = Inr (Some (bp, wh, sw, jb)) \<longrightarrow>
                 set (index residuals) \<subseteq> set (index regressor) \<and>
                 (\<exists>rf. loc regressor (index residuals) = Inr rf \<and>
                    het_breuschpagan lib (series_values residuals)
                      (map snd (add_constant (length (index (sort_index rf)))
                                  (columns (sort_index rf))))
                    = Some (bp_LM_stat bp, bp_p_value bp, bp_f_value bp, bp_f_p_value bp)))"
    unfolding Let_def using a b c by blast
qed

lemma fund_a_convertible:
  "to_datetime example_library (index (dropna (column_frame (index diag_residuals)
     (''Fund A'', [Fin 1, Fin (- 1), Fin (- 1), Fin 1, NaN]))))"
  by (simp add: diag_idx fund_a_dropna example_library_def iso_dates)

lemma fund_a_sorted_sample:
  "sort_index (dropna (column_frame (index diag_residuals)
             (''Fund A'', [Fin 1, Fin (- 1), Fin (- 1), Fin 1, NaN])))
           = \<lparr>index = [''2024-01-31'', ''2024-02-29'', ''2024-03-31'', ''2024-04-30''],
              columns = [(''Fund A'', [Fin (- 1), Fin 1, Fin (- 1), Fin 1])]\<rparr>"
  by (simp add: diag_idx fund_a_dropna fund_a_sample)

text \<open>
  Claim C6 on the example: the series with the label \<open>total\<close> is skipped, the other
  series fails with KeyError against a regressor that lacks one of its dates and yields
  its rows against a regressor that has them all.
\<close>

theorem breusch_pagan_alignment_witness:
  "\<not> is_datetime64_any_dtype example_library
       (index (dropna (column_frame (index diag_residuals)
          (''Fund B'', [Fin 1, Fin 2, Fin 3, Fin 4, Fin 5])))) \<and>
   \<not> to_datetime example_library
       (index (dropna (column_frame (index diag_residuals)
          (''Fund B'', [Fin 1, Fin 2, Fin 3, Fin 4, Fin 5])))) \<and>
   tests_for_column example_library (index diag_residuals) diag_fitted diag_regressor diag_fitted
     (''Fund B'', [Fin 1, Fin 2, Fin 3, Fin 4, Fin 5]) = Inr None \<and>
   to_datetime example_library (index (dropna (column_frame (index diag_residuals)
     (''Fund A'', [Fin 1, Fin (- 1), Fin (- 1), Fin 1, NaN])))) \<and>
   sorted [''2024-01-31'', ''2024-02-29'', ''2024-03-31'', ''2024-04-30''] \<and>
   \<not> set [''2024-01-31'', ''2024-02-29'', ''2024-03-31'', ''2024-04-30'']
       \<subseteq> set (index short_regressor) \<and>
   tests_for_column example_library (index diag_residuals) diag_fitted short_regressor diag_fitted
     (''Fund A'', [Fin 1, Fin (- 1), Fin (- 1), Fin 1, NaN]) = Inl KeyError \<and>
   tests_for_column example_library (index diag_residuals) diag_fitted diag_regressor diag_fitted
     (''Fund A'', [Fin 1, Fin (- 1), Fin (- 1), Fin 1, NaN]) = Inr (Some fund_a_rows) \<and>
   set [''2024-01-31'', ''2024-02-29'', ''2024-03-31'', ''2024-04-30'']
     \<subseteq> set (index diag_regressor)"
proof -
  note b = breusch_pagan_alignment [of example_library "index diag_residuals"
      "(''Fund B'', [Fin 1, Fin 2, Fin 3, Fin 4, Fin 5])" diag_fitted diag_regressor diag_fitted,
      THEN conjunct1, rule_format, OF conjI [OF fund_b_skip]]
  note a1 = breusch_pagan_alignment [of example_library "index diag_residuals"
      "(''Fund A'', [Fin 1, Fin (- 1), Fin (- 1), Fin 1, NaN])" diag_fitted short_regressor
      diag_fitted, THEN conjunct2, rule_format, OF disjI2 [OF fund_a_convertible],
      unfolded Let_def fund_a_sorted_sample frame.simps]
  note a2 = breusch_pagan_alignment [of example_library "index diag_residuals"
      "(''Fund A'', [Fin 1, Fin (- 1), Fin (- 1), Fin 1, NaN])" diag_fitted diag_regressor
      diag_fitted, THEN conjunct2, rule_format, OF disjI2 [OF fund_a_convertible],
      unfolded Let_def fund_a_sorted_sample frame.simps]
  have m: "\<not> set [''2024-01-31'', ''2024-02-29'', ''2024-03-31'', ''2024-04-30'']
              \<subseteq> set (index short_regressor)"
    by (simp add: short_regressor_def)
  obtain bp wh sw jb where r: "fund_a_rows = (bp, wh, sw, jb)" by (cases fund_a_rows)
  have s: "sorted [''2024-01-31'', ''2024-02-29'', ''2024-03-31'', ''2024-04-30'']"
    using a1 by blast
  have k: "tests_for_column example_library (index diag_residuals) diag_fitted short_regressor
             diag_fitted (''Fund A'', [Fin 1, Fin (- 1), Fin (- 1), Fin 1, NaN]) = Inl KeyError"
    using a1 m by blast
  have i: "set [''2024-01-31'', ''2024-02-29'', ''2024-03-31'', ''2024-04-30'']
             \<subseteq> set (index diag_regressor)"
    using a2 fund_a_run [unfolded r] by blast
  show ?thesis
    using fund_b_skip b fund_a_convertible s m k fund_a_run i by blast
qed

text \<open>
  Claim C6 as stated fails: the series whose index holds a label that is no timestamp and
  that the regressor does not have is skipped and \<open>combined_tests\<close> returns its tables;
  and a residual date that the regressor lacks ends \<open>combined_tests\<close> with the KeyError
  of the lookup.
\<close>

theorem unreconciled_series_is_not_an_alignment_error:
  "tests_for_column example_library (index diag_residuals) diag_fitted diag_regressor diag_fitted
     (columns diag_residuals ! 1) = Inr None \<and>
   combined_tests example_library diag_residuals diag_fitted diag_regressor diag_fitted
     = Inr ([fst fund_a_rows], [fst (snd fund_a_rows)], [fst (snd (snd fund_a_rows))],
            [snd (snd (snd fund_a_rows))]) \<and>
   combined_tests example_library diag_residuals diag_fitted short_regressor diag_fitted
     = Inl KeyError"
proof -
  have c: "columns diag_residuals = [(''Fund A'', [Fin 1, Fin (- 1), Fin (- 1), Fin 1, NaN]),
                 (''Fund B'', [Fin 1, Fin 2, Fin 3, Fin 4, Fin 5])]"
    by (simp add: diag_residuals_def)
  have m: "\<not> set (index (sort_index (dropna (column_frame (index diag_residuals)
                (''Fund A'', [Fin 1, Fin (- 1), Fin (- 1), Fin 1, NaN])))))
              \<subseteq> set (index short_regressor)"
    by (simp add: fund_a_sorted_sample short_regressor_def)
  have k: "tests_for_column example_library (index diag_residuals) diag_fitted short_regressor
             diag_fitted (''Fund A'', [Fin 1, Fin (- 1), Fin (- 1), Fin 1, NaN]) = Inl KeyError"
    by (simp add: tests_for_column_run [OF disjI2 [OF fund_a_convertible]]
        diagnose_error_regressor [OF m])
  have a: "tests_for_column example_library (index diag_residuals) diag_fitted diag_regressor
             diag_fitted (columns diag_residuals ! 1) = Inr None"
    by (simp add: c tests_for_column_skip [OF fund_b_skip])
  have e: "combined_tests example_library diag_residuals diag_fitted short_regressor diag_fitted
             = Inl KeyError"
    by (simp add: combined_tests_def c k)
  show ?thesis using a diag_run e by blast
qed

lemma processed_rows:
  assumes "collect (tests_for_column lib labels F R E) cols = Inr outs"
  shows "length (concat (map series_rows outs)) = length (filter (is_processed lib labels) cols) \<and>
         (\<forall>k<length (filter (is_processed lib labels) cols).
            tests_for_column lib labels F R E (filter (is_processed lib labels) cols ! k)
              = Inr (Some (concat (map series_rows outs) ! k)))"
  using assms
proof (induction cols arbitrary: outs)
  case Nil
  then show ?case by simp
next
  case (Cons c cs)
  let ?f = "tests_for_column lib labels F R E"
  from Cons.prems obtain out outs' where o: "?f c = Inr out"
    and r: "collect ?f cs = Inr outs'" and e: "outs = out # outs'"
    by (auto split: sum.splits)
  note ih = Cons.IH [OF r]
  show ?case
  proof (cases "is_processed lib labels c")
    case True
    then have "?f c = diagnose lib F R E (fst c) (sort_index (dropna (column_frame labels c)))"
      by (simp add: is_processed_def tests_for_column_run)
    then have d: "diagnose lib F R E (fst c) (sort_index (dropna (column_frame labels c))) = Inr out"
      using o by simp
    have "out \<noteq> None"
    proof
      assume "out = None"
      with d have "diagnose lib F R E (fst c) (sort_index (dropna (column_frame labels c))) = Inr None"
        by simp
      with diagnose_not_None show False by blast
    qed
    then obtain row where row: "out = Some row" by (cases out) auto
    have c1: "concat (map series_rows outs) = row # concat (map series_rows outs')"
      by (simp add: e row series_rows_def)
    have c2: "filter (is_processed lib labels) (c # cs) = c # filter (is_processed lib labels) cs"
      using True by simp
    show ?thesis
      unfolding c1 c2
    proof (intro conjI allI impI)
      show "length (row # concat (map series_rows outs'))
              = length (c # filter (is_processed lib labels) cs)"
        using ih by simp
      fix k assume "k < length (c # filter (is_processed lib labels) cs)"
      then show "?f ((c # filter (is_processed lib labels) cs) ! k)
                   = Inr (Some ((row # concat (map series_rows outs')) ! k))"
        using ih o row by (cases k) simp_all
    qed
  next
    case False
    then have "?f c = Inr None"
      by (simp add: is_processed_def tests_for_column_skip)
    then have "out = None" using o by simp
    then show ?thesis using ih False by (simp add: e series_rows_def)
  qed
qed

text \<open>
  Claim C8. The Jarque-Bera table has one row for each series that is not skipped, in
  the order of the columns of \<open>residuals_df\<close>. The row of a series bears its name and is
  computed from one sample, the residuals of the series without NaN in the order of
  their labels: the statistic and the p-value are those of \<open>jarque_bera\<close> on the sample,
  the skewness is \<open>skew\<close> of it and the kurtosis is \<open>kurtosis\<close> of it with
  \<open>fisher=False\<close>, Pearson's definition.
\<close>

theorem jarque_bera_record:
  assumes "combined_tests lib residuals_df fitted_values_df regressor excess_returns_df
             = Inr (bp, wh, sw, jb)"
  shows "let processed = filter (is_processed lib (index residuals_df)) (columns residuals_df)
         in length jb = length processed \<and>
            (\<forall>k<length processed.
               let sample = residual_sample (index residuals_df) (processed ! k)
               in jb_Fund (jb ! k) = fst (processed ! k) \<and> NaN \<notin> set sample \<and>
                  jarque_bera lib sample = Some (jb_Statistic (jb ! k), jb_p_value (jb ! k)) \<and>
                  jb_Skewness (jb ! k) = skew lib sample \<and>
                  jb_Kurtosis (jb ! k) = kurtosis lib sample False)"
proof -
  let ?L = "index residuals_df"
  let ?P = "filter (is_processed lib ?L) (columns residuals_df)"
  let ?f = "tests_for_column lib ?L fitted_values_df regressor excess_returns_df"
  from assms obtain outs where
    c: "collect ?f (columns residuals_df) = Inr outs"
    and j: "jb = map (snd \<circ> snd \<circ> snd) (concat (map series_rows outs))"
    by (auto simp: combined_tests_def Let_def split: sum.splits)
  let ?rows = "concat (map series_rows outs)"
  from processed_rows [OF c] have l: "length ?rows = length ?P"
    and t: "\<forall>k<length ?P. ?f (?P ! k) = Inr (Some (?rows ! k))" by simp_all
  have len: "length jb = length ?P" using j l by simp
  have each: "jb_Fund (jb ! k) = fst (?P ! k) \<and> NaN \<notin> set (residual_sample ?L (?P ! k)) \<and>
              jarque_bera lib (residual_sample ?L (?P ! k))
                = Some (jb_Statistic (jb ! k), jb_p_value (jb ! k)) \<and>
              jb_Skewness (jb ! k) = skew lib (residual_sample ?L (?P ! k)) \<and>
              jb_Kurtosis (jb ! k) = kurtosis lib (residual_sample ?L (?P ! k)) False"
    if k: "k < length ?P" for k
  proof -
    obtain b w s row where rs: "?rows ! k = (b, w, s, row)" by (cases "?rows ! k")
    have jk: "jb ! k = row" using j k l rs by simp
    from t k have "?f (?P ! k) = Inr (Some (b, w, s, row))" by (simp add: rs)
    from tests_for_column_Some [OF this]
    have d: "diagnose lib fitted_values_df regressor excess_returns_df (fst (?P ! k))
               (sort_index (dropna (column_frame ?L (?P ! k)))) = Inr (Some (b, w, s, row))"
      by simp
    from diagnose_Some [OF d]
    have e: "jarque_bera_entry lib (fst (?P ! k)) (residual_sample ?L (?P ! k)) = Inr row"
      unfolding residual_sample_def by blast
    have n: "NaN \<notin> set (residual_sample ?L (?P ! k))"
      using sample_no_nan [of ?L "fst (?P ! k)" "snd (?P ! k)"]
      by (simp add: residual_sample_def)
    from jarque_bera_entry_Inr [OF e] n show ?thesis by (simp add: jk)
  qed
  show ?thesis unfolding Let_def using len each by blast
qed

text \<open>The example of three series, the second of which is skipped.\<close>

lemma three_idx:
  "index three_residuals = [''2024-02-29'', ''2024-01-31'', ''2024-03-31'', ''2024-04-30'', ''total'']"
  by (simp add: three_residuals_def)

lemma fund_c_dropna:
  "dropna (column_frame [''2024-02-29'', ''2024-01-31'', ''2024-03-31'', ''2024-04-30'', ''total'']
     (''Fund C'', [Fin 2, Fin 0, Fin (- 2), Fin 0, NaN]))
   = \<lparr>index = [''2024-02-29'', ''2024-01-31'', ''2024-03-31'', ''2024-04-30''],
      columns = [(''Fund C'', [Fin 2, Fin 0, Fin (- 2), Fin 0])]\<rparr>"
  by (simp add: dropna_def column_frame_def take_rows_def row_has_nan_def upt5)

lemma fund_c_sample:
  "sort_index \<lparr>index = [''2024-02-29'', ''2024-01-31'', ''2024-03-31'', ''2024-04-30''],
      columns = [(''Fund C'', [Fin 2, Fin 0, Fin (- 2), Fin 0])]\<rparr>
   = \<lparr>index = [''2024-01-31'', ''2024-02-29'', ''2024-03-31'', ''2024-04-30''],
      columns = [(''Fund C'', [Fin 0, Fin 2, Fin (- 2), Fin 0])]\<rparr>"
  by (simp add: sort_index_def take_rows_def upt4)

lemma fund_c_moments:
  "moment_skew [Fin 0, Fin 2, Fin (- 2), Fin 0] = Fin 0"
  "moment_kurtosis [Fin 0, Fin 2, Fin (- 2), Fin 0] False = Fin 2"
  "moment_kurtosis [Fin 0, Fin 2, Fin (- 2), Fin 0] True = Fin (- 1)"
  "moment_jarque_bera [Fin 0, Fin 2, Fin (- 2), Fin 0] = Some (Fin (1 / 6), Fin (exp (- (1 / 12))))"
  by (simp_all add: moment_jarque_bera_def moment_skew_def moment_kurtosis_def all_finite_def
      reals_of_def central_moment_def)

lemma three_diagnose_a:
  "diagnose example_library three_fitted diag_regressor three_fitted ''Fund A''
     \<lparr>index = [''2024-01-31'', ''2024-02-29'', ''2024-03-31'', ''2024-04-30''],
      columns = [(''Fund A'', [Fin (- 1), Fin 1, Fin (- 1), Fin 1])]\<rparr>
   = Inr (Some fund_a_rows)"
proof -
  have c: "column_named three_fitted ''Fund A''
             = Inr (column_frame (index three_fitted) (''Fund A'', [Fin 2, Fin 1, Fin 3, Fin 4, NaN]))"
    by (simp add: column_named_def three_fitted_def)
  have "\<exists>r. loc (column_frame (index three_fitted) (''Fund A'', [Fin 2, Fin 1, Fin 3, Fin 4, NaN]))
     [''2024-01-31'', ''2024-02-29'', ''2024-03-31'', ''2024-04-30''] = Inr r"
    by (simp add: loc_def three_fitted_def column_frame_def)
  then obtain r where r: "loc (column_frame (index three_fitted) (''Fund A'', [Fin 2, Fin 1, Fin 3, Fin 4, NaN]))
     [''2024-01-31'', ''2024-02-29'', ''2024-03-31'', ''2024-04-30''] = Inr r"
    by blast
  have e: "add_constant (length (index diag_regressor)) (columns diag_regressor)
             = [(''const'', [Fin 1, Fin 1, Fin 1, Fin 1]), (''ln excess'', [Fin 1, Fin 2, Fin 3, Fin 4])]"
    by (simp add: add_constant_def diag_regressor_def is_const_column_def eval_nat_numeral)
  show ?thesis
    by (simp add: diagnose_def c r fund_a_loc_regressor diag_regressor_sorted e series_values_def
        example_library_def library_call_def jarque_bera_entry_def fund_a_moments fund_a_rows_def)
qed

lemma three_diagnose_c:
  "diagnose example_library three_fitted diag_regressor three_fitted ''Fund C''
     \<lparr>index = [''2024-01-31'', ''2024-02-29'', ''2024-03-31'', ''2024-04-30''],
      columns = [(''Fund C'', [Fin 0, Fin 2, Fin (- 2), Fin 0])]\<rparr>
   = Inr (Some fund_c_rows)"
proof -
  have c: "column_named three_fitted ''Fund C''
             = Inr (column_frame (index three_fitted) (''Fund C'', [Fin 1, Fin 2, Fin 1, Fin 2, NaN]))"
    by (simp add: column_named_def three_fitted_def)
  have "\<exists>r. loc (column_frame (index three_fitted) (''Fund C'', [Fin 1, Fin 2, Fin 1, Fin 2, NaN]))
     [''2024-01-31'', ''2024-02-29'', ''2024-03-31'', ''2024-04-30''] = Inr r"
    by (simp add: loc_def three_fitted_def column_frame_def)
  then obtain r where r: "loc (column_frame (index three_fitted) (''Fund C'', [Fin 1, Fin 2, Fin 1, Fin 2, NaN]))
     [''2024-01-31'', ''2024-02-29'', ''2024-03-31'', ''2024-04-30''] = Inr r"
    by blast
  have e: "add_constant (length (index diag_regressor)) (columns diag_regressor)
             = [(''const'', [Fin 1, Fin 1, Fin 1, Fin 1]), (''ln excess'', [Fin 1, Fin 2, Fin 3, Fin 4])]"
    by (simp add: add_constant_def diag_regressor_def is_const_column_def eval_nat_numeral)
  show ?thesis
    by (simp add: diagnose_def c r fund_a_loc_regressor diag_regressor_sorted e series_values_def
        example_library_def library_call_def jarque_bera_entry_def fund_c_moments fund_c_rows_def)
qed

lemma three_processed:
  "is_processed example_library (index three_residuals)
     (''Fund A'', [Fin 1, Fin (- 1), Fin (- 1), Fin 1, NaN])"
  "\<not> is_processed example_library (index three_residuals)
     (''Fund B'', [Fin 1, Fin 2, Fin 3, Fin 4, Fin 5])"
  "is_processed example_library (index three_residuals)
     (''Fund C'', [Fin 2, Fin 0, Fin (- 2), Fin 0, NaN])"
  by (simp_all add: is_processed_def three_idx fund_a_dropna fund_b_dropna fund_c_dropna
      example_library_def iso_dates)

lemma three_columns:
  "columns three_residuals = [(''Fund A'', [Fin 1, Fin (- 1), Fin (- 1), Fin 1, NaN]),
                 (''Fund B'', [Fin 1, Fin 2, Fin 3, Fin 4, Fin 5]),
                 (''Fund C'', [Fin 2, Fin 0, Fin (- 2), Fin 0, NaN])]"
  by (simp add: three_residuals_def)

lemma three_run:
  "combined_tests example_library three_residuals three_fitted diag_regressor three_fitted
     = Inr ([fst fund_a_rows, fst fund_c_rows], [fst (snd fund_a_rows), fst (snd fund_c_rows)],
            [fst (snd (snd fund_a_rows)), fst (snd (snd fund_c_rows))],
            [snd (snd (snd fund_a_rows)), snd (snd (snd fund_c_rows))])"
proof -
  have a: "tests_for_column example_library (index three_residuals) three_fitted diag_regressor
             three_fitted (''Fund A'', [Fin 1, Fin (- 1), Fin (- 1), Fin 1, NaN])
           = Inr (Some fund_a_rows)"
    using three_processed(1)
    by (simp add: is_processed_def tests_for_column_run three_idx fund_a_dropna fund_a_sample
        three_diagnose_a)
  have b: "tests_for_column example_library (index three_residuals) three_fitted diag_regressor
             three_fitted (''Fund B'', [Fin 1, Fin 2, Fin 3, Fin 4, Fin 5]) = Inr None"
    using three_processed(2) by (simp add: is_processed_def tests_for_column_skip)
  have c: "tests_for_column example_library (index three_residuals) three_fitted diag_regressor
             three_fitted (''Fund C'', [Fin 2, Fin 0, Fin (- 2), Fin 0, NaN])
           = Inr (Some fund_c_rows)"
    using three_processed(3)
    by (simp add: is_processed_def tests_for_column_run three_idx fund_c_dropna fund_c_sample
        three_diagnose_c)
  show ?thesis
    by (simp add: combined_tests_def three_columns a b c series_rows_def)
qed

text \<open>
  Claim C8 on three series, the second of which is skipped: the table has the rows of the
  first and the third. The sample of the third is 0, 2, -2, 0; its recorded kurtosis is 2,
  the Pearson value \<open>m\<^sub>4 / m\<^sub>2\<^sup>2\<close>, where \<open>fisher=True\<close> would give -1.
\<close>

theorem jarque_bera_record_witness:
  "combined_tests example_library three_residuals three_fitted diag_regressor three_fitted
     = Inr ([fst fund_a_rows, fst fund_c_rows], [fst (snd fund_a_rows), fst (snd fund_c_rows)],
            [fst (snd (snd fund_a_rows)), fst (snd (snd fund_c_rows))],
            [snd (snd (snd fund_a_rows)), snd (snd (snd fund_c_rows))]) \<and>
   filter (is_processed example_library (index three_residuals)) (columns three_residuals)
     = [columns three_residuals ! 0, columns three_residuals ! 2] \<and>
   residual_sample (index three_residuals) (columns three_residuals ! 0)
     = [Fin (- 1), Fin 1, Fin (- 1), Fin 1] \<and>
   residual_sample (index three_residuals) (columns three_residuals ! 2)
     = [Fin 0, Fin 2, Fin (- 2), Fin 0] \<and>
   jb_Fund (snd (snd (snd fund_a_rows))) = ''Fund A'' \<and>
   jb_Kurtosis (snd (snd (snd fund_a_rows)))
     = kurtosis example_library [Fin (- 1), Fin 1, Fin (- 1), Fin 1] False \<and>
   jb_Fund (snd (snd (snd fund_c_rows))) = ''Fund C'' \<and>
   jarque_bera example_library [Fin 0, Fin 2, Fin (- 2), Fin 0]
     = Some (jb_Statistic (snd (snd (snd fund_c_rows))), jb_p_value (snd (snd (snd fund_c_rows)))) \<and>
   jb_Skewness (snd (snd (snd fund_c_rows))) = skew example_library [Fin 0, Fin 2, Fin (- 2), Fin 0] \<and>
   jb_Kurtosis (snd (snd (snd fund_c_rows)))
     = kurtosis example_library [Fin 0, Fin 2, Fin (- 2), Fin 0] False \<and>
   jb_Kurtosis (snd (snd (snd fund_c_rows))) = Fin 2 \<and>
   kurtosis example_library [Fin 0, Fin 2, Fin (- 2), Fin 0] True = Fin (- 1)"
proof -
  have p: "filter (is_processed example_library (index three_residuals)) (columns three_residuals)
     = [columns three_residuals ! 0, columns three_residuals ! 2]"
    using three_processed by (simp add: three_columns)
  have s0: "residual_sample (index three_residuals) (columns three_residuals ! 0)
     = [Fin (- 1), Fin 1, Fin (- 1), Fin 1]"
    by (simp add: residual_sample_def three_columns three_idx fund_a_dropna fund_a_sample
        series_values_def)
  have s2: "residual_sample (index three_residuals) (columns three_residuals ! 2)
     = [Fin 0, Fin 2, Fin (- 2), Fin 0]"
    by (simp add: residual_sample_def three_columns three_idx fund_c_dropna fund_c_sample
        series_values_def)
  note t = jarque_bera_record [OF three_run, unfolded Let_def p, THEN conjunct2, rule_format]
  have a: "jb_Fund (snd (snd (snd fund_a_rows))) = ''Fund A'' \<and>
           jb_Kurtosis (snd (snd (snd fund_a_rows)))
             = kurtosis example_library [Fin (- 1), Fin 1, Fin (- 1), Fin 1] False"
    using t [of 0] s0 by (simp add: three_columns)
  have c: "jb_Fund (snd (snd (snd fund_c_rows))) = ''Fund C'' \<and>
     jarque_bera example_library [Fin 0, Fin 2, Fin (- 2), Fin 0]
       = Some (jb_Statistic (snd (snd (snd fund_c_rows))), jb_p_value (snd (snd (snd fund_c_rows)))) \<and>
     jb_Skewness (snd (snd (snd fund_c_rows))) = skew example_library [Fin 0, Fin 2, Fin (- 2), Fin 0] \<and>
     jb_Kurtosis (snd (snd (snd fund_c_rows)))
       = kurtosis example_library [Fin 0, Fin 2, Fin (- 2), Fin 0] False"
    using t [of 1] s2 by (simp add: three_columns)
  have k: "jb_Kurtosis (snd (snd (snd fund_c_rows))) = Fin 2"
    "kurtosis example_library [Fin 0, Fin 2, Fin (- 2), Fin 0] True = Fin (- 1)"
    by (simp_all add: fund_c_rows_def example_library_def fund_c_moments)
  show ?thesis using three_run p s0 s2 a c k by blast
qed

text \<open>Variance inflation factors.\<close>

text \<open>
  Claim C7, as the code has it. \<open>vif_fama\<close> takes the regressor panel alone, no series.
  It returns one row for each column of the panel after \<open>add_constant\<close>, in that order,
  and the value of a row is what the library's \<open>variance_inflation_factor\<close> returns for
  that column of the design. When no column of the panel is a constant other than zero,
  the first row is that of the added column \<open>const\<close> and there is one row more than the
  panel has regressors; when the panel has such a column, nothing is added and there are
  as many rows as regressors.
\<close>

theorem vif_per_design_column:
  assumes r: "vif_fama lib df_regressor_fama = Inr vif_data"
  shows "let df_with_constant = add_constant (length (index df_regressor_fama))
                                  (columns df_regressor_fama);
             exog = map snd df_with_constant
         in map fst vif_data = map fst df_with_constant \<and>
            length vif_data = length df_with_constant \<and>
            (\<forall>i<length df_with_constant.
               variance_inflation_factor lib exog i = Some (snd (vif_data ! i))) \<and>
            (\<not> list_ex (\<lambda>(name, col). is_const_column col) (columns df_regressor_fama) \<longrightarrow>
               df_with_constant =
                 (''const'', replicate (length (index df_regressor_fama)) (Fin 1))
                   # columns df_regressor_fama \<and>
               map fst vif_data = ''const'' # map fst (columns df_regressor_fama) \<and>
               length vif_data = length (columns df_regressor_fama) + 1) \<and>
            (list_ex (\<lambda>(name, col). is_const_column col) (columns df_regressor_fama) \<longrightarrow>
               df_with_constant = columns df_regressor_fama \<and>
               map fst vif_data = map fst (columns df_regressor_fama) \<and>
               length vif_data = length (columns df_regressor_fama))"
proof -
  define dwc where "dwc = add_constant (length (index df_regressor_fama)) (columns df_regressor_fama)"
  from r obtain vifs where
    c: "collect (\<lambda>i. library_call (variance_inflation_factor lib (map snd dwc) i))
          [0..<length dwc] = Inr vifs"
    and v: "vif_data = zip (map fst dwc) vifs"
    by (auto simp: vif_fama_def Let_def dwc_def split: sum.splits)
  from collect_Inr [OF c] have l: "length vifs = length dwc"
    and n: "\<forall>j<length dwc. library_call (variance_inflation_factor lib (map snd dwc) j)
              = Inr (vifs ! j)"
    by simp_all
  have names: "map fst vif_data = map fst dwc" by (simp add: v l)
  have len: "length vif_data = length dwc" by (simp add: v l)
  have each: "variance_inflation_factor lib (map snd dwc) i = Some (snd (vif_data ! i))"
    if i: "i < length dwc" for i
  proof -
    from n i have "library_call (variance_inflation_factor lib (map snd dwc) i) = Inr (vifs ! i)"
      by simp
    then have "variance_inflation_factor lib (map snd dwc) i = Some (vifs ! i)"
      by (auto simp: library_call_def split: option.splits)
    then show ?thesis using i l by (simp add: v)
  qed
  have const: "dwc = (''const'', replicate (length (index df_regressor_fama)) (Fin 1))
                       # columns df_regressor_fama \<and>
               map fst vif_data = ''const'' # map fst (columns df_regressor_fama) \<and>
               length vif_data = length (columns df_regressor_fama) + 1"
    if "\<not> list_ex (\<lambda>(name, col). is_const_column col) (columns df_regressor_fama)"
  proof -
    have "dwc = (''const'', replicate (length (index df_regressor_fama)) (Fin 1))
                       # columns df_regressor_fama"
      using that by (simp add: dwc_def add_constant_def)
    then show ?thesis using names len by simp
  qed
  have skip: "dwc = columns df_regressor_fama \<and>
               map fst vif_data = map fst (columns df_regressor_fama) \<and>
               length vif_data = length (columns df_regressor_fama)"
    if "list_ex (\<lambda>(name, col). is_const_column col) (columns df_regressor_fama)"
  proof -
    have "dwc = columns df_regressor_fama"
      using that by (simp add: dwc_def add_constant_def)
    then show ?thesis using names len by simp
  qed
  show ?thesis
    unfolding Let_def dwc_def [symmetric] using names len each const skip by blast
qed

lemma diag_regressor_vif:
  "vif_fama example_library diag_regressor = Inr [(''const'', Fin 6), (''ln excess'', Fin 1)]"
proof -
  have e: "add_constant (length (index diag_regressor)) (columns diag_regressor)
             = [(''const'', [Fin 1, Fin 1, Fin 1, Fin 1]), (''ln excess'', [Fin 1, Fin 2, Fin 3, Fin 4])]"
    by (simp add: add_constant_def diag_regressor_def is_const_column_def eval_nat_numeral)
  have v: "variance_inflation_factor example_library = vif_two_columns"
    by (simp add: example_library_def)
  have a: "vif_two_columns [[Fin 1, Fin 1, Fin 1, Fin 1], [Fin 1, Fin 2, Fin 3, Fin 4]] 0 = Some (Fin 6)"
    "vif_two_columns [[Fin 1, Fin 1, Fin 1, Fin 1], [Fin 1, Fin 2, Fin 3, Fin 4]] (Suc 0) = Some (Fin 1)"
    by (simp_all add: vif_two_columns_def all_finite_def reals_of_def is_const_column_def
        fsub_def Let_def)
  show ?thesis
    by (simp add: vif_fama_def e v upt2 a library_call_def)
qed

lemma constant_panel_vif:
  "vif_fama example_library constant_panel = Inr [(''ln excess'', Fin 1), (''SMB'', Fin 6)]"
proof -
  have e: "add_constant (length (index constant_panel)) (columns constant_panel)
             = [(''ln excess'', [Fin 1, Fin 2, Fin 3, Fin 4]), (''SMB'', [Fin 5, Fin 5, Fin 5, Fin 5])]"
    by (simp add: add_constant_def constant_panel_def is_const_column_def)
  have v: "variance_inflation_factor example_library = vif_two_columns"
    by (simp add: example_library_def)
  have a: "vif_two_columns [[Fin 1, Fin 2, Fin 3, Fin 4], [Fin 5, Fin 5, Fin 5, Fin 5]] 0 = Some (Fin 1)"
    "vif_two_columns [[Fin 1, Fin 2, Fin 3, Fin 4], [Fin 5, Fin 5, Fin 5, Fin 5]] (Suc 0) = Some (Fin 6)"
    by (simp_all add: vif_two_columns_def all_finite_def reals_of_def is_const_column_def
        fsub_def Let_def)
  show ?thesis
    by (simp add: vif_fama_def e v upt2 a library_call_def)
qed

text \<open>
  Claim C7 on a panel of one regressor: two rows, \<open>const\<close> first, with the values of the
  library for the two columns of the design.
\<close>

theorem vif_per_design_column_witness:
  "vif_fama example_library diag_regressor = Inr [(''const'', Fin 6), (''ln excess'', Fin 1)] \<and>
   \<not> list_ex (\<lambda>(name, col). is_const_column col) (columns diag_regressor) \<and>
   map fst [(''const'', Fin 6), (''ln excess'', Fin 1)] = ''const'' # map fst (columns diag_regressor) \<and>
   length [(''const'', Fin 6), (''ln excess'', Fin 1)] = length (columns diag_regressor) + 1 \<and>
   variance_inflation_factor example_library
     [[Fin 1, Fin 1, Fin 1, Fin 1], [Fin 1, Fin 2, Fin 3, Fin 4]] 0 = Some (Fin 6) \<and>
   variance_inflation_factor example_library
     [[Fin 1, Fin 1, Fin 1, Fin 1], [Fin 1, Fin 2, Fin 3, Fin 4]] 1 = Some (Fin 1)"
proof -
  have n: "\<not> list_ex (\<lambda>(name, col). is_const_column col) (columns diag_regressor)"
    by (simp add: diag_regressor_def is_const_column_def)
  have e: "add_constant (length (index diag_regressor)) (columns diag_regressor)
             = [(''const'', [Fin 1, Fin 1, Fin 1, Fin 1]), (''ln excess'', [Fin 1, Fin 2, Fin 3, Fin 4])]"
    by (simp add: add_constant_def diag_regressor_def is_const_column_def eval_nat_numeral)
  note t = vif_per_design_column [OF diag_regressor_vif, unfolded Let_def]
  from t [THEN conjunct2, THEN conjunct2, THEN conjunct2, THEN conjunct1, rule_format, OF n]
  have a: "map fst [(''const'', Fin 6), (''ln excess'', Fin 1)]
             = ''const'' # map fst (columns diag_regressor) \<and>
           length [(''const'', Fin 6), (''ln excess'', Fin 1)] = length (columns diag_regressor) + 1"
    by simp
  note u = t [THEN conjunct2, THEN conjunct2, THEN conjunct1, rule_format, unfolded e]
  have b: "variance_inflation_factor example_library
     [[Fin 1, Fin 1, Fin 1, Fin 1], [Fin 1, Fin 2, Fin 3, Fin 4]] 0 = Some (Fin 6)"
    using u [of 0] by simp
  have c: "variance_inflation_factor example_library
     [[Fin 1, Fin 1, Fin 1, Fin 1], [Fin 1, Fin 2, Fin 3, Fin 4]] 1 = Some (Fin 1)"
    using u [of 1] by simp
  show ?thesis using diag_regressor_vif n a b c by blast
qed

text \<open>
  Claim C7 as stated fails: on a panel whose second regressor is the constant 5 no
  column is added, and the result has the two rows of the regressors and none for an
  intercept.
\<close>

theorem constant_regressor_has_no_intercept_row:
  "list_ex (\<lambda>(name, col). is_const_column col) (columns constant_panel) \<and>
   length (columns constant_panel) = 2 \<and>
   vif_fama example_library constant_panel = Inr [(''ln excess'', Fin 1), (''SMB'', Fin 6)] \<and>
   ''const'' \<notin> set (map fst [(''ln excess'', Fin 1), (''SMB'', Fin 6)]) \<and>
   length [(''ln excess'', Fin 1), (''SMB'', Fin 6)] = length (columns constant_panel)"
  using constant_panel_vif by (simp add: constant_panel_def is_const_column_def)

end
